theory Spec2Isabelle
  imports Complex_Main
begin

section \<open>Floating-point values with the IEEE specials\<close>

text \<open>
  The gradient hooks of \<^verbatim>\<open>yolo/losses/yolo_loss.py\<close> exist because a gradient entry can
  be NaN or infinite. An entry is therefore a finite real or one of the three specials.
  Rounding and overflow of finite products are not modelled, and there is one zero.
\<close>

datatype fl = Fin real | PInf | MInf | NaN

fun is_finite :: "fl \<Rightarrow> bool" where
  "is_finite (Fin a) = True"
| "is_finite PInf = False"
| "is_finite MInf = False"
| "is_finite NaN = False"

definition signed_inf :: "real \<Rightarrow> fl" where
  "signed_inf s = (if s = 0 then NaN else if 0 < s then PInf else MInf)"

fun fl_mul :: "fl \<Rightarrow> fl \<Rightarrow> fl" where
  "fl_mul (Fin a) (Fin b) = Fin (a * b)"
| "fl_mul (Fin a) PInf = signed_inf a"
| "fl_mul (Fin a) MInf = signed_inf (- a)"
| "fl_mul PInf (Fin b) = signed_inf b"
| "fl_mul MInf (Fin b) = signed_inf (- b)"
| "fl_mul PInf PInf = PInf"
| "fl_mul PInf MInf = MInf"
| "fl_mul MInf PInf = MInf"
| "fl_mul MInf MInf = PInf"
| "fl_mul NaN b = NaN"
| "fl_mul a NaN = NaN"

fun fl_neg :: "fl \<Rightarrow> fl" where
  "fl_neg (Fin a) = Fin (- a)"
| "fl_neg PInf = MInf"
| "fl_neg MInf = PInf"
| "fl_neg NaN = NaN"

fun fl_abs :: "fl \<Rightarrow> fl" where
  "fl_abs (Fin a) = Fin \<bar>a\<bar>"
| "fl_abs PInf = PInf"
| "fl_abs MInf = PInf"
| "fl_abs NaN = NaN"

text \<open>The IEEE comparisons: every comparison with NaN is false.\<close>

fun fl_less :: "fl \<Rightarrow> fl \<Rightarrow> bool" where
  "fl_less (Fin a) (Fin b) = (a < b)"
| "fl_less (Fin a) PInf = True"
| "fl_less MInf (Fin b) = True"
| "fl_less MInf PInf = True"
| "fl_less a b = False"

definition fl_le :: "fl \<Rightarrow> fl \<Rightarrow> bool" where
  "fl_le a b = (a \<noteq> NaN \<and> b \<noteq> NaN \<and> (a = b \<or> fl_less a b))"

text \<open>\<^verbatim>\<open>tf.maximum\<close> and \<^verbatim>\<open>tf.minimum\<close>: NaN in either argument gives NaN.\<close>

definition fl_max :: "fl \<Rightarrow> fl \<Rightarrow> fl" where
  "fl_max a b = (if a = NaN \<or> b = NaN then NaN else if fl_less a b then b else a)"

definition fl_min :: "fl \<Rightarrow> fl \<Rightarrow> fl" where
  "fl_min a b = (if a = NaN \<or> b = NaN then NaN else if fl_less b a then b else a)"

text \<open>\<^verbatim>\<open>tf.clip_by_value(t, lo, hi)\<close> is \<^verbatim>\<open>minimum(maximum(t, lo), hi)\<close>.\<close>

definition clip_by_value :: "fl \<Rightarrow> fl \<Rightarrow> fl \<Rightarrow> fl" where
  "clip_by_value t lo hi = fl_min (fl_max t lo) hi"

text \<open>
  Modelled from the spec: \<^verbatim>\<open>math_ops.rm_nan_inf\<close> (module \<^verbatim>\<open>yolo.ops.math_ops\<close>) is
  not among the sources. The spec describes it as "sanitized (NaN/Inf \<rightarrow> 0)"; the call
  sites pass the replacement as \<^verbatim>\<open>val\<close>, which is 0 when omitted.
\<close>

definition rm_nan_inf :: "fl \<Rightarrow> fl \<Rightarrow> fl" where
  "rm_nan_inf x val = (if is_finite x then x else val)"

section \<open>Gradient-shaping hooks\<close>

text \<open>
  A \<^verbatim>\<open>tf.custom_gradient\<close> function returns its forward value and the function \<^verbatim>\<open>trap\<close>
  that maps the upstream gradient to one gradient per argument. The forward value is of
  any tensor type; a gradient tensor is a list of entries.
\<close>

definition obj_gradient_trap :: "'a \<Rightarrow> fl \<Rightarrow> 'a \<times> (fl list \<Rightarrow> fl list \<times> fl)" where
  "obj_gradient_trap y obj_normalizer =
     (y, \<lambda>dy. (map (\<lambda>g. fl_mul g obj_normalizer) dy, Fin 0))"

definition box_gradient_trap ::
  "'a \<Rightarrow> fl \<Rightarrow> fl \<Rightarrow> 'a \<times> (fl list \<Rightarrow> fl list \<times> fl \<times> fl)" where
  "box_gradient_trap y iou_normalizer max_delta =
     (y, \<lambda>dy.
        let dy = map (\<lambda>g. fl_mul g iou_normalizer) dy;
            dy = map (\<lambda>g. rm_nan_inf g (Fin 0)) dy;
            delta = max_delta;
            dy = map (\<lambda>g. clip_by_value g (fl_neg delta) delta) dy
        in (dy, Fin 0, Fin 0))"

definition class_gradient_trap :: "'a \<Rightarrow> fl \<Rightarrow> 'a \<times> (fl list \<Rightarrow> fl list \<times> fl)" where
  "class_gradient_trap y class_normalizer =
     (y, \<lambda>dy.
        let dy = map (\<lambda>g. fl_mul g class_normalizer) dy;
            dy = map (\<lambda>g. rm_nan_inf g (Fin 0)) dy
        in (dy, Fin 0))"

section \<open>Box codec\<close>

text \<open>
  Tensor entries of the forward pass are reals. A box tensor \<^verbatim>\<open>[..., 4]\<close> is taken at one
  grid cell and anchor: \<open>(x, y, w, h)\<close>; the slices \<^verbatim>\<open>[..., 0:2]\<close> and \<^verbatim>\<open>[..., 2:4]\<close> are
  pairs. \<^verbatim>\<open>width\<close> and \<^verbatim>\<open>height\<close> are the grid resolution cast to float; a division by a
  zero resolution, which is infinite or NaN in the source, is not given a meaning here, and
  every statement about the xy channel assumes a positive resolution.
\<close>

type_synonym vec2 = "real \<times> real"
type_synonym box = "real \<times> real \<times> real \<times> real"

definition sigmoid :: "real \<Rightarrow> real" where
  "sigmoid x = 1 / (1 + exp (- x))"

definition relu :: "real \<Rightarrow> real" where
  "relu x = max x 0"

definition square :: "real \<Rightarrow> real" where
  "square x = x * x"

fun get_predicted_box ::
  "real \<Rightarrow> real \<Rightarrow> box \<Rightarrow> vec2 \<Rightarrow> vec2 \<Rightarrow> real \<Rightarrow> fl \<Rightarrow> fl \<Rightarrow> vec2 \<times> vec2 \<times> box" where
  "get_predicted_box width height (rx, ry, rw, rh) (aw, ah) (gx, gy)
       scale_x_y iou_normalizer max_delta =
     (let pred_xy = (sigmoid rx * scale_x_y - 0.5 * (scale_x_y - 1),
                     sigmoid ry * scale_x_y - 0.5 * (scale_x_y - 1));
          pred_wh = (rw, rh);
          pred_xy = fst (box_gradient_trap pred_xy iou_normalizer max_delta);
          pred_wh = fst (box_gradient_trap pred_wh iou_normalizer max_delta);
          box_xy = (fst pred_xy / width + gx, snd pred_xy / height + gy);
          box_wh = (exp (fst pred_wh) * aw, exp (snd pred_wh) * ah);
          pred_box = (fst box_xy, snd box_xy, fst box_wh, snd box_wh)
      in (pred_xy, pred_wh, pred_box))"

fun get_predicted_box_newcords ::
  "real \<Rightarrow> real \<Rightarrow> box \<Rightarrow> vec2 \<Rightarrow> vec2 \<Rightarrow> real \<Rightarrow> fl \<Rightarrow> fl \<Rightarrow> vec2 \<times> vec2 \<times> box" where
  "get_predicted_box_newcords width height (rx, ry, rw, rh) (aw, ah) (gx, gy)
       scale_x_y iou_normalizer max_delta =
     (let pred_xy = (sigmoid rx * scale_x_y - 0.5 * (scale_x_y - 1),
                     sigmoid ry * scale_x_y - 0.5 * (scale_x_y - 1));
          pred_wh = (sigmoid rw, sigmoid rh);
          pred_xy = fst (box_gradient_trap pred_xy iou_normalizer max_delta);
          pred_wh = fst (box_gradient_trap pred_wh iou_normalizer max_delta);
          box_xy = (fst pred_xy / width + gx, snd pred_xy / height + gy);
          box_wh = (4 * square (fst pred_wh) * aw, 4 * square (snd pred_wh) * ah);
          pred_box = (fst box_xy, snd box_xy, fst box_wh, snd box_wh)
      in (pred_xy, pred_wh, pred_box))"

text \<open>
  The encoder takes a logarithm of a quotient and sanitizes it, so the quotient and the
  logarithm are computed with the IEEE specials: \<open>x / 0\<close> is infinite or NaN, \<open>log 0\<close> is
  \<open>-\<infinity>\<close>, the logarithm of a negative number is NaN.
\<close>

definition fl_div :: "real \<Rightarrow> real \<Rightarrow> fl" where
  "fl_div a b = (if b = 0 then signed_inf a else Fin (a / b))"

fun fl_log :: "fl \<Rightarrow> fl" where
  "fl_log (Fin x) = (if 0 < x then Fin (ln x) else if x = 0 then MInf else NaN)"
| "fl_log PInf = PInf"
| "fl_log MInf = NaN"
| "fl_log NaN = NaN"

text \<open>The real value of a sanitized entry (the specials do not occur after \<open>rm_nan_inf\<close>).\<close>

fun fl_real :: "fl \<Rightarrow> real" where
  "fl_real (Fin a) = a"
| "fl_real PInf = 0"
| "fl_real MInf = 0"
| "fl_real NaN = 0"

fun scale_ground_truth_box :: "box \<Rightarrow> real \<Rightarrow> real \<Rightarrow> vec2 \<Rightarrow> vec2 \<Rightarrow> vec2 \<times> vec2" where
  "scale_ground_truth_box (bx, by, bw, bh) width height (aw, ah) (gx, gy) =
     (let xy = (relu (bx - gx), relu (by - gy));
          xy = (fst xy * width, snd xy * height);
          wh = (fl_log (fl_div bw aw), fl_log (fl_div bh ah));
          wh = (rm_nan_inf (fst wh) (Fin 0), rm_nan_inf (snd wh) (Fin 0))
      in (xy, (fl_real (fst wh), fl_real (snd wh))))"

text \<open>Projections of the decoder's result and of a box.\<close>

definition pred_xy_of :: "vec2 \<times> vec2 \<times> box \<Rightarrow> vec2" where
  "pred_xy_of r = fst r"

definition pred_wh_of :: "vec2 \<times> vec2 \<times> box \<Rightarrow> vec2" where
  "pred_wh_of r = fst (snd r)"

definition pred_box_of :: "vec2 \<times> vec2 \<times> box \<Rightarrow> box" where
  "pred_box_of r = snd (snd r)"

fun box_xy :: "box \<Rightarrow> vec2" where
  "box_xy (x, y, w, h) = (x, y)"

fun box_wh :: "box \<Rightarrow> vec2" where
  "box_wh (x, y, w, h) = (w, h)"

section \<open>The new-coordinates decoder in single precision\<close>

text \<open>
  \<^verbatim>\<open>__call__\<close> casts the predictions to \<^verbatim>\<open>float32\<close>, and there the sigmoid reaches 1. A
  \<^verbatim>\<open>float32\<close> operation is the exact operation followed by rounding to the nearest number
  with a significand of 24 bits: \<open>f32_ulp x\<close> is the distance of such numbers around \<open>x\<close>.
  The exponent range is not bounded (no overflow, no subnormal numbers), a tie is rounded
  away from zero, and the sigmoid is taken as correctly rounded.
\<close>

definition f32_ulp :: "real \<Rightarrow> real" where
  "f32_ulp x = 2 powr (real_of_int \<lfloor>log 2 \<bar>x\<bar>\<rfloor> - 23)"

definition f32 :: "real \<Rightarrow> real" where
  "f32 x = (if x = 0 then 0
            else sgn x * real_of_int \<lfloor>\<bar>x\<bar> / f32_ulp x + 1 / 2\<rfloor> * f32_ulp x)"

definition sigmoid_f32 :: "real \<Rightarrow> real" where
  "sigmoid_f32 x = f32 (sigmoid x)"

text \<open>
  \<^verbatim>\<open>get_predicted_box_newcords\<close> with every operation in single precision. The constant
  \<open>0.5 * (scale_x_y - 1)\<close> is computed by Python before it becomes a \<^verbatim>\<open>float32\<close>.
\<close>

fun get_predicted_box_newcords_f32 ::
  "real \<Rightarrow> real \<Rightarrow> box \<Rightarrow> vec2 \<Rightarrow> vec2 \<Rightarrow> real \<Rightarrow> fl \<Rightarrow> fl \<Rightarrow> vec2 \<times> vec2 \<times> box" where
  "get_predicted_box_newcords_f32 width height (rx, ry, rw, rh) (aw, ah) (gx, gy)
       scale_x_y iou_normalizer max_delta =
     (let pred_xy = (f32 (f32 (sigmoid_f32 rx * f32 scale_x_y) - f32 (0.5 * (scale_x_y - 1))),
                     f32 (f32 (sigmoid_f32 ry * f32 scale_x_y) - f32 (0.5 * (scale_x_y - 1))));
          pred_wh = (sigmoid_f32 rw, sigmoid_f32 rh);
          pred_xy = fst (box_gradient_trap pred_xy iou_normalizer max_delta);
          pred_wh = fst (box_gradient_trap pred_wh iou_normalizer max_delta);
          box_xy = (f32 (f32 (fst pred_xy / width) + gx), f32 (f32 (snd pred_xy / height) + gy));
          box_wh = (f32 (f32 (4 * f32 (square (fst pred_wh))) * aw),
                    f32 (f32 (4 * f32 (square (snd pred_wh))) * ah));
          pred_box = (fst box_xy, snd box_xy, fst box_wh, snd box_wh)
      in (pred_xy, pred_wh, pred_box))"

text \<open>The decoded width or height for an anchor width or height \<open>a\<close> and a raw input \<open>r\<close>.\<close>

definition wh_f32 :: "real \<Rightarrow> real \<Rightarrow> real" where
  "wh_f32 a r = f32 (f32 (4 * f32 (square (sigmoid_f32 r))) * a)"

section \<open>Tensors\<close>

text \<open>
  Where the source moves axes around, a tensor is its shape and its entries by index. The
  entries of a tensor of boxes are boxes: its last axis, of size 4, is inside the entry,
  and \<open>inner\<close> below counts such axes (1 for a tensor of boxes, 0 otherwise), so that the
  axis numbers of the source can be kept.
\<close>

datatype error =
    NameError string
  | TypeError string
  | ValueError string
  | KeyError string
  | InvalidArgumentError string

record 'a tensor =
  shape :: "nat list"
  entry :: "nat list \<Rightarrow> 'a"

definition then_res :: "error + 'a \<Rightarrow> ('a \<Rightarrow> error + 'b) \<Rightarrow> error + 'b" where
  "then_res r f = (case r of Inl e \<Rightarrow> Inl e | Inr v \<Rightarrow> f v)"

text \<open>A negative axis counts from the end, as in Python.\<close>

definition norm_axis :: "nat \<Rightarrow> int \<Rightarrow> nat" where
  "norm_axis rank axis = nat (if axis < 0 then int rank + axis else axis)"

definition expand_dims :: "nat \<Rightarrow> 'a tensor \<Rightarrow> int \<Rightarrow> 'a tensor" where
  "expand_dims inner t axis =
     (let k = norm_axis (length (shape t) + inner + 1) axis
      in \<lparr>shape = take k (shape t) @ [1] @ drop k (shape t),
          entry = \<lambda>i. entry t (take k i @ drop (Suc k) i)\<rparr>)"

fun index_of :: "'a list \<Rightarrow> 'a \<Rightarrow> nat" where
  "index_of [] k = 0"
| "index_of (p # ps) k = (if p = k then 0 else Suc (index_of ps k))"

text \<open>\<^verbatim>\<open>tf.transpose(t, perm)\<close>: axis \<open>i\<close> of the result is axis \<open>perm[i]\<close> of \<open>t\<close>.\<close>

definition transpose_perm :: "'a tensor \<Rightarrow> nat list \<Rightarrow> 'a tensor" where
  "transpose_perm t perm =
     \<lparr>shape = map (\<lambda>p. shape t ! p) perm,
      entry = \<lambda>i. entry t (map (\<lambda>k. i ! index_of perm k) [0..<length perm])\<rparr>"

definition unop :: "('a \<Rightarrow> 'b) \<Rightarrow> 'a tensor \<Rightarrow> 'b tensor" where
  "unop f t = \<lparr>shape = shape t, entry = \<lambda>i. f (entry t i)\<rparr>"

text \<open>
  Broadcasting of an elementwise binary operation: shapes are aligned at the last axis,
  the shorter one is padded with 1, an axis of size 1 is repeated, and two sizes that
  differ and are both not 1 are an error.
\<close>

definition pad_shape :: "nat \<Rightarrow> nat list \<Rightarrow> nat list" where
  "pad_shape r s = replicate (r - length s) 1 @ s"

definition bdim_ok :: "nat \<times> nat \<Rightarrow> bool" where
  "bdim_ok d = (fst d = snd d \<or> fst d = 1 \<or> snd d = 1)"

definition bdim :: "nat \<times> nat \<Rightarrow> nat" where
  "bdim d = (if fst d = 1 then snd d else fst d)"

definition bshape :: "nat list \<Rightarrow> nat list \<Rightarrow> error + nat list" where
  "bshape s1 s2 =
     (let r = max (length s1) (length s2);
          ds = zip (pad_shape r s1) (pad_shape r s2)
      in if list_all bdim_ok ds then Inr (map bdim ds)
         else Inl (InvalidArgumentError ''Incompatible shapes''))"

definition bidx :: "nat list \<Rightarrow> nat list \<Rightarrow> nat list" where
  "bidx s i = map (\<lambda>(d, k). if d = 1 then 0 else k) (zip s (drop (length i - length s) i))"

definition binop :: "('a \<Rightarrow> 'b \<Rightarrow> 'c) \<Rightarrow> 'a tensor \<Rightarrow> 'b tensor \<Rightarrow> error + 'c tensor" where
  "binop f t1 t2 =
     then_res (bshape (shape t1) (shape t2))
       (\<lambda>s. Inr \<lparr>shape = s,
                 entry = \<lambda>i. f (entry t1 (bidx (shape t1) i)) (entry t2 (bidx (shape t2) i))\<rparr>)"

text \<open>\<^verbatim>\<open>tf.reduce_any(t, axis=-1, keepdims=False)\<close>.\<close>

definition reduce_any_last :: "bool tensor \<Rightarrow> bool tensor" where
  "reduce_any_last t =
     \<lparr>shape = butlast (shape t),
      entry = \<lambda>i. list_ex (\<lambda>k. entry t (i @ [k])) [0..<last (shape t)]\<rparr>"

text \<open>
  \<^verbatim>\<open>tf.argmax(t, axis=-1)\<close>: the smallest index of a largest entry; a reduction over an
  empty axis is an error.
\<close>

definition argmax_list :: "real list \<Rightarrow> nat" where
  "argmax_list xs = index_of xs (fold max xs (hd xs))"

definition argmax_last :: "real tensor \<Rightarrow> error + nat tensor" where
  "argmax_last t =
     (if shape t = [] \<or> last (shape t) = 0
      then Inl (InvalidArgumentError ''Reduction axis -1 is empty'')
      else Inr \<lparr>shape = butlast (shape t),
                entry = \<lambda>i. argmax_list (map (\<lambda>k. entry t (i @ [k])) [0..<last (shape t)])\<rparr>)"

section \<open>Assignment and masking\<close>

text \<open>
  The functions of \<^verbatim>\<open>yolo.ops.box_ops\<close> are not among the sources. The loss and the
  suppression are functions of them: \<^verbatim>\<open>compute_iou\<close>, \<^verbatim>\<open>compute_giou\<close>, \<^verbatim>\<open>compute_ciou\<close> and
  \<^verbatim>\<open>compute_diou\<close> on a pair of boxes, each with its flag \<^verbatim>\<open>yxyx\<close> (false when omitted) for
  the layout of the boxes (the last three return the IoU and the generalized value), and
  \<^verbatim>\<open>yxyx_to_xcycwh\<close> on a box. On tensors they act entry by entry, with broadcasting.
\<close>

record box_ops =
  compute_iou :: "bool \<Rightarrow> box \<Rightarrow> box \<Rightarrow> real"
  compute_giou :: "bool \<Rightarrow> box \<Rightarrow> box \<Rightarrow> real \<times> real"
  compute_ciou :: "bool \<Rightarrow> box \<Rightarrow> box \<Rightarrow> real \<times> real"
  compute_diou :: "bool \<Rightarrow> box \<Rightarrow> box \<Rightarrow> real \<times> real"
  yxyx_to_xcycwh :: "box \<Rightarrow> box"

definition cast_bool :: "bool \<Rightarrow> real" where
  "cast_bool b = (if b then 1 else 0)"

definition build_masks ::
  "box_ops \<Rightarrow> real \<Rightarrow> real \<Rightarrow> box tensor \<Rightarrow> real tensor \<Rightarrow> box tensor \<Rightarrow> real tensor
     \<Rightarrow> error + real tensor \<times> real tensor" where
  "build_masks ops ignore_thresh truth_thresh pred_boxes pred_classes boxes classes =
     (let boxes = expand_dims 1 boxes (- 2);
          boxes = expand_dims 1 boxes 1;
          boxes = expand_dims 1 boxes 1;
          boxes = unop (yxyx_to_xcycwh ops) boxes;
          pred_boxes = expand_dims 1 pred_boxes (- 3);
          classes = expand_dims 0 classes 1;
          classes = expand_dims 0 classes 1;
          classes = expand_dims 0 classes 1
      in then_res (argmax_last pred_classes) (\<lambda>pred_classes_max.
         let pred_classes_max = unop real (expand_dims 0 pred_classes_max (- 1))
         in then_res (binop (=) classes pred_classes_max) (\<lambda>matched_classes.
            then_res (binop (compute_iou ops False) boxes pred_boxes) (\<lambda>iou.
            let iou_mask = unop (\<lambda>v. ignore_thresh < v) iou;
                iou_mask = transpose_perm iou_mask [0, 1, 2, 4, 3]
            in then_res (binop (\<and>) iou_mask matched_classes) (\<lambda>iou_mask.
               let iou_mask = reduce_any_last iou_mask;
                   true_mask = unop cast_bool (unop (\<lambda>v. truth_thresh < v) iou);
                   ignore_mask = unop cast_bool (unop Not iou_mask)
               in Inr (ignore_mask, true_mask))))))"

section \<open>Box operations used at concrete inputs\<close>

text \<open>
  Modelled from the spec: \<^verbatim>\<open>math_ops.divide_no_nan\<close> and \<^verbatim>\<open>math_ops.mul_no_nan\<close> (module
  \<^verbatim>\<open>yolo.ops.math_ops\<close>) are not among the sources. The spec: "any division is safe
  (returns 0 instead of NaN/Inf when the denominator is 0)". On reals the NaN-safe product
  is the product.
\<close>

definition divide_no_nan :: "real \<Rightarrow> real \<Rightarrow> real" where
  "divide_no_nan a b = (if b = 0 then 0 else a / b)"

definition mul_no_nan :: "real \<Rightarrow> real \<Rightarrow> real" where
  "mul_no_nan x y = x * y"

text \<open>
  Modelled from the spec: the functions of \<^verbatim>\<open>yolo.ops.box_ops\<close> are not among the sources.
  The theorems below hold for every choice of them; these definitions follow the spec's
  glossary ("ratio of overlapping area to union area between two boxes", and for
  GIoU, DIoU and CIoU "penalty terms for enclosing-box distance/aspect ratio") and give
  the concrete inputs of the examples a value. A box is \<open>(y_min, x_min, y_max, x_max)\<close> in
  the yxyx layout and \<open>(x_center, y_center, width, height)\<close> in the xcycwh layout.
\<close>

fun spec_yxyx_to_xcycwh :: "box \<Rightarrow> box" where
  "spec_yxyx_to_xcycwh (y1, x1, y2, x2) = ((x1 + x2) / 2, (y1 + y2) / 2, x2 - x1, y2 - y1)"

fun spec_xcycwh_to_yxyx :: "box \<Rightarrow> box" where
  "spec_xcycwh_to_yxyx (x, y, w, h) = (y - h / 2, x - w / 2, y + h / 2, x + w / 2)"

fun intersection_yxyx :: "box \<Rightarrow> box \<Rightarrow> real" where
  "intersection_yxyx (ya1, xa1, ya2, xa2) (yb1, xb1, yb2, xb2) =
     max (min ya2 yb2 - max ya1 yb1) 0 * max (min xa2 xb2 - max xa1 xb1) 0"

fun area_yxyx :: "box \<Rightarrow> real" where
  "area_yxyx (y1, x1, y2, x2) = \<bar>(y2 - y1) * (x2 - x1)\<bar>"

definition union_yxyx :: "box \<Rightarrow> box \<Rightarrow> real" where
  "union_yxyx a b = area_yxyx a + area_yxyx b - intersection_yxyx a b"

definition spec_iou_yxyx :: "box \<Rightarrow> box \<Rightarrow> real" where
  "spec_iou_yxyx a b = divide_no_nan (intersection_yxyx a b) (union_yxyx a b)"

fun enclosing_yxyx :: "box \<Rightarrow> box \<Rightarrow> box" where
  "enclosing_yxyx (ya1, xa1, ya2, xa2) (yb1, xb1, yb2, xb2) =
     (min ya1 yb1, min xa1 xb1, max ya2 yb2, max xa2 xb2)"

definition spec_giou_yxyx :: "box \<Rightarrow> box \<Rightarrow> real \<times> real" where
  "spec_giou_yxyx a b =
     (let iou = spec_iou_yxyx a b;
          c = area_yxyx (enclosing_yxyx a b)
      in (iou, iou - divide_no_nan (c - union_yxyx a b) c))"

fun center_distance2 :: "box \<Rightarrow> box \<Rightarrow> real" where
  "center_distance2 (ya1, xa1, ya2, xa2) (yb1, xb1, yb2, xb2) =
     square ((ya1 + ya2) / 2 - (yb1 + yb2) / 2) + square ((xa1 + xa2) / 2 - (xb1 + xb2) / 2)"

fun diagonal2 :: "box \<Rightarrow> real" where
  "diagonal2 (y1, x1, y2, x2) = square (y2 - y1) + square (x2 - x1)"

definition spec_diou_yxyx :: "box \<Rightarrow> box \<Rightarrow> real \<times> real" where
  "spec_diou_yxyx a b =
     (let iou = spec_iou_yxyx a b
      in (iou, iou - divide_no_nan (center_distance2 a b) (diagonal2 (enclosing_yxyx a b))))"

fun aspect_term :: "box \<Rightarrow> box \<Rightarrow> real" where
  "aspect_term (ya1, xa1, ya2, xa2) (yb1, xb1, yb2, xb2) =
     4 / (pi * pi) * square (arctan (divide_no_nan (xa2 - xa1) (ya2 - ya1))
                              - arctan (divide_no_nan (xb2 - xb1) (yb2 - yb1)))"

definition spec_ciou_yxyx :: "box \<Rightarrow> box \<Rightarrow> real \<times> real" where
  "spec_ciou_yxyx a b =
     (let iou = spec_iou_yxyx a b;
          v = aspect_term a b;
          alpha = divide_no_nan v (1 - iou + v)
      in (iou, snd (spec_diou_yxyx a b) - alpha * v))"

definition with_layout :: "(box \<Rightarrow> box \<Rightarrow> 'a) \<Rightarrow> bool \<Rightarrow> box \<Rightarrow> box \<Rightarrow> 'a" where
  "with_layout f yxyx a b =
     (if yxyx then f a b else f (spec_xcycwh_to_yxyx a) (spec_xcycwh_to_yxyx b))"

definition spec_box_ops :: box_ops where
  "spec_box_ops =
     \<lparr>compute_iou = with_layout spec_iou_yxyx,
      compute_giou = with_layout spec_giou_yxyx,
      compute_ciou = with_layout spec_ciou_yxyx,
      compute_diou = with_layout spec_diou_yxyx,
      yxyx_to_xcycwh = spec_yxyx_to_xcycwh\<rparr>"

section \<open>Construction of the loss\<close>

text \<open>
  \<^verbatim>\<open>GridGenerator\<close> (module \<^verbatim>\<open>yolo.ops.loss_utils\<close>) is not among the sources. Its
  constructor is a parameter of the construction of the loss and may raise. The object it
  returns is called with the grid width, the grid height and the batch size, and returns
  \<^verbatim>\<open>grid_points\<close> (shape \<open>[1, W, H, 1, 2]\<close>, read at a column and a row) and
  \<^verbatim>\<open>anchor_grid\<close> (shape \<open>[1, 1, 1, A, 2]\<close>, read at an anchor).
\<close>

type_synonym grid_gen = "nat \<Rightarrow> nat \<Rightarrow> nat \<Rightarrow> (nat \<Rightarrow> nat \<Rightarrow> vec2) \<times> (nat \<Rightarrow> vec2)"

text \<open>The arguments of \<^verbatim>\<open>Yolo_Loss.__init__\<close> and the attributes it sets.\<close>

record init_args =
  arg_classes :: int
  arg_mask :: "nat list"
  arg_anchors :: "vec2 list"
  arg_scale_anchors :: real
  arg_num_extras :: int
  arg_ignore_thresh :: real
  arg_truth_thresh :: real
  arg_loss_type :: string
  arg_iou_normalizer :: real
  arg_cls_normalizer :: real
  arg_obj_normalizer :: real
  arg_use_reduction_sum :: bool
  arg_iou_thresh :: real
  arg_new_cords :: bool
  arg_scale_x_y :: real
  arg_max_delta :: fl
  arg_nms_kind :: string
  arg_beta_nms :: real
  arg_path_key :: "string option"
  arg_use_tie_breaker :: bool

record Yolo_Loss =
  self_classes :: int
  self_num :: nat
  self_num_extras :: int
  self_truth_thresh :: real
  self_ignore_thresh :: real
  self_iou_thresh :: real
  self_masks :: "nat list"
  self_use_tie_breaker :: bool
  self_loss_type :: nat
  self_iou_normalizer :: real
  self_cls_normalizer :: real
  self_obj_normalizer :: real
  self_scale_x_y :: real
  self_max_delta :: fl
  self_label_smoothing :: real
  self_use_reduction_sum :: bool
  self_beta_nms :: real
  self_nms_kind :: string
  self_new_cords :: bool
  self_anchor_generator :: grid_gen
  self_path_key :: "string option"

definition Yolo_Loss_init ::
  "(nat list \<Rightarrow> vec2 list \<Rightarrow> real \<Rightarrow> error + grid_gen) \<Rightarrow> init_args \<Rightarrow> error + Yolo_Loss" where
  "Yolo_Loss_init GridGenerator args =
     (let loss_type = (if arg_loss_type args = ''giou'' then 1
                       else if arg_loss_type args = ''ciou'' then 2
                       else 0)
      in then_res (GridGenerator (arg_mask args) (arg_anchors args) (arg_scale_anchors args))
           (\<lambda>anchor_generator. Inr
              \<lparr>self_classes = arg_classes args,
               self_num = length (arg_mask args),
               self_num_extras = arg_num_extras args,
               self_truth_thresh = arg_truth_thresh args,
               self_ignore_thresh = arg_ignore_thresh args,
               self_iou_thresh = arg_iou_thresh args,
               self_masks = arg_mask args,
               self_use_tie_breaker = arg_use_tie_breaker args,
               self_loss_type = loss_type,
               self_iou_normalizer = arg_iou_normalizer args,
               self_cls_normalizer = arg_cls_normalizer args,
               self_obj_normalizer = arg_obj_normalizer args,
               self_scale_x_y = arg_scale_x_y args,
               self_max_delta = arg_max_delta args,
               self_label_smoothing = 0,
               self_use_reduction_sum = arg_use_reduction_sum args,
               self_beta_nms = arg_beta_nms args,
               self_nms_kind = arg_nms_kind args,
               self_new_cords = arg_new_cords args,
               self_anchor_generator = anchor_generator,
               self_path_key = arg_path_key args\<rparr>))"

text \<open>
  \<^verbatim>\<open>self._decode_boxes\<close>: the decoder chosen by \<^verbatim>\<open>new_cords\<close>, with \<^verbatim>\<open>scale_x_y\<close>,
  \<^verbatim>\<open>iou_normalizer\<close> and \<^verbatim>\<open>max_delta\<close> bound to the attributes.
\<close>

definition decode_boxes ::
  "Yolo_Loss \<Rightarrow> real \<Rightarrow> real \<Rightarrow> box \<Rightarrow> vec2 \<Rightarrow> vec2 \<Rightarrow> vec2 \<times> vec2 \<times> box" where
  "decode_boxes self width height unscaled_box anchor_grid grid_points =
     (if \<not> self_new_cords self
      then get_predicted_box width height unscaled_box anchor_grid grid_points
             (self_scale_x_y self) (Fin (self_iou_normalizer self)) (self_max_delta self)
      else get_predicted_box_newcords width height unscaled_box anchor_grid grid_points
             (self_scale_x_y self) (Fin (self_iou_normalizer self)) (self_max_delta self))"

section \<open>The loss\<close>

text \<open>
  \<^verbatim>\<open>tf.reshape(y_pred, [batch_size, width, height, num, -1])\<close>: entries keep their row-major
  position, the last size is inferred, and the reshape fails when it cannot be.
\<close>

fun ravel :: "nat list \<Rightarrow> nat list \<Rightarrow> nat" where
  "ravel (d # ds) (i # is) = i * prod_list ds + ravel ds is"
| "ravel ds is = 0"

fun unravel :: "nat list \<Rightarrow> nat \<Rightarrow> nat list" where
  "unravel [] f = []"
| "unravel (d # ds) f = f div prod_list ds # unravel ds (f mod prod_list ds)"

definition reshape_infer :: "'a tensor \<Rightarrow> nat list \<Rightarrow> error + 'a tensor" where
  "reshape_infer t dims =
     (let total = prod_list (shape t);
          known = prod_list dims
      in if known = 0 \<or> total mod known \<noteq> 0
         then Inl (InvalidArgumentError ''Input to reshape cannot be inferred'')
         else Inr \<lparr>shape = dims @ [total div known],
                   entry = \<lambda>i. entry t (unravel (shape t) (ravel (dims @ [total div known]) i))\<rparr>)"

text \<open>
  \<^verbatim>\<open>tf.split(y_pred, [4, 1, -1], axis=-1)\<close> and \<^verbatim>\<open>tf.split(y_true, [4, 1, 1, 1], axis=-1)\<close>,
  the latter followed by the three squeezes. The four box channels become a box.
\<close>

definition channels_box :: "real tensor \<Rightarrow> nat list \<Rightarrow> box" where
  "channels_box t i = (entry t (i @ [0]), entry t (i @ [1]), entry t (i @ [2]), entry t (i @ [3]))"

definition split_pred ::
  "real tensor \<Rightarrow> error + (nat list \<Rightarrow> box) \<times> (nat list \<Rightarrow> real) \<times> (nat list \<Rightarrow> nat \<Rightarrow> real) \<times> nat" where
  "split_pred t =
     (if shape t = [] \<or> last (shape t) < 5
      then Inl (InvalidArgumentError ''split sizes do not fit the axis'')
      else Inr (channels_box t, \<lambda>i. entry t (i @ [4]), \<lambda>i c. entry t (i @ [5 + c]),
                last (shape t) - 5))"

definition split_true ::
  "real tensor \<Rightarrow> error + (nat list \<Rightarrow> box) \<times> (nat list \<Rightarrow> real) \<times> (nat list \<Rightarrow> real)
                        \<times> (nat list \<Rightarrow> real)" where
  "split_true t =
     (if shape t = [] \<or> last (shape t) \<noteq> 7
      then Inl (InvalidArgumentError ''split sizes do not fit the axis'')
      else Inr (channels_box t, \<lambda>i. entry t (i @ [4]), \<lambda>i. entry t (i @ [5]),
                \<lambda>i. entry t (i @ [6])))"

text \<open>\<^verbatim>\<open>tf.cast\<close> of a float to \<^verbatim>\<open>int32\<close> truncates towards zero; \<^verbatim>\<open>tf.one_hot\<close> at a class.\<close>

definition cast_int32 :: "real \<Rightarrow> int" where
  "cast_int32 x = (if 0 \<le> x then \<lfloor>x\<rfloor> else \<lceil>x\<rceil>)"

definition one_hot :: "int \<Rightarrow> nat \<Rightarrow> real" where
  "one_hot k c = (if k = int c then 1 else 0)"

text \<open>
  \<^verbatim>\<open>ks.losses.binary_crossentropy\<close> of Keras on a last axis of size 1, over which its mean
  is the entry itself: with \<^verbatim>\<open>from_logits=True\<close> the sigmoid cross-entropy of the logit,
  otherwise the cross-entropy of the probability clipped to \<open>[\<epsilon>, 1 - \<epsilon>]\<close>, after the label
  smoothing.
\<close>

definition bce_logits :: "real \<Rightarrow> real \<Rightarrow> real" where
  "bce_logits target logit = max logit 0 - logit * target + ln (1 + exp (- \<bar>logit\<bar>))"

definition K_epsilon :: real where
  "K_epsilon = 1 / 10 ^ 7"

definition bce_probs :: "real \<Rightarrow> real \<Rightarrow> real \<Rightarrow> real" where
  "bce_probs label_smoothing target output =
     (let target = target * (1 - label_smoothing) + 0.5 * label_smoothing;
          output = min (max output K_epsilon) (1 - K_epsilon)
      in - (target * ln (output + K_epsilon) + (1 - target) * ln (1 - output + K_epsilon)))"

text \<open>
  Reductions. \<^verbatim>\<open>tf.reduce_sum(t, axis=(1, 2, 3))\<close> of a tensor of shape \<open>[B, W, H, A]\<close> at
  image \<open>b\<close>, the sum and the count of non-zero entries over all axes, and the mean of a
  vector (which is NaN in the source for an empty vector and has no meaning here).
\<close>

definition reduce_sum_123 :: "nat \<Rightarrow> nat \<Rightarrow> nat \<Rightarrow> (nat list \<Rightarrow> real) \<Rightarrow> nat \<Rightarrow> real" where
  "reduce_sum_123 W H A f b =
     sum_list (map (\<lambda>i. sum_list (map (\<lambda>j. sum_list (map (\<lambda>a. f [b, i, j, a]) [0..<A]))
                                       [0..<H]))
                 [0..<W])"

definition reduce_sum_all :: "nat \<Rightarrow> nat \<Rightarrow> nat \<Rightarrow> nat \<Rightarrow> (nat list \<Rightarrow> real) \<Rightarrow> real" where
  "reduce_sum_all B W H A f = sum_list (map (reduce_sum_123 W H A f) [0..<B])"

definition count_nonzero :: "nat \<Rightarrow> nat \<Rightarrow> nat \<Rightarrow> nat \<Rightarrow> (nat list \<Rightarrow> real) \<Rightarrow> real" where
  "count_nonzero B W H A f = reduce_sum_all B W H A (\<lambda>i. if f i \<noteq> 0 then 1 else 0)"

definition reduce_mean :: "real list \<Rightarrow> real" where
  "reduce_mean xs = sum_list xs / real (length xs)"

text \<open>The metrics \<^verbatim>\<open>Yolo_Loss.recall\<close> and \<^verbatim>\<open>Yolo_Loss.avgiou\<close>.\<close>

definition recall ::
  "nat \<Rightarrow> nat \<Rightarrow> nat \<Rightarrow> nat \<Rightarrow> (nat list \<Rightarrow> real) \<Rightarrow> (nat list \<Rightarrow> real) \<Rightarrow> real \<Rightarrow> real" where
  "recall B W H A pred_conf true_conf pct =
     reduce_mean
       (map (\<lambda>b. divide_no_nan
                   (reduce_sum_123 W H A
                      (\<lambda>i. mul_no_nan (true_conf i) (cast_bool (pct < sigmoid (pred_conf i)))) b)
                   (reduce_sum_123 W H A true_conf b))
          [0..<B])"

definition avgiou ::
  "nat \<Rightarrow> nat \<Rightarrow> nat \<Rightarrow> nat \<Rightarrow> (nat list \<Rightarrow> real) \<Rightarrow> (nat list \<Rightarrow> real) \<Rightarrow> real" where
  "avgiou B W H A iou true_conf =
     divide_no_nan (reduce_sum_all B W H A iou) (count_nonzero B W H A true_conf)"

text \<open>\<^verbatim>\<open>Yolo_Loss.get_mask\<close>, at one grid cell and anchor. No line of the source calls it.\<close>

definition get_mask ::
  "Yolo_Loss \<Rightarrow> real \<Rightarrow> real list \<Rightarrow> real list \<Rightarrow> real \<times> bool \<times> bool" where
  "get_mask self iou classes true_classes =
     (let box_match = self_ignore_thresh self < iou;
          truth_alter = self_truth_thresh self < iou;
          class_match = (argmax_list (map sigmoid classes) = argmax_list true_classes);
          matched_boxes = (box_match \<and> class_match);
          unmatched_boxes = (\<not> matched_boxes);
          mask = cast_bool (unmatched_boxes \<or> truth_alter)
      in (mask, matched_boxes, truth_alter))"

text \<open>
  \<^verbatim>\<open>Yolo_Loss.__call__\<close> up to its step 8. A tensor of shape \<open>[B, W, H, A]\<close> is a function of
  the index \<open>[b, i, j, a]\<close>. The result keeps what the steps 9 and 10 read: the three losses
  of every image, and the objectness logits, the objectness targets, the IoU and the
  ignore mask of every grid cell and anchor. \<^verbatim>\<open>print_error\<close> only prints and is left out.

  In the branch for \<^verbatim>\<open>new_cords\<close> the source reads \<^verbatim>\<open>matched_mask\<close> and \<^verbatim>\<open>truth_alter\<close>. The
  only assignment to them, the call of \<^verbatim>\<open>get_mask\<close>, is commented out, and the module has
  no such global names: reading \<^verbatim>\<open>matched_mask\<close> raises \<^verbatim>\<open>NameError\<close>.
\<close>

record call_state =
  st_B :: nat
  st_W :: nat
  st_H :: nat
  st_A :: nat
  st_loss_box :: "nat \<Rightarrow> real"
  st_conf_loss :: "nat \<Rightarrow> real"
  st_class_loss :: "nat \<Rightarrow> real"
  st_pred_conf :: "nat list \<Rightarrow> real"
  st_true_conf :: "nat list \<Rightarrow> real"
  st_iou :: "nat list \<Rightarrow> real"
  st_mask_loss :: "real tensor"

definition Yolo_Loss_call_losses ::
  "box_ops \<Rightarrow> Yolo_Loss \<Rightarrow> real tensor \<Rightarrow> real tensor \<Rightarrow> box tensor \<Rightarrow> real tensor
     \<Rightarrow> error + call_state" where
  "Yolo_Loss_call_losses ops self y_true y_pred boxes classes =
     (case shape y_true of
        batch_size # width # height # num # rest \<Rightarrow>
          let (grid_points, anchor_grid) = self_anchor_generator self width height batch_size;
              fwidth = real width;
              fheight = real height
          in then_res (reshape_infer y_pred [batch_size, width, height, num]) (\<lambda>y_pred.
             then_res (split_pred y_pred) (\<lambda>(pred_box, pred_conf, pred_class, depth).
             let pred_class = fst (class_gradient_trap (\<lambda>i c. sigmoid (pred_class i c))
                                     (Fin (self_cls_normalizer self)));
                 pred_conf = fst (obj_gradient_trap pred_conf (Fin (self_obj_normalizer self)));
                 decoded = (\<lambda>i. decode_boxes self fwidth fheight (pred_box i)
                                   (anchor_grid (i ! 3)) (grid_points (i ! 1) (i ! 2)));
                 pred_xy = (\<lambda>i. pred_xy_of (decoded i));
                 pred_wh = (\<lambda>i. pred_wh_of (decoded i));
                 pred_box = (\<lambda>i. pred_box_of (decoded i))
             in then_res (split_true y_true) (\<lambda>(true_box, true_conf, true_class, best_iou_match).
                let true_class = (\<lambda>i c. one_hot (cast_int32 (true_class i)) c)
                in then_res (build_masks ops (self_ignore_thresh self) (self_truth_thresh self)
                               \<lparr>shape = [batch_size, width, height, num], entry = pred_box\<rparr>
                               \<lparr>shape = [batch_size, width, height, num, depth],
                                entry = \<lambda>i. pred_class (butlast i) (last i)\<rparr>
                               boxes classes)
                     (\<lambda>(mask_loss, true_mask).
                let box_terms =
                      (if self_loss_type self = 1
                       then (\<lambda>i. let (iou, liou) = compute_giou ops False (true_box i) (pred_box i);
                                      loss_box = mul_no_nan (true_conf i) (1 - liou)
                                  in (iou, liou, loss_box))
                       else if self_loss_type self = 2
                       then (\<lambda>i. let (iou, liou) = compute_ciou ops False (true_box i) (pred_box i);
                                      loss_box = mul_no_nan (true_conf i) (1 - liou)
                                  in (iou, liou, loss_box))
                       else (\<lambda>i.
                         let iou = compute_iou ops False (true_box i) (pred_box i);
                             liou = iou;
                             scale = (2 - fst (box_wh (true_box i)) * snd (box_wh (true_box i)))
                                       * self_iou_normalizer self;
                             (true_xy, true_wh) =
                                scale_ground_truth_box (true_box i) fwidth fheight
                                  (anchor_grid (i ! 3)) (grid_points (i ! 1) (i ! 2));
                             loss_xy = square (fst true_xy - fst (pred_xy i))
                                       + square (snd true_xy - snd (pred_xy i));
                             loss_wh = square (fst true_wh - fst (pred_wh i))
                                       + square (snd true_wh - snd (pred_wh i));
                             loss_box = mul_no_nan (true_conf i) ((loss_wh + loss_xy) * scale)
                         in (iou, liou, loss_box)));
                    iou = (\<lambda>i. fst (box_terms i));
                    liou = (\<lambda>i. fst (snd (box_terms i)));
                    loss_box = (\<lambda>i. snd (snd (box_terms i)));
                    class_loss =
                      (\<lambda>i. sum_list (map (\<lambda>c. bce_probs (self_label_smoothing self)
                                                  (true_class i c) (pred_class i c))
                                        [0..<depth]));
                    class_loss = (\<lambda>i. mul_no_nan (true_conf i) (class_loss i))
                in if self_new_cords self then Inl (NameError ''matched_mask'')
                   else
                     let obj_mask = (\<lambda>i. true_conf i + (1 - true_conf i) * entry mask_loss i);
                         bce = (\<lambda>i. bce_logits (true_conf i) (pred_conf i));
                         conf_loss = (\<lambda>i. mul_no_nan (obj_mask i) (bce i))
                     in Inr \<lparr>st_B = batch_size, st_W = width, st_H = height, st_A = num,
                             st_loss_box = reduce_sum_123 width height num loss_box,
                             st_conf_loss = reduce_sum_123 width height num conf_loss,
                             st_class_loss = reduce_sum_123 width height num class_loss,
                             st_pred_conf = pred_conf,
                             st_true_conf = true_conf,
                             st_iou = iou,
                             st_mask_loss = mask_loss\<rparr>))))
      | _ \<Rightarrow> Inl (InvalidArgumentError ''slice index out of bounds''))"

text \<open>
  The steps 9 and 10, and the tuple \<^verbatim>\<open>__call__\<close> returns: a Python tuple is the list of its
  components.
\<close>

definition Yolo_Loss_call ::
  "box_ops \<Rightarrow> Yolo_Loss \<Rightarrow> real tensor \<Rightarrow> real tensor \<Rightarrow> box tensor \<Rightarrow> real tensor
     \<Rightarrow> error + real list" where
  "Yolo_Loss_call ops self y_true y_pred boxes classes =
     then_res (Yolo_Loss_call_losses ops self y_true y_pred boxes classes) (\<lambda>st.
       let B = st_B st; W = st_W st; H = st_H st; A = st_A st;
           loss_box = map (st_loss_box st) [0..<B];
           conf_loss = map (st_conf_loss st) [0..<B];
           class_loss = map (st_class_loss st) [0..<B];
           total = map (\<lambda>b. st_class_loss st b + st_conf_loss st b + st_loss_box st b) [0..<B];
           loss = (if self_use_reduction_sum self then sum_list total else reduce_mean total);
           loss_box = reduce_mean loss_box;
           conf_loss = reduce_mean conf_loss;
           class_loss = reduce_mean class_loss;
           recall50 = recall B W H A (st_pred_conf st) (st_true_conf st) 0.5;
           avg_iou = avgiou B W H A (\<lambda>i. st_iou st i * st_true_conf st i) (st_true_conf st);
           avg_obj = avgiou B W H A (\<lambda>i. sigmoid (st_pred_conf st i) * st_true_conf st i)
                       (st_true_conf st)
       in Inr [loss, loss_box, conf_loss, class_loss, avg_iou, avg_obj, recall50])"

text \<open>
  Which variables of \<^verbatim>\<open>__call__\<close> (legacy branch) are attached to the gradient graph. The
  flag of a variable says whether a gradient can flow from it to one of the four
  arguments: the result of an operation is attached when one of its operands is, and
  \<^verbatim>\<open>tf.stop_gradient\<close> detaches. The lines are those of the source, for its three loss types.
\<close>

definition stop_gradient :: "bool \<Rightarrow> bool" where
  "stop_gradient t = False"

definition Yolo_Loss_call_tape :: "nat \<Rightarrow> bool \<Rightarrow> bool \<Rightarrow> bool \<Rightarrow> bool \<Rightarrow> bool list" where
  "Yolo_Loss_call_tape loss_type y_true y_pred boxes classes =
     (let grid_points = stop_gradient False;
          anchor_grid = stop_gradient False;
          y_true = stop_gradient y_true;
          pred_box = y_pred; pred_conf = y_pred; pred_class = y_pred;
          pred_xy = (pred_box \<or> anchor_grid \<or> grid_points);
          pred_wh = pred_xy;
          pred_box = pred_xy;
          true_box = y_true; true_conf = y_true; true_class = y_true;
          mask_loss = stop_gradient (pred_box \<or> pred_class \<or> boxes \<or> classes);
          iou = (true_box \<or> pred_box);
          liou = iou;
          loss_box =
            (if loss_type = 1 \<or> loss_type = 2 then (true_conf \<or> liou)
             else let scale = true_box;
                      true_xy = stop_gradient (true_box \<or> grid_points);
                      true_wh = stop_gradient (true_box \<or> anchor_grid);
                      loss_xy = (true_xy \<or> pred_xy);
                      loss_wh = (true_wh \<or> pred_wh)
                  in (true_conf \<or> loss_wh \<or> loss_xy \<or> scale));
          class_loss = (true_class \<or> pred_class);
          class_loss = (true_conf \<or> class_loss);
          obj_mask = stop_gradient (true_conf \<or> mask_loss);
          bce = (true_conf \<or> pred_conf);
          conf_loss = (obj_mask \<or> bce);
          loss = (class_loss \<or> conf_loss \<or> loss_box);
          recall50 = stop_gradient (pred_conf \<or> true_conf);
          avg_iou = stop_gradient (iou \<or> true_conf);
          avg_obj = stop_gradient (pred_conf \<or> true_conf)
      in [loss, loss_box, conf_loss, class_loss, avg_iou, avg_obj, recall50])"

section \<open>The training task's use of the loss\<close>

text \<open>
  \<^verbatim>\<open>YoloTask.build_losses\<close> of \<^verbatim>\<open>yolo/tasks/yolo.py\<close>. \<^verbatim>\<open>self._loss_dict\<close> comes from
  \<^verbatim>\<open>build_yolo\<close>, which is not among the sources: it maps a key to a callable, called with
  the two positional arguments \<^verbatim>\<open>labels\<close> and \<^verbatim>\<open>outputs[key]\<close> and returning a tuple.
  \<^verbatim>\<open>outputs\<close> is a dictionary, read in the order of its keys. The assignment of the result
  to six names raises \<^verbatim>\<open>ValueError\<close> unless the tuple has six components.
\<close>

definition unpack :: "nat \<Rightarrow> 'a list \<Rightarrow> error + 'a list" where
  "unpack n vs =
     (if n < length vs then Inl (ValueError ''too many values to unpack'')
      else if length vs < n then Inl (ValueError ''not enough values to unpack'')
      else Inr vs)"

record losses_acc =
  acc_loss :: real
  acc_loss_box :: real
  acc_loss_conf :: real
  acc_loss_class :: real
  acc_metric_dict :: "string \<rightharpoonup> real"

fun build_losses_loop ::
  "(string \<rightharpoonup> ('l \<Rightarrow> 'o \<Rightarrow> error + real list)) \<Rightarrow> 'l \<Rightarrow> (string \<times> 'o) list \<Rightarrow> losses_acc
     \<Rightarrow> error + losses_acc" where
  "build_losses_loop loss_dict labels [] acc = Inr acc"
| "build_losses_loop loss_dict labels ((key, output) # outputs) acc =
     (case loss_dict key of
        None \<Rightarrow> Inl (KeyError key)
      | Some loss_fn \<Rightarrow>
          then_res (loss_fn labels output) (\<lambda>result.
          then_res (unpack 6 result) (\<lambda>vs.
            let loss = vs ! 0; loss_box = vs ! 1; loss_conf = vs ! 2; loss_class = vs ! 3;
                avg_iou = vs ! 4; recall50 = vs ! 5
            in build_losses_loop loss_dict labels outputs
                 \<lparr>acc_loss = acc_loss acc + loss,
                  acc_loss_box = acc_loss_box acc + loss_box,
                  acc_loss_conf = acc_loss_conf acc + loss_conf,
                  acc_loss_class = acc_loss_class acc + loss_class,
                  acc_metric_dict = (acc_metric_dict acc)
                    (''recall50_'' @ key \<mapsto> recall50, ''avg_iou_'' @ key \<mapsto> avg_iou)\<rparr>)))"

definition build_losses ::
  "(string \<rightharpoonup> ('l \<Rightarrow> 'o \<Rightarrow> error + real list)) \<Rightarrow> (string \<times> 'o) list \<Rightarrow> 'l
     \<Rightarrow> error + real \<times> (string \<rightharpoonup> real)" where
  "build_losses loss_dict outputs labels =
     then_res (build_losses_loop loss_dict labels outputs
                 \<lparr>acc_loss = 0, acc_loss_box = 0, acc_loss_conf = 0, acc_loss_class = 0,
                  acc_metric_dict = Map.empty\<rparr>)
       (\<lambda>acc. Inr (acc_loss acc,
                   (acc_metric_dict acc)
                     (''box_loss'' \<mapsto> acc_loss_box acc, ''conf_loss'' \<mapsto> acc_loss_conf acc,
                      ''class_loss'' \<mapsto> acc_loss_class acc)))"

text \<open>
  A \<^verbatim>\<open>Yolo_Loss\<close> object called with two positional arguments: \<^verbatim>\<open>__call__\<close> has the four
  required parameters \<^verbatim>\<open>y_true\<close>, \<^verbatim>\<open>y_pred\<close>, \<^verbatim>\<open>boxes\<close> and \<^verbatim>\<open>classes\<close>.
\<close>

definition Yolo_Loss_call_two_arguments :: "Yolo_Loss \<Rightarrow> 'l \<Rightarrow> 'o \<Rightarrow> error + real list" where
  "Yolo_Loss_call_two_arguments self labels output =
     Inl (TypeError ''__call__() missing 2 required positional arguments: boxes and classes'')"

section \<open>Non-max suppression\<close>

text \<open>
  The inputs of \<^verbatim>\<open>nms\<close> are tensors of shapes \<open>[B, n, 4]\<close>, \<open>[B, n, C]\<close> and \<open>[B, n]\<close>. Every
  operation of \<^verbatim>\<open>yolo/ops/nms_ops.py\<close> works image by image, so a tensor is the list of its
  images, an image the list of its candidates, and a candidate has a box, a vector of class
  scores and a confidence.
\<close>

fun map_res :: "('a \<Rightarrow> error + 'b) \<Rightarrow> 'a list \<Rightarrow> error + 'b list" where
  "map_res f [] = Inr []"
| "map_res f (x # xs) = then_res (f x) (\<lambda>y. then_res (map_res f xs) (\<lambda>ys. Inr (y # ys)))"

text \<open>
  \<^verbatim>\<open>tf.math.top_k\<close> on one row: the \<open>k\<close> largest values in descending order with their
  indices, the smaller index first among equal values; an error for a row with fewer than
  \<open>k\<close> entries.
\<close>

definition top_k_indices :: "real list \<Rightarrow> nat \<Rightarrow> nat list" where
  "top_k_indices xs k = take k (sort_key (\<lambda>i. - (xs ! i)) [0..<length xs])"

definition top_k :: "real list \<Rightarrow> nat \<Rightarrow> error + real list \<times> nat list" where
  "top_k xs k =
     (if length xs < k then Inl (InvalidArgumentError ''input must have at least k columns'')
      else let ind = top_k_indices xs k
           in Inr (map (\<lambda>i. xs ! i) ind, ind))"

definition gather :: "'a list \<Rightarrow> nat list \<Rightarrow> error + 'a list" where
  "gather row ind =
     (if list_all (\<lambda>i. i < length row) ind then Inr (map (\<lambda>i. row ! i) ind)
      else Inl (InvalidArgumentError ''indices out of bounds''))"

text \<open>
  \<^verbatim>\<open>tf.gather_nd\<close> with the index pairs \<open>(b, ind[b, j])\<close> that \<^verbatim>\<open>sort_drop\<close> stacks, followed
  by its reshape to \<open>[bsize, k, -1]\<close>: row \<open>b\<close> of the result holds the entries of row \<open>b\<close> at
  the indices \<open>ind[b]\<close>.
\<close>

definition gather_rows :: "'a list list \<Rightarrow> nat list list \<Rightarrow> error + 'a list list" where
  "gather_rows t ind =
     map_res (\<lambda>b. if b < length t then gather (t ! b) (ind ! b)
                   else Inl (InvalidArgumentError ''indices out of bounds''))
       [0..<length ind]"

text \<open>
  \<open>flat\<close> is what the reshape to \<open>[bsize, k, -1]\<close> makes of one classification entry: a
  vector of class scores stays, a single class id becomes a vector of length 1.
\<close>

definition sort_drop ::
  "('c \<Rightarrow> real list) \<Rightarrow> real list list \<Rightarrow> box list list \<Rightarrow> 'c list list \<Rightarrow> nat
     \<Rightarrow> error + real list list \<times> box list list \<times> real list list list" where
  "sort_drop flat objectness box classificationsi k =
     then_res (map_res (\<lambda>row. top_k row k) objectness) (\<lambda>tk.
       let objectness = map fst tk;
           ind = map snd tk
       in then_res (gather_rows box ind) (\<lambda>box.
          then_res (gather_rows classificationsi ind) (\<lambda>classifications.
            Inr (objectness, box, map (map flat) classifications))))"

text \<open>
  \<^verbatim>\<open>aggregated_comparitive_iou\<close> without \<^verbatim>\<open>boxes2\<close>: after the tiling and the transposition,
  \<open>boxes1[b, i, j]\<close> is box \<open>i\<close> and \<open>boxes2[b, i, j]\<close> is box \<open>j\<close> of image \<open>b\<close>.
\<close>

definition aggregated_comparitive_iou ::
  "box_ops \<Rightarrow> box list list \<Rightarrow> nat \<Rightarrow> (nat \<Rightarrow> nat \<Rightarrow> real) list" where
  "aggregated_comparitive_iou ops boxes1 iou_type =
     map (\<lambda>row i j.
            let b1 = row ! i; b2 = row ! j
            in if iou_type = 0 then snd (compute_diou ops True b1 b2)
               else if iou_type = 1 then snd (compute_giou ops True b1 b2)
               else compute_iou ops True b1 b2)
       boxes1"

fun scale_box :: "real \<Rightarrow> box \<Rightarrow> box" where
  "scale_box m (a, b, c, d) = (a * m, b * m, c * m, d * m)"

text \<open>
  \<^verbatim>\<open>segment_nms\<close>: \<open>mask_x[i, j] = j\<close> and \<open>mask_y[i, j] = i\<close>, so \<open>mask_diag[0, i, j]\<close> is
  \<open>j > i\<close>; \<^verbatim>\<open>reduce_any\<close> over axis \<open>-2\<close> runs over \<open>i\<close>. The mask has \<open>k\<close> rows and columns
  and the IoU as many as an image has boxes; they must agree.
\<close>

definition segment_nms ::
  "box_ops \<Rightarrow> box list list \<Rightarrow> real list list \<Rightarrow> real list list \<Rightarrow> nat \<Rightarrow> real
     \<Rightarrow> error + box list list \<times> real list list \<times> real list list" where
  "segment_nms ops boxes classes confidence k iou_thresh =
     (if list_all (\<lambda>row. length row = k) boxes
      then let mask_diag = (\<lambda>i j. i < j);
               iou = aggregated_comparitive_iou ops boxes 0;
               iou_mask = map (\<lambda>f i j. mask_diag i j \<and> iou_thresh \<le> f i j) iou;
               can_suppress_others =
                 map (\<lambda>m. map (\<lambda>j. 1 - cast_bool (list_ex (\<lambda>i. m i j) [0..<k])) [0..<k])
                   iou_mask;
               raw = can_suppress_others;
               boxes = map2 (map2 (\<lambda>b r. scale_box r b)) boxes raw;
               confidence = map2 (map2 (*)) confidence raw;
               classes = map2 (map2 (*)) classes raw
           in Inr (boxes, classes, confidence)
      else Inl (InvalidArgumentError ''Incompatible shapes''))"

text \<open>
  \<^verbatim>\<open>tf.reduce_max\<close> and \<^verbatim>\<open>tf.argmax\<close> over the class axis of one candidate. The maximum of an
  empty axis is \<open>-\<infinity>\<close> in the source and has no value here; every statement below is for
  a class axis that is not empty.
\<close>

definition reduce_max :: "real list \<Rightarrow> real" where
  "reduce_max xs = fold max xs (hd xs)"

definition argmax_res :: "real list \<Rightarrow> error + real" where
  "argmax_res xs =
     (if xs = [] then Inl (InvalidArgumentError ''Reduction axis -1 is empty'')
      else Inr (real (argmax_list xs)))"

text \<open>
  \<^verbatim>\<open>nms\<close> in the order of its lines: the optional first ranking, the threshold on the
  confidence (the mask is \<open>ceil(relu(confidence - pre_nms_thresh))\<close>), the ranking with the
  class ids, the suppression, and the last ranking with the squeeze of the class ids.
\<close>

definition nms_pool ::
  "bool \<Rightarrow> real list list \<Rightarrow> box list list \<Rightarrow> real list list list \<Rightarrow> nat
     \<Rightarrow> error + real list list \<times> box list list \<times> real list list list" where
  "nms_pool limit_pre_thresh confidence boxes classes k =
     (if limit_pre_thresh then sort_drop id confidence boxes classes k
      else Inr (confidence, boxes, classes))"

definition nms_threshold ::
  "real \<Rightarrow> bool \<Rightarrow> real list list \<times> box list list \<times> real list list list
     \<Rightarrow> real list list \<times> box list list \<times> real list list list" where
  "nms_threshold pre_nms_thresh use_classes pool =
     (case pool of (confidence, boxes, classes) \<Rightarrow>
        let mask = map (map (\<lambda>c. real_of_int \<lceil>relu (c - pre_nms_thresh)\<rceil>)) confidence;
            confidence = map2 (map2 (*)) confidence mask;
            boxes = map2 (map2 (\<lambda>b m. scale_box m b)) boxes mask;
            classes = map2 (map2 (\<lambda>cs m. map (\<lambda>c. c * m) cs)) classes mask;
            confidence = (if use_classes then map (map reduce_max) classes else confidence)
        in (confidence, boxes, classes))"

definition nms_rank ::
  "real list list \<times> box list list \<times> real list list list \<Rightarrow> nat
     \<Rightarrow> error + real list list \<times> box list list \<times> real list list" where
  "nms_rank thresholded k =
     (case thresholded of (confidence, boxes, classes) \<Rightarrow>
        then_res (sort_drop id confidence boxes classes k)
          (\<lambda>(confidence, boxes, classes).
             then_res (map_res (map_res argmax_res) classes)
               (\<lambda>classes. Inr (confidence, boxes, classes))))"

definition nms ::
  "box_ops \<Rightarrow> box list list \<Rightarrow> real list list list \<Rightarrow> real list list \<Rightarrow> nat \<Rightarrow> real \<Rightarrow> real
     \<Rightarrow> bool \<Rightarrow> bool \<Rightarrow> error + box list list \<times> real list list \<times> real list list" where
  "nms ops boxes classes confidence k pre_nms_thresh nms_thresh limit_pre_thresh use_classes =
     then_res (nms_pool limit_pre_thresh confidence boxes classes k)
       (\<lambda>pool.
          then_res (nms_rank (nms_threshold pre_nms_thresh use_classes pool) k)
            (\<lambda>(confidence, boxes, classes).
               then_res (segment_nms ops boxes classes confidence k nms_thresh)
                 (\<lambda>(boxes, classes, confidence).
                    then_res (sort_drop (\<lambda>c. [c]) confidence boxes classes k)
                      (\<lambda>(confidence, boxes, classes).
                         Inr (boxes, map (map hd) classes, confidence)))))"

text \<open>A tensor of \<open>B\<close> images with \<open>n\<close> candidates each.\<close>

definition shaped :: "nat \<Rightarrow> nat \<Rightarrow> 'a list list \<Rightarrow> bool" where
  "shaped B n t = (length t = B \<and> list_all (\<lambda>row. length row = n) t)"

text \<open>
  The rows that \<^verbatim>\<open>sort_drop\<close> returns for well-shaped inputs: in every image the entries of
  \<open>t\<close> at the indices of the \<open>k\<close> largest values of \<open>objectness\<close>.
\<close>

definition ranked_rows :: "('a \<Rightarrow> 'b) \<Rightarrow> 'a list list \<Rightarrow> real list list \<Rightarrow> nat \<Rightarrow> 'b list list" where
  "ranked_rows f t objectness k =
     map (\<lambda>b. map (\<lambda>i. f (t ! b ! i)) (top_k_indices (objectness ! b) k)) [0..<length objectness]"

text \<open>Every candidate has at least one class score.\<close>

definition class_axis_nonempty :: "real list list list \<Rightarrow> bool" where
  "class_axis_nonempty classes = list_all (list_all (\<lambda>cs. cs \<noteq> [])) classes"

text \<open>
  Candidate \<open>j\<close> of a ranked image is suppressed when a candidate of smaller index has a
  DIoU of at least the threshold with it.
\<close>

definition suppressed :: "box_ops \<Rightarrow> real \<Rightarrow> box list \<Rightarrow> nat \<Rightarrow> bool" where
  "suppressed ops iou_thresh row j =
     list_ex (\<lambda>i. iou_thresh \<le> snd (compute_diou ops True (row ! i) (row ! j))) [0..<j]"

section \<open>Concrete inputs\<close>

text \<open>One grid cell with one anchor and two classes, and two ground-truth boxes.\<close>

definition ex_pred_boxes :: "box tensor" where
  "ex_pred_boxes = \<lparr>shape = [1, 1, 1, 1], entry = \<lambda>i. (1 / 2, 1 / 2, 1, 1)\<rparr>"

definition ex_pred_classes :: "real tensor" where
  "ex_pred_classes = \<lparr>shape = [1, 1, 1, 1, 2], entry = \<lambda>i. if last i = 1 then 9 / 10 else 1 / 10\<rparr>"

definition ex_boxes :: "box tensor" where
  "ex_boxes = \<lparr>shape = [1, 2], entry = \<lambda>i. if last i = 0 then (0, 0, 1, 1) else (0, 0, 0, 0)\<rparr>"

definition ex_classes :: "real tensor" where
  "ex_classes = \<lparr>shape = [1, 2], entry = \<lambda>i. if last i = 0 then 1 else 0\<rparr>"

text \<open>
  The default arguments of \<^verbatim>\<open>Yolo_Loss.__init__\<close> for 80 classes, the first three of nine
  anchors, and a generator for them: grid points at the cell corners.
\<close>

definition ex_anchors :: "vec2 list" where
  "ex_anchors = [(10, 13), (16, 30), (33, 23), (30, 61), (62, 45), (59, 119), (116, 90),
                 (156, 198), (373, 326)]"

definition ex_args :: init_args where
  "ex_args =
     \<lparr>arg_classes = 80, arg_mask = [0, 1, 2], arg_anchors = ex_anchors, arg_scale_anchors = 1,
      arg_num_extras = 0, arg_ignore_thresh = 7 / 10, arg_truth_thresh = 1,
      arg_loss_type = ''ciou'', arg_iou_normalizer = 1, arg_cls_normalizer = 1,
      arg_obj_normalizer = 1, arg_use_reduction_sum = False, arg_iou_thresh = 213 / 1000,
      arg_new_cords = False, arg_scale_x_y = 1, arg_max_delta = Fin 10,
      arg_nms_kind = ''greedynms'', arg_beta_nms = 6 / 10, arg_path_key = None,
      arg_use_tie_breaker = True\<rparr>"

definition ex_GridGenerator :: "nat list \<Rightarrow> vec2 list \<Rightarrow> real \<Rightarrow> error + grid_gen" where
  "ex_GridGenerator masks anchors scale_anchors =
     Inr (\<lambda>width height batch_size.
            (\<lambda>i j. (real i / real width, real j / real height),
             \<lambda>a. (fst (anchors ! (masks ! a)) / scale_anchors,
                   snd (anchors ! (masks ! a)) / scale_anchors)))"

section \<open>Properties of the box gradient hook\<close>

lemma clip_finite_in_range:
  assumes "fl_le (Fin 0) d"
  shows "fl_le (fl_abs (clip_by_value (Fin s) (fl_neg d) d)) d"
  using assms
  by (cases d) (auto simp: clip_by_value_def fl_max_def fl_min_def fl_le_def)

lemma clip_above:
  assumes "fl_le (Fin 0) d" and "fl_less d (Fin s)"
  shows "clip_by_value (Fin s) (fl_neg d) d = d"
  using assms
  by (cases d) (auto simp: clip_by_value_def fl_max_def fl_min_def fl_le_def)

lemma clip_below:
  assumes "fl_le (Fin 0) d" and "fl_less (Fin s) (fl_neg d)"
  shows "clip_by_value (Fin s) (fl_neg d) d = fl_neg d"
  using assms
  by (cases d) (auto simp: clip_by_value_def fl_max_def fl_min_def fl_le_def)

lemma clip_zero:
  assumes "fl_le (Fin 0) d"
  shows "clip_by_value (Fin 0) (fl_neg d) d = Fin 0"
  using assms
  by (cases d) (auto simp: clip_by_value_def fl_max_def fl_min_def fl_le_def)

lemma mul_not_finite:
  assumes "\<not> is_finite g"
  shows "\<not> is_finite (fl_mul g n)"
  using assms
  by (cases g; cases n) (auto simp: signed_inf_def)

lemma sanitized_cases:
  obtains s where "rm_nan_inf x (Fin 0) = Fin s"
  by (cases x) (auto simp: rm_nan_inf_def)

lemma box_trap_entry_bound:
  assumes "fl_le (Fin 0) d"
  shows "fl_le (fl_abs (clip_by_value (rm_nan_inf (fl_mul g n) (Fin 0)) (fl_neg d) d)) d"
proof -
  obtain s where "rm_nan_inf (fl_mul g n) (Fin 0) = Fin s"
    by (rule sanitized_cases)
  then show ?thesis
    using clip_finite_in_range [OF assms, of s] by simp
qed

lemma box_trap_entry_special:
  assumes "fl_le (Fin 0) d" and "\<not> is_finite g"
  shows "clip_by_value (rm_nan_inf (fl_mul g n) (Fin 0)) (fl_neg d) d = Fin 0"
proof -
  have "rm_nan_inf (fl_mul g n) (Fin 0) = Fin 0"
    using mul_not_finite [OF assms(2), of n] by (simp add: rm_nan_inf_def)
  then show ?thesis
    using clip_zero [OF assms(1)] by simp
qed

text \<open>
  Claim C3. The box gradient hook returns its input unchanged in the forward direction.
  Its backward function returns zero gradients for \<^verbatim>\<open>iou_normalizer\<close> and \<^verbatim>\<open>max_delta\<close>, and
  the gradient for the input is the upstream gradient scaled by \<^verbatim>\<open>iou_normalizer\<close>, with
  NaN and infinite entries replaced by 0, then clipped to \<open>[-max_delta, max_delta]\<close>. For a
  clip bound that is not negative (finite or \<open>+\<infinity>\<close>): no entry of the result exceeds
  \<^verbatim>\<open>max_delta\<close> in magnitude, an entry whose scaled value is above \<^verbatim>\<open>max_delta\<close> (below
  \<open>-max_delta\<close>) becomes exactly \<^verbatim>\<open>max_delta\<close> (\<open>-max_delta\<close>), and a NaN or infinite
  upstream entry becomes exactly 0.
\<close>

theorem box_gradient_trap_backward:
  assumes "fl_le (Fin 0) max_delta"
  shows "fst (box_gradient_trap y iou_normalizer max_delta) = y \<and>
    (case snd (box_gradient_trap y iou_normalizer max_delta) dy of
       (out, g_normalizer, g_delta) \<Rightarrow>
         g_normalizer = Fin 0 \<and> g_delta = Fin 0 \<and>
         out = map (\<lambda>g. clip_by_value (rm_nan_inf (fl_mul g iou_normalizer) (Fin 0))
                          (fl_neg max_delta) max_delta) dy \<and>
         (\<forall>i < length dy.
            fl_le (fl_abs (out ! i)) max_delta \<and>
            (\<forall>s. fl_mul (dy ! i) iou_normalizer = Fin s \<and> fl_less max_delta (Fin s)
                 \<longrightarrow> out ! i = max_delta) \<and>
            (\<forall>s. fl_mul (dy ! i) iou_normalizer = Fin s \<and> fl_less (Fin s) (fl_neg max_delta)
                 \<longrightarrow> out ! i = fl_neg max_delta) \<and>
            (\<not> is_finite (dy ! i) \<longrightarrow> out ! i = Fin 0)))"
proof -
  let ?f = "\<lambda>g. clip_by_value (rm_nan_inf (fl_mul g iou_normalizer) (Fin 0))
                  (fl_neg max_delta) max_delta"
  have out: "snd (box_gradient_trap y iou_normalizer max_delta) dy = (map ?f dy, Fin 0, Fin 0)"
    by (simp add: box_gradient_trap_def Let_def comp_def)
  have entry: "fl_le (fl_abs (?f g)) max_delta \<and>
      (\<forall>s. fl_mul g iou_normalizer = Fin s \<and> fl_less max_delta (Fin s) \<longrightarrow> ?f g = max_delta) \<and>
      (\<forall>s. fl_mul g iou_normalizer = Fin s \<and> fl_less (Fin s) (fl_neg max_delta)
           \<longrightarrow> ?f g = fl_neg max_delta) \<and>
      (\<not> is_finite g \<longrightarrow> ?f g = Fin 0)" for g
    using box_trap_entry_bound [OF assms] box_trap_entry_special [OF assms]
      clip_above [OF assms] clip_below [OF assms]
    by (auto simp: rm_nan_inf_def)
  have fwd: "fst (box_gradient_trap y iou_normalizer max_delta) = y"
    by (simp add: box_gradient_trap_def)
  have entries: "\<forall>i < length dy.
      fl_le (fl_abs (map ?f dy ! i)) max_delta \<and>
      (\<forall>s. fl_mul (dy ! i) iou_normalizer = Fin s \<and> fl_less max_delta (Fin s)
           \<longrightarrow> map ?f dy ! i = max_delta) \<and>
      (\<forall>s. fl_mul (dy ! i) iou_normalizer = Fin s \<and> fl_less (Fin s) (fl_neg max_delta)
           \<longrightarrow> map ?f dy ! i = fl_neg max_delta) \<and>
      (\<not> is_finite (dy ! i) \<longrightarrow> map ?f dy ! i = Fin 0)"
  proof (intro allI impI)
    fix i
    assume "i < length dy"
    then have eq: "map ?f dy ! i = ?f (dy ! i)"
      by simp
    show "fl_le (fl_abs (map ?f dy ! i)) max_delta \<and>
      (\<forall>s. fl_mul (dy ! i) iou_normalizer = Fin s \<and> fl_less max_delta (Fin s)
           \<longrightarrow> map ?f dy ! i = max_delta) \<and>
      (\<forall>s. fl_mul (dy ! i) iou_normalizer = Fin s \<and> fl_less (Fin s) (fl_neg max_delta)
           \<longrightarrow> map ?f dy ! i = fl_neg max_delta) \<and>
      (\<not> is_finite (dy ! i) \<longrightarrow> map ?f dy ! i = Fin 0)"
      unfolding eq by (rule entry)
  qed
  show ?thesis
    using fwd entries unfolding out prod.case by blast
qed

theorem box_gradient_trap_backward_witness:
  "fl_le (Fin 0) (Fin 10) \<and>
   snd (box_gradient_trap () (Fin 2) (Fin 10)) [Fin 100, NaN, PInf, Fin (- 100), Fin 1]
     = ([Fin 10, Fin 0, Fin 0, Fin (- 10), Fin 2], Fin 0, Fin 0)"
proof -
  have h: "fl_le (Fin 0) (Fin 10)"
    by (simp add: fl_le_def)
  show ?thesis
    using h box_gradient_trap_backward
      [OF h, of "()" "Fin 2" "[Fin 100, NaN, PInf, Fin (- 100), Fin 1]"]
    by (auto simp: clip_by_value_def fl_max_def fl_min_def rm_nan_inf_def signed_inf_def
        split: prod.splits)
qed

section \<open>Properties of the box codec\<close>

lemma sigmoid_pos: "0 < sigmoid x"
  by (simp add: sigmoid_def add_pos_pos)

lemma sigmoid_less_one: "sigmoid x < 1"
  by (simp add: sigmoid_def add_pos_pos)

lemma sigmoid_strict_mono:
  assumes "x < y"
  shows "sigmoid x < sigmoid y"
proof -
  have "exp (- y) < exp (- x)"
    using assms by simp
  then have "1 + exp (- y) < 1 + exp (- x)"
    by simp
  moreover have "0 < 1 + exp (- y)"
    by (simp add: add_pos_pos)
  ultimately show ?thesis
    unfolding sigmoid_def by (simp add: frac_less2)
qed

lemma square_sigmoid_strict_mono:
  assumes "x < y"
  shows "square (sigmoid x) < square (sigmoid y)"
  unfolding square_def
  using sigmoid_strict_mono [OF assms] sigmoid_pos [of x]
  by (simp add: mult_strict_mono less_imp_le)

lemma square_sigmoid_less_one: "square (sigmoid x) < 1"
proof -
  have "sigmoid x * sigmoid x < 1 * 1"
    using sigmoid_pos [of x] sigmoid_less_one [of x]
    by (intro mult_strict_mono) simp_all
  then show ?thesis
    by (simp add: square_def)
qed

lemma newcords_box_wh:
  "box_wh (pred_box_of (get_predicted_box_newcords width height (rx, ry, rw, rh) (aw, ah) g
       scale_x_y iou_normalizer max_delta))
     = (4 * square (sigmoid rw) * aw, 4 * square (sigmoid rh) * ah)"
  by (cases g) (simp add: pred_box_of_def Let_def box_gradient_trap_def)

text \<open>
  In exact arithmetic the decoded width and height of the new-coordinates codec are
  \<open>4 * sigmoid(raw)\<^sup>2 * anchor\<close>, strictly below \<open>4 * anchor\<close> and strictly increasing in
  the raw input.
\<close>

lemma newcords_wh_bounded_monotone:
  assumes "0 < aw" and "0 < ah"
  shows "box_wh (pred_box_of (get_predicted_box_newcords width height (rx, ry, rw, rh)
             (aw, ah) g scale_x_y iou_normalizer max_delta))
           = (4 * (sigmoid rw)\<^sup>2 * aw, 4 * (sigmoid rh)\<^sup>2 * ah)
       \<and> 4 * (sigmoid rw)\<^sup>2 * aw < 4 * aw
       \<and> 4 * (sigmoid rh)\<^sup>2 * ah < 4 * ah
       \<and> (\<forall>rw' rh'. rw < rw' \<and> rh < rh' \<longrightarrow>
            fst (box_wh (pred_box_of (get_predicted_box_newcords width height (rx, ry, rw, rh)
                  (aw, ah) g scale_x_y iou_normalizer max_delta)))
              < fst (box_wh (pred_box_of (get_predicted_box_newcords width height
                  (rx, ry, rw', rh') (aw, ah) g scale_x_y iou_normalizer max_delta)))
          \<and> snd (box_wh (pred_box_of (get_predicted_box_newcords width height (rx, ry, rw, rh)
                  (aw, ah) g scale_x_y iou_normalizer max_delta)))
              < snd (box_wh (pred_box_of (get_predicted_box_newcords width height
                  (rx, ry, rw', rh') (aw, ah) g scale_x_y iou_normalizer max_delta))))"
proof -
  have sq: "(sigmoid r)\<^sup>2 = square (sigmoid r)" for r
    by (simp add: square_def power2_eq_square)
  have bw: "4 * square (sigmoid rw) * aw < 4 * aw"
    using square_sigmoid_less_one [of rw] assms(1) by simp
  have bh: "4 * square (sigmoid rh) * ah < 4 * ah"
    using square_sigmoid_less_one [of rh] assms(2) by simp
  have mono: "4 * square (sigmoid r) * a < 4 * square (sigmoid r') * a"
    if "r < r'" and "0 < a" for r r' a
    using square_sigmoid_strict_mono [OF that(1)] that(2) by simp
  show ?thesis
    unfolding newcords_box_wh sq
    using bw bh mono [OF _ assms(1)] mono [OF _ assms(2)] by simp
qed

lemma newcords_wh_bounded_monotone_example:
  "(0::real) < 2 \<and> (0::real) < 3 \<and>
   box_wh (pred_box_of (get_predicted_box_newcords 13 13 (0, 0, 0, 0) (2, 3) (0, 0) 1 (Fin 1) (Fin 5)))
     = (2, 3) \<and>
   fst (box_wh (pred_box_of (get_predicted_box_newcords 13 13 (0, 0, 0, 0) (2, 3) (0, 0) 1 (Fin 1) (Fin 5))))
     < fst (box_wh (pred_box_of (get_predicted_box_newcords 13 13 (0, 0, 1, 1) (2, 3) (0, 0) 1 (Fin 1) (Fin 5))))"
proof -
  have a: "(0::real) < 2" "(0::real) < 3"
    by simp_all
  note t = newcords_wh_bounded_monotone [OF a, of 13 13 0 0 0 0 "(0, 0)" 1 "Fin 1" "Fin 5"]
  have eq: "box_wh (pred_box_of (get_predicted_box_newcords 13 13 (0, 0, 0, 0) (2, 3) (0, 0) 1
      (Fin 1) (Fin 5))) = (4 * (sigmoid 0)\<^sup>2 * 2, 4 * (sigmoid 0)\<^sup>2 * 3)"
    using t by (rule conjunct1)
  have lt: "fst (box_wh (pred_box_of (get_predicted_box_newcords 13 13 (0, 0, 0, 0) (2, 3) (0, 0) 1 (Fin 1) (Fin 5))))
     < fst (box_wh (pred_box_of (get_predicted_box_newcords 13 13 (0, 0, 1, 1) (2, 3) (0, 0) 1 (Fin 1) (Fin 5))))"
    using t [THEN conjunct2, THEN conjunct2, THEN conjunct2, rule_format, of 1 1] by simp
  show ?thesis
    using a lt by (simp only: eq) (simp add: sigmoid_def power2_eq_square)
qed

lemma legacy_offsets:
  "get_predicted_box width height (rx, ry, rw, rh) (aw, ah) (gx, gy) s n d =
     ((sigmoid rx * s - 0.5 * (s - 1), sigmoid ry * s - 0.5 * (s - 1)), (rw, rh),
      ((sigmoid rx * s - 0.5 * (s - 1)) / width + gx,
       (sigmoid ry * s - 0.5 * (s - 1)) / height + gy, exp rw * aw, exp rh * ah))"
  by (simp add: Let_def box_gradient_trap_def)

lemma encode_positive:
  assumes "0 < bw" "0 < bh" "0 < aw" "0 < ah"
  shows "scale_ground_truth_box (bx, by, bw, bh) width height (aw, ah) (gx, gy) =
     ((relu (bx - gx) * width, relu (by - gy) * height), (ln (bw / aw), ln (bh / ah)))"
  using assms by (simp add: Let_def fl_div_def rm_nan_inf_def)

lemma sigmoid_logit:
  assumes "0 < p" and "p < 1"
  shows "sigmoid (ln (p / (1 - p))) = p"
proof -
  have "0 < p / (1 - p)"
    using assms by simp
  then have e: "exp (- ln (p / (1 - p))) = (1 - p) / p"
    by (simp add: exp_minus)
  have "1 + (1 - p) / p = 1 / p"
    using assms by (simp add: field_simps)
  then show ?thesis
    unfolding sigmoid_def e by simp
qed

lemma offset_reachable:
  assumes "1 \<le> s" and "0 < t" and "t < 1"
  shows "\<exists>r. sigmoid r * s - 0.5 * (s - 1) = t"
proof -
  let ?p = "(t + (s - 1) / 2) / s"
  have "0 < ?p" and "?p < 1"
    using assms by (simp_all add: field_simps)
  then have "sigmoid (ln (?p / (1 - ?p))) = ?p"
    by (rule sigmoid_logit)
  then have "sigmoid (ln (?p / (1 - ?p))) * s - 0.5 * (s - 1) = t"
    using assms(1) by (simp add: field_simps)
  then show ?thesis ..
qed

text \<open>
  The encoded targets of a box strictly inside its grid cell are offsets the decoder can
  produce, for every \<^verbatim>\<open>scale_x_y\<close> of at least 1.
\<close>

lemma encoded_targets_reachable:
  assumes "1 \<le> s" and "0 < width" and "0 < height"
    and "gx < bx" and "(bx - gx) * width < 1"
    and "gy < by" and "(by - gy) * height < 1"
    and "0 < bw" and "0 < bh" and "0 < aw" and "0 < ah"
  shows "\<exists>raw. (pred_xy_of (get_predicted_box width height raw (aw, ah) (gx, gy) s n d),
                 pred_wh_of (get_predicted_box width height raw (aw, ah) (gx, gy) s n d))
         = scale_ground_truth_box (bx, by, bw, bh) width height (aw, ah) (gx, gy)"
proof -
  have "0 < (bx - gx) * width" and "0 < (by - gy) * height"
    using assms by simp_all
  then obtain rx ry where rx: "sigmoid rx * s - 0.5 * (s - 1) = (bx - gx) * width"
    and ry: "sigmoid ry * s - 0.5 * (s - 1) = (by - gy) * height"
    using offset_reachable [OF assms(1) _ assms(5)] offset_reachable [OF assms(1) _ assms(7)]
    by blast
  have enc: "scale_ground_truth_box (bx, by, bw, bh) width height (aw, ah) (gx, gy) =
     (((bx - gx) * width, (by - gy) * height), (ln (bw / aw), ln (bh / ah)))"
    using encode_positive [OF assms(8-11)] assms(4,6) by (simp add: relu_def)
  have "(pred_xy_of (get_predicted_box width height (rx, ry, ln (bw / aw), ln (bh / ah))
            (aw, ah) (gx, gy) s n d),
         pred_wh_of (get_predicted_box width height (rx, ry, ln (bw / aw), ln (bh / ah))
            (aw, ah) (gx, gy) s n d))
      = scale_ground_truth_box (bx, by, bw, bh) width height (aw, ah) (gx, gy)"
    unfolding enc legacy_offsets pred_xy_of_def pred_wh_of_def using rx ry by simp
  then show ?thesis ..
qed

text \<open>
  Claim C4, as amended. In the legacy codec the encoder's targets are offsets, compared by
  the loss with the decoder's \<^verbatim>\<open>pred_xy\<close> (after the sigmoid transform) and \<^verbatim>\<open>pred_wh\<close>. For a
  positive grid resolution, a ground-truth box whose center is at or after the grid point
  and whose width, height and anchor width, height are positive: whenever the decoder's
  offsets are the encoded targets, the decoded box is the ground-truth box (center, width
  and height). Over the reals this round trip through the offsets is exact.
\<close>

theorem legacy_round_trip:
  assumes "0 < width" and "0 < height"
    and "gx \<le> bx" and "gy \<le> by"
    and "0 < bw" and "0 < bh" and "0 < aw" and "0 < ah"
    and "(pred_xy_of (get_predicted_box width height raw (aw, ah) (gx, gy) s n d),
          pred_wh_of (get_predicted_box width height raw (aw, ah) (gx, gy) s n d))
         = scale_ground_truth_box (bx, by, bw, bh) width height (aw, ah) (gx, gy)"
  shows "pred_box_of (get_predicted_box width height raw (aw, ah) (gx, gy) s n d)
         = (bx, by, bw, bh)"
proof -
  obtain rx ry rw rh where raw: "raw = (rx, ry, rw, rh)"
    by (cases raw) auto
  have enc: "scale_ground_truth_box (bx, by, bw, bh) width height (aw, ah) (gx, gy) =
     (((bx - gx) * width, (by - gy) * height), (ln (bw / aw), ln (bh / ah)))"
    using encode_positive [OF assms(5-8)] assms(3,4) by (simp add: relu_def)
  have x: "sigmoid rx * s - 0.5 * (s - 1) = (bx - gx) * width"
    and y: "sigmoid ry * s - 0.5 * (s - 1) = (by - gy) * height"
    and w: "rw = ln (bw / aw)" and h: "rh = ln (bh / ah)"
    using assms(9) unfolding raw legacy_offsets enc pred_xy_of_def pred_wh_of_def by simp_all
  have "exp rw * aw = bw" "exp rh * ah = bh"
    using assms(5-8) by (simp_all add: w h)
  moreover have "(sigmoid rx * s - 0.5 * (s - 1)) / width + gx = bx"
    "(sigmoid ry * s - 0.5 * (s - 1)) / height + gy = by"
    using assms(1,2) x y by simp_all
  ultimately show ?thesis
    unfolding raw legacy_offsets pred_box_of_def by simp
qed

theorem legacy_round_trip_witness:
  "(0::real) < 13 \<and> (6 / 13 :: real) \<le> 1 / 2 \<and> (0::real) < 2 \<and> (0::real) < 3 \<and>
   (pred_xy_of (get_predicted_box 13 13 (0, 0, 0, 0) (2, 3) (6 / 13, 6 / 13) 1 (Fin 1) (Fin 5)),
    pred_wh_of (get_predicted_box 13 13 (0, 0, 0, 0) (2, 3) (6 / 13, 6 / 13) 1 (Fin 1) (Fin 5)))
     = scale_ground_truth_box (1 / 2, 1 / 2, 2, 3) 13 13 (2, 3) (6 / 13, 6 / 13) \<and>
   pred_box_of (get_predicted_box 13 13 (0, 0, 0, 0) (2, 3) (6 / 13, 6 / 13) 1 (Fin 1) (Fin 5))
     = (1 / 2, 1 / 2, 2, 3)"
proof -
  have pos: "(0::real) < 13" "(0::real) < 2" "(0::real) < 3"
    by simp_all
  have le: "(6 / 13 :: real) \<le> 1 / 2"
    by simp
  have hit: "(pred_xy_of (get_predicted_box 13 13 (0, 0, 0, 0) (2, 3) (6 / 13, 6 / 13) 1 (Fin 1) (Fin 5)),
    pred_wh_of (get_predicted_box 13 13 (0, 0, 0, 0) (2, 3) (6 / 13, 6 / 13) 1 (Fin 1) (Fin 5)))
     = scale_ground_truth_box (1 / 2, 1 / 2, 2, 3) 13 13 (2, 3) (6 / 13, 6 / 13)"
    by (simp add: pred_xy_of_def pred_wh_of_def Let_def box_gradient_trap_def sigmoid_def
        relu_def fl_div_def rm_nan_inf_def)
  show ?thesis
    using pos le hit
      legacy_round_trip [OF pos(1) pos(1) le le pos(2) pos(3) pos(2) pos(3) hit]
    by simp
qed

text \<open>
  Claim C8, as amended. For every \<^verbatim>\<open>scale_x_y\<close> (in particular every one of at least 1) and
  positive grid resolution: when a raw prediction decodes to the center of a ground-truth
  box that lies at or after the grid point, the encoder's xy target of that box equals the
  decoder's offset \<open>sigmoid(raw) * scale_x_y - 0.5 * (scale_x_y - 1)\<close> of that raw
  prediction, so the encoded target and the decoded offset are in the same offset space.
\<close>

theorem scale_x_y_same_offset_space:
  assumes "0 < width" and "0 < height"
    and "gx \<le> bx" and "gy \<le> by"
    and "box_xy (pred_box_of (get_predicted_box width height (rx, ry, rw, rh) (aw, ah) (gx, gy)
            scale_x_y n d)) = (bx, by)"
  shows "fst (scale_ground_truth_box (bx, by, bw, bh) width height (aw, ah) (gx, gy))
           = pred_xy_of (get_predicted_box width height (rx, ry, rw, rh) (aw, ah) (gx, gy)
               scale_x_y n d)
       \<and> pred_xy_of (get_predicted_box width height (rx, ry, rw, rh) (aw, ah) (gx, gy)
               scale_x_y n d)
           = (sigmoid rx * scale_x_y - 0.5 * (scale_x_y - 1),
              sigmoid ry * scale_x_y - 0.5 * (scale_x_y - 1))"
proof -
  let ?px = "sigmoid rx * scale_x_y - 0.5 * (scale_x_y - 1)"
  let ?py = "sigmoid ry * scale_x_y - 0.5 * (scale_x_y - 1)"
  have "?px / width + gx = bx" and "?py / height + gy = by"
    using assms(5) unfolding legacy_offsets pred_box_of_def by simp_all
  then have px: "?px = (bx - gx) * width" and py: "?py = (by - gy) * height"
    using assms(1,2) by (simp_all add: field_simps)
  have "fst (scale_ground_truth_box (bx, by, bw, bh) width height (aw, ah) (gx, gy))
      = ((bx - gx) * width, (by - gy) * height)"
    using assms(3,4) by (simp add: Let_def relu_def)
  then show ?thesis
    unfolding legacy_offsets pred_xy_of_def using px py by simp
qed

theorem scale_x_y_same_offset_space_witness:
  "(0::real) < 1 \<and> (0::real) \<le> 1 / 2 \<and>
   box_xy (pred_box_of (get_predicted_box 1 1 (0, 0, 0, 0) (1, 1) (0, 0) 2 (Fin 1) (Fin 5)))
     = (1 / 2, 1 / 2) \<and>
   fst (scale_ground_truth_box (1 / 2, 1 / 2, 1, 1) 1 1 (1, 1) (0, 0)) = (1 / 2, 1 / 2) \<and>
   pred_xy_of (get_predicted_box 1 1 (0, 0, 0, 0) (1, 1) (0, 0) 2 (Fin 1) (Fin 5))
     = (1 / 2, 1 / 2)"
proof -
  have pos: "(0::real) < 1"
    by simp
  have le: "(0::real) \<le> 1 / 2"
    by simp
  have dec: "box_xy (pred_box_of (get_predicted_box 1 1 (0, 0, 0, 0) (1, 1) (0, 0) 2
      (Fin 1) (Fin 5))) = (1 / 2, 1 / 2)"
    by (simp add: pred_box_of_def Let_def box_gradient_trap_def sigmoid_def)
  show ?thesis
    using pos le dec scale_x_y_same_offset_space [OF pos pos le le dec, where bw = 1 and bh = 1]
    by (simp add: sigmoid_def)
qed

section \<open>Properties of the ignore mask\<close>


lemma then_res_Inr: "then_res (Inr v) f = f v"
  by (simp add: then_res_def)

lemma binop_ok:
  assumes "bshape (shape t1) (shape t2) = Inr s"
  shows "binop f t1 t2 =
           Inr \<lparr>shape = s,
                entry = \<lambda>i. f (entry t1 (bidx (shape t1) i)) (entry t2 (bidx (shape t2) i))\<rparr>"
  using assms by (simp add: binop_def then_res_def)

lemma bshape5:
  assumes "bdim_ok (a1, b1)" "bdim_ok (a2, b2)" "bdim_ok (a3, b3)" "bdim_ok (a4, b4)"
    "bdim_ok (a5, b5)"
  shows "bshape [a1, a2, a3, a4, a5] [b1, b2, b3, b4, b5] =
     Inr [bdim (a1, b1), bdim (a2, b2), bdim (a3, b3), bdim (a4, b4), bdim (a5, b5)]"
  using assms by (simp add: bshape_def pad_shape_def)

lemma bidx5:
  "bidx [d1, d2, d3, d4, d5] [i1, i2, i3, i4, i5] =
     [if d1 = 1 then 0 else i1, if d2 = 1 then 0 else i2, if d3 = 1 then 0 else i3,
      if d4 = 1 then 0 else i4, if d5 = 1 then 0 else i5]"
  by (simp add: bidx_def)

lemma bcast_idx0: "k < d \<Longrightarrow> (if d = Suc 0 then 0 else k) = k"
  by auto

lemma boxes_expanded:
  assumes "shape boxes = [B, N]"
  shows "shape (unop f (expand_dims 1 (expand_dims 1 (expand_dims 1 boxes (- 2)) 1) 1))
           = [B, 1, 1, N, 1]"
    and "entry (unop f (expand_dims 1 (expand_dims 1 (expand_dims 1 boxes (- 2)) 1) 1))
           [b, 0, 0, n, 0] = f (entry boxes [b, n])"
  using assms by (simp_all add: unop_def expand_dims_def norm_axis_def Let_def)

lemma pred_boxes_expanded:
  assumes "shape pred_boxes = [B, W, H, A]"
  shows "shape (expand_dims 1 pred_boxes (- 3)) = [B, W, H, 1, A]"
    and "entry (expand_dims 1 pred_boxes (- 3)) [b, i, j, 0, a] = entry pred_boxes [b, i, j, a]"
  using assms by (simp_all add: expand_dims_def norm_axis_def Let_def)

lemma classes_expanded:
  assumes "shape classes = [B, N]"
  shows "shape (expand_dims 0 (expand_dims 0 (expand_dims 0 classes 1) 1) 1) = [B, 1, 1, 1, N]"
    and "entry (expand_dims 0 (expand_dims 0 (expand_dims 0 classes 1) 1) 1) [b, 0, 0, 0, n]
           = entry classes [b, n]"
  using assms by (simp_all add: expand_dims_def norm_axis_def Let_def)

lemma argmax_expanded:
  assumes "shape pred_classes = [B, W, H, A, C]" and "0 < C"
  shows "argmax_last pred_classes =
          Inr \<lparr>shape = [B, W, H, A],
               entry = \<lambda>i. argmax_list (map (\<lambda>k. entry pred_classes (i @ [k])) [0..<C])\<rparr>"
  using assms by (simp add: argmax_last_def)

lemma class_max_expanded:
  "shape (unop real (expand_dims 0 \<lparr>shape = [B, W, H, A], entry = m\<rparr> (- 1))) = [B, W, H, A, 1]"
  "entry (unop real (expand_dims 0 \<lparr>shape = [B, W, H, A], entry = m\<rparr> (- 1))) [b, i, j, a, 0]
     = real (m [b, i, j, a])"
  by (simp_all add: unop_def expand_dims_def norm_axis_def Let_def)

lemma transposed_mask:
  assumes "shape t = [B, W, H, N, A]"
  shows "shape (transpose_perm t [0, 1, 2, 4, 3]) = [B, W, H, A, N]"
    and "entry (transpose_perm t [0, 1, 2, 4, 3]) [b, i, j, a, n] = entry t [b, i, j, n, a]"
  using assms by (simp_all add: transpose_perm_def upt_rec)

lemma bdim_ok_simps:
  "bdim_ok (d, d)" "bdim_ok (1, d)" "bdim_ok (d, 1)"
  by (simp_all add: bdim_ok_def)

lemma bdim_simps:
  "bdim (d, d) = d" "bdim (1, d) = d" "bdim (d, 1) = d"
  by (simp_all add: bdim_def)

text \<open>
  The masks of well-shaped inputs: \<^verbatim>\<open>build_masks\<close> returns, and the ignore mask at a grid
  cell and anchor is 0 when some ground-truth box has an IoU with the predicted box above
  \<^verbatim>\<open>ignore_thresh\<close> and the class id that is the argmax of the predicted class scores, and
  1 otherwise.
\<close>

lemma build_masks_entries:
  assumes pb: "shape pred_boxes = [B, W, H, A]"
    and pc: "shape pred_classes = [B, W, H, A, C]" and C: "0 < C"
    and bx: "shape boxes = [B, N]" and cl: "shape classes = [B, N]"
  shows "\<exists>ignore_mask true_mask.
      build_masks ops ignore_thresh truth_thresh pred_boxes pred_classes boxes classes
        = Inr (ignore_mask, true_mask) \<and>
      shape ignore_mask = [B, W, H, A] \<and>
      (\<forall>b<B. \<forall>i<W. \<forall>j<H. \<forall>a<A.
         entry ignore_mask [b, i, j, a] =
           (if \<exists>n<N. ignore_thresh < compute_iou ops False (yxyx_to_xcycwh ops (entry boxes [b, n]))
                                       (entry pred_boxes [b, i, j, a])
                    \<and> entry classes [b, n]
                        = real (argmax_list (map (\<lambda>k. entry pred_classes [b, i, j, a, k]) [0..<C]))
            then 0 else 1))"
proof -
  define bs where "bs = unop (yxyx_to_xcycwh ops)
      (expand_dims 1 (expand_dims 1 (expand_dims 1 boxes (- 2)) 1) 1)"
  define ps where "ps = expand_dims 1 pred_boxes (- 3)"
  define cs where "cs = expand_dims 0 (expand_dims 0 (expand_dims 0 classes 1) 1) 1"
  define m where "m = (\<lambda>i. argmax_list (map (\<lambda>k. entry pred_classes (i @ [k])) [0..<C]))"
  define pm where "pm = unop real (expand_dims 0 \<lparr>shape = [B, W, H, A], entry = m\<rparr> (- 1))"
  define mc where "mc = \<lparr>shape = [B, W, H, A, N],
      entry = \<lambda>i. entry cs (bidx (shape cs) i) = entry pm (bidx (shape pm) i)\<rparr>"
  define iou where "iou = \<lparr>shape = [B, W, H, N, A],
      entry = \<lambda>i. compute_iou ops False (entry bs (bidx (shape bs) i)) (entry ps (bidx (shape ps) i))\<rparr>"
  define im where "im = transpose_perm (unop (\<lambda>v. ignore_thresh < v) iou) [0, 1, 2, 4, 3]"
  define im2 where "im2 = \<lparr>shape = [B, W, H, A, N],
      entry = \<lambda>i. entry im (bidx (shape im) i) \<and> entry mc (bidx (shape mc) i)\<rparr>"
  have sh_bs: "shape bs = [B, 1, 1, N, 1]"
    unfolding bs_def by (rule boxes_expanded [OF bx])
  have sh_ps: "shape ps = [B, W, H, 1, A]"
    unfolding ps_def by (rule pred_boxes_expanded [OF pb])
  have sh_cs: "shape cs = [B, 1, 1, 1, N]"
    unfolding cs_def by (rule classes_expanded [OF cl])
  have sh_pm: "shape pm = [B, W, H, A, 1]"
    unfolding pm_def by (rule class_max_expanded)
  have sh_iou: "shape (unop (\<lambda>v. ignore_thresh < v) iou) = [B, W, H, N, A]"
    by (simp add: iou_def unop_def)
  have sh_im: "shape im = [B, W, H, A, N]"
    unfolding im_def by (rule transposed_mask [OF sh_iou])
  have sh_mc: "shape mc = [B, W, H, A, N]"
    by (simp add: mc_def)
  have am: "argmax_last pred_classes = Inr \<lparr>shape = [B, W, H, A], entry = m\<rparr>"
    unfolding m_def by (rule argmax_expanded [OF pc C])
  have e_mc: "binop (=) cs pm = Inr mc"
    unfolding mc_def
    by (rule binop_ok) (simp only: sh_cs sh_pm bshape5 bdim_ok_simps bdim_simps)
  have e_iou: "binop (compute_iou ops False) bs ps = Inr iou"
    unfolding iou_def
    by (rule binop_ok) (simp only: sh_bs sh_ps bshape5 bdim_ok_simps bdim_simps)
  have e_im2: "binop (\<and>) im mc = Inr im2"
    unfolding im2_def
    by (rule binop_ok) (simp only: sh_im sh_mc bshape5 bdim_ok_simps bdim_simps)
  have run: "build_masks ops ignore_thresh truth_thresh pred_boxes pred_classes boxes classes
      = Inr (unop cast_bool (unop Not (reduce_any_last im2)),
             unop cast_bool (unop (\<lambda>v. truth_thresh < v) iou))"
    unfolding build_masks_def Let_def am then_res_Inr
    unfolding bs_def [symmetric] ps_def [symmetric] cs_def [symmetric] pm_def [symmetric]
    unfolding e_mc e_iou then_res_Inr im_def [symmetric] e_im2 then_res_Inr
    by (rule refl)
  have key: "entry im2 [b, i, j, a, n] =
      (ignore_thresh < compute_iou ops False (yxyx_to_xcycwh ops (entry boxes [b, n]))
                         (entry pred_boxes [b, i, j, a])
       \<and> entry classes [b, n]
            = real (argmax_list (map (\<lambda>k. entry pred_classes [b, i, j, a, k]) [0..<C])))"
    if "b < B" "i < W" "j < H" "a < A" "n < N" for b i j a n
  proof -
    have i1: "bidx [B, W, H, A, N] [b, i, j, a, n] = [b, i, j, a, n]"
      using that by (simp add: bidx5 bcast_idx0)
    have i2: "bidx [B, 1, 1, N, 1] [b, i, j, n, a] = [b, 0, 0, n, 0]"
      using that by (simp add: bidx5 bcast_idx0)
    have i3: "bidx [B, W, H, 1, A] [b, i, j, n, a] = [b, i, j, 0, a]"
      using that by (simp add: bidx5 bcast_idx0)
    have i4: "bidx [B, 1, 1, 1, N] [b, i, j, a, n] = [b, 0, 0, 0, n]"
      using that by (simp add: bidx5 bcast_idx0)
    have i5: "bidx [B, W, H, A, 1] [b, i, j, a, n] = [b, i, j, a, 0]"
      using that by (simp add: bidx5 bcast_idx0)
    have "entry im [b, i, j, a, n] = (ignore_thresh < entry iou [b, i, j, n, a])"
      unfolding im_def transposed_mask(2) [OF sh_iou] by (simp add: unop_def)
    also have "entry iou [b, i, j, n, a] =
        compute_iou ops False (entry bs [b, 0, 0, n, 0]) (entry ps [b, i, j, 0, a])"
      by (simp only: iou_def tensor.select_convs sh_bs sh_ps i2 i3)
    also have "entry bs [b, 0, 0, n, 0] = yxyx_to_xcycwh ops (entry boxes [b, n])"
      unfolding bs_def by (rule boxes_expanded [OF bx])
    also have "entry ps [b, i, j, 0, a] = entry pred_boxes [b, i, j, a]"
      unfolding ps_def by (rule pred_boxes_expanded [OF pb])
    finally have e_im: "entry im [b, i, j, a, n] =
        (ignore_thresh < compute_iou ops False (yxyx_to_xcycwh ops (entry boxes [b, n]))
                           (entry pred_boxes [b, i, j, a]))" .
    have "entry mc [b, i, j, a, n] = (entry cs [b, 0, 0, 0, n] = entry pm [b, i, j, a, 0])"
      by (simp only: mc_def tensor.select_convs sh_cs sh_pm i4 i5)
    also have "entry cs [b, 0, 0, 0, n] = entry classes [b, n]"
      unfolding cs_def by (rule classes_expanded [OF cl])
    also have "entry pm [b, i, j, a, 0] = real (m [b, i, j, a])"
      unfolding pm_def by (rule class_max_expanded)
    finally have e_mc': "entry mc [b, i, j, a, n] =
        (entry classes [b, n]
           = real (argmax_list (map (\<lambda>k. entry pred_classes [b, i, j, a, k]) [0..<C])))"
      by (simp add: m_def)
    have "entry im2 [b, i, j, a, n] = (entry im [b, i, j, a, n] \<and> entry mc [b, i, j, a, n])"
      by (simp only: im2_def tensor.select_convs sh_im sh_mc i1)
    then show ?thesis
      unfolding e_im e_mc' .
  qed
  have res: "entry (unop cast_bool (unop Not (reduce_any_last im2))) [b, i, j, a] =
      (if \<exists>n<N. entry im2 [b, i, j, a, n] then 0 else 1)" for b i j a
    by (auto simp: unop_def reduce_any_last_def im2_def cast_bool_def list_ex_iff)
  have sh_res: "shape (unop cast_bool (unop Not (reduce_any_last im2))) = [B, W, H, A]"
    by (simp add: unop_def reduce_any_last_def im2_def)
  have "entry (unop cast_bool (unop Not (reduce_any_last im2))) [b, i, j, a] =
      (if \<exists>n<N. ignore_thresh < compute_iou ops False (yxyx_to_xcycwh ops (entry boxes [b, n]))
                                   (entry pred_boxes [b, i, j, a])
                \<and> entry classes [b, n]
                    = real (argmax_list (map (\<lambda>k. entry pred_classes [b, i, j, a, k]) [0..<C]))
       then 0 else 1)"
    if "b < B" "i < W" "j < H" "a < A" for b i j a
    unfolding res using key [OF that] by auto
  then show ?thesis
    using run sh_res by blast
qed

text \<open>
  Claim C5. For well-shaped inputs \<^verbatim>\<open>build_masks\<close> returns, and for every image, grid cell
  and anchor the entry of the ignore mask is 0 if and only if some ground-truth box has an
  IoU with the predicted box above \<^verbatim>\<open>ignore_thresh\<close> and a class id equal to the argmax of
  the predicted class scores; otherwise the entry is 1. So a ground-truth box of another
  class never makes a prediction ignored, whatever its IoU.
\<close>

theorem build_masks_ignore_iff:
  assumes "shape pred_boxes = [B, W, H, A]"
    and "shape pred_classes = [B, W, H, A, C]" and "0 < C"
    and "shape boxes = [B, N]" and "shape classes = [B, N]"
  shows "\<exists>ignore_mask true_mask.
      build_masks ops ignore_thresh truth_thresh pred_boxes pred_classes boxes classes
        = Inr (ignore_mask, true_mask) \<and>
      shape ignore_mask = [B, W, H, A] \<and>
      (\<forall>b<B. \<forall>i<W. \<forall>j<H. \<forall>a<A.
         (entry ignore_mask [b, i, j, a] = 0 \<longleftrightarrow>
            (\<exists>n<N. ignore_thresh < compute_iou ops False (yxyx_to_xcycwh ops (entry boxes [b, n]))
                                       (entry pred_boxes [b, i, j, a])
                    \<and> entry classes [b, n]
                        = real (argmax_list (map (\<lambda>k. entry pred_classes [b, i, j, a, k]) [0..<C]))))
         \<and> (entry ignore_mask [b, i, j, a] = 0 \<or> entry ignore_mask [b, i, j, a] = 1))"
proof -
  obtain ignore_mask true_mask where
    run: "build_masks ops ignore_thresh truth_thresh pred_boxes pred_classes boxes classes
        = Inr (ignore_mask, true_mask)"
    and sh: "shape ignore_mask = [B, W, H, A]"
    and en: "\<forall>b<B. \<forall>i<W. \<forall>j<H. \<forall>a<A.
         entry ignore_mask [b, i, j, a] =
           (if \<exists>n<N. ignore_thresh < compute_iou ops False (yxyx_to_xcycwh ops (entry boxes [b, n]))
                                       (entry pred_boxes [b, i, j, a])
                    \<and> entry classes [b, n]
                        = real (argmax_list (map (\<lambda>k. entry pred_classes [b, i, j, a, k]) [0..<C]))
            then 0 else 1)"
    using build_masks_entries [OF assms] by blast
  have "\<forall>b<B. \<forall>i<W. \<forall>j<H. \<forall>a<A.
         (entry ignore_mask [b, i, j, a] = 0 \<longleftrightarrow>
            (\<exists>n<N. ignore_thresh < compute_iou ops False (yxyx_to_xcycwh ops (entry boxes [b, n]))
                                       (entry pred_boxes [b, i, j, a])
                    \<and> entry classes [b, n]
                        = real (argmax_list (map (\<lambda>k. entry pred_classes [b, i, j, a, k]) [0..<C]))))
         \<and> (entry ignore_mask [b, i, j, a] = 0 \<or> entry ignore_mask [b, i, j, a] = 1)"
    using en by simp
  with run sh show ?thesis
    by blast
qed

theorem build_masks_ignore_iff_witness:
  "shape ex_pred_boxes = [1, 1, 1, 1] \<and> shape ex_pred_classes = [1, 1, 1, 1, 2] \<and>
   shape ex_boxes = [1, 2] \<and> shape ex_classes = [1, 2] \<and>
   (\<exists>ignore_mask true_mask.
      build_masks spec_box_ops (7 / 10) 1 ex_pred_boxes ex_pred_classes ex_boxes ex_classes
        = Inr (ignore_mask, true_mask) \<and>
      entry ignore_mask [0, 0, 0, 0] = 0)"
proof -
  have sh: "shape ex_pred_boxes = [1, 1, 1, 1]" "shape ex_pred_classes = [1, 1, 1, 1, 2]"
    "shape ex_boxes = [1, 2]" "shape ex_classes = [1, 2]"
    by (simp_all add: ex_pred_boxes_def ex_pred_classes_def ex_boxes_def ex_classes_def)
  have C: "(0::nat) < 2"
    by simp
  note t = build_masks_ignore_iff [OF sh(1) sh(2) C sh(3) sh(4),
      where ops = spec_box_ops and ignore_thresh = "7 / 10" and truth_thresh = 1]
  from t obtain ignore_mask where "\<exists>true_mask.
      build_masks spec_box_ops (7 / 10) 1 ex_pred_boxes ex_pred_classes ex_boxes ex_classes
        = Inr (ignore_mask, true_mask) \<and>
      shape ignore_mask = [1, 1, 1, 1] \<and>
      (\<forall>b<1. \<forall>i<1. \<forall>j<1. \<forall>a<1.
         (entry ignore_mask [b, i, j, a] = 0 \<longleftrightarrow>
            (\<exists>n<2. 7 / 10 < compute_iou spec_box_ops False (yxyx_to_xcycwh spec_box_ops (entry ex_boxes [b, n]))
                        (entry ex_pred_boxes [b, i, j, a])
                    \<and> entry ex_classes [b, n]
                        = real (argmax_list (map (\<lambda>k. entry ex_pred_classes [b, i, j, a, k]) [0..<2]))))
         \<and> (entry ignore_mask [b, i, j, a] = 0 \<or> entry ignore_mask [b, i, j, a] = 1))" ..
  then obtain true_mask where r:
     "build_masks spec_box_ops (7 / 10) 1 ex_pred_boxes ex_pred_classes ex_boxes ex_classes
        = Inr (ignore_mask, true_mask) \<and>
      shape ignore_mask = [1, 1, 1, 1] \<and>
      (\<forall>b<1. \<forall>i<1. \<forall>j<1. \<forall>a<1.
         (entry ignore_mask [b, i, j, a] = 0 \<longleftrightarrow>
            (\<exists>n<2. 7 / 10 < compute_iou spec_box_ops False (yxyx_to_xcycwh spec_box_ops (entry ex_boxes [b, n]))
                        (entry ex_pred_boxes [b, i, j, a])
                    \<and> entry ex_classes [b, n]
                        = real (argmax_list (map (\<lambda>k. entry ex_pred_classes [b, i, j, a, k]) [0..<2]))))
         \<and> (entry ignore_mask [b, i, j, a] = 0 \<or> entry ignore_mask [b, i, j, a] = 1))" ..
  have z: "(0::nat) < 1"
    by simp
  note en = r [THEN conjunct2, THEN conjunct2, rule_format, OF z z z z, THEN conjunct1]
  have am: "argmax_list (map (\<lambda>k. entry ex_pred_classes [0, 0, 0, 0, k]) [0..<2]) = 1"
    by (simp add: ex_pred_classes_def argmax_list_def upt_rec)
  have iou: "compute_iou spec_box_ops False (yxyx_to_xcycwh spec_box_ops (entry ex_boxes [0, 0]))
      (entry ex_pred_boxes [0, 0, 0, 0]) = 1"
    by (simp add: spec_box_ops_def with_layout_def ex_boxes_def ex_pred_boxes_def
        spec_iou_yxyx_def union_yxyx_def divide_no_nan_def)
  have cl: "entry ex_classes [0, 0] = 1"
    by (simp add: ex_classes_def)
  have "7 / 10 < compute_iou spec_box_ops False (yxyx_to_xcycwh spec_box_ops (entry ex_boxes [0, 0]))
                        (entry ex_pred_boxes [0, 0, 0, 0])
                    \<and> entry ex_classes [0, 0]
                        = real (argmax_list (map (\<lambda>k. entry ex_pred_classes [0, 0, 0, 0, k]) [0..<2]))"
    unfolding iou am cl by simp
  then have "\<exists>n<2. 7 / 10 < compute_iou spec_box_ops False (yxyx_to_xcycwh spec_box_ops (entry ex_boxes [0, n]))
                        (entry ex_pred_boxes [0, 0, 0, 0])
                    \<and> entry ex_classes [0, n]
                        = real (argmax_list (map (\<lambda>k. entry ex_pred_classes [0, 0, 0, 0, k]) [0..<2]))"
    by (intro exI [of _ 0] conjI) simp_all
  then have "entry ignore_mask [0, 0, 0, 0] = 0"
    by (rule en [THEN iffD2])
  with r have "build_masks spec_box_ops (7 / 10) 1 ex_pred_boxes ex_pred_classes ex_boxes ex_classes
        = Inr (ignore_mask, true_mask) \<and> entry ignore_mask [0, 0, 0, 0] = 0"
    by (intro conjI) (erule conjunct1, assumption)
  then have "\<exists>ignore_mask true_mask.
      build_masks spec_box_ops (7 / 10) 1 ex_pred_boxes ex_pred_classes ex_boxes ex_classes
        = Inr (ignore_mask, true_mask) \<and> entry ignore_mask [0, 0, 0, 0] = 0"
    by (intro exI)
  with sh show ?thesis
    by (intro conjI)
qed

text \<open>
  Claim C4 as stated: feeding the encoded targets to the decoder does not reproduce the
  center, because the decoder applies the sigmoid to its input and the encoder does not
  invert it. On a 13 by 13 grid, for the box \<open>(1/2, 1/2, 2, 3)\<close> in the cell with grid point
  \<open>(6/13, 6/13)\<close> and anchor \<open>(2, 3)\<close>, the encoded targets are \<open>(1/2, 1/2)\<close> and \<open>(0, 0)\<close>, and
  the decoder maps them to a center other than \<open>(1/2, 1/2)\<close>.
\<close>

theorem legacy_literal_round_trip_fails:
  "scale_ground_truth_box (1 / 2, 1 / 2, 2, 3) 13 13 (2, 3) (6 / 13, 6 / 13)
     = ((1 / 2, 1 / 2), (0, 0))
   \<and> pred_box_of (get_predicted_box 13 13 (1 / 2, 1 / 2, 0, 0) (2, 3) (6 / 13, 6 / 13)
         1 (Fin 1) (Fin 5))
     \<noteq> (1 / 2, 1 / 2, 2, 3)"
proof -
  have enc: "scale_ground_truth_box (1 / 2, 1 / 2, 2, 3) 13 13 (2, 3) (6 / 13, 6 / 13)
      = ((1 / 2, 1 / 2), (0, 0))"
    by (simp add: Let_def relu_def fl_div_def rm_nan_inf_def)
  have "sigmoid 0 < sigmoid (1 / 2)"
    by (rule sigmoid_strict_mono) simp
  then have "sigmoid (1 / 2) \<noteq> 1 / 2"
    by (simp add: sigmoid_def)
  then have "pred_box_of (get_predicted_box 13 13 (1 / 2, 1 / 2, 0, 0) (2, 3) (6 / 13, 6 / 13)
         1 (Fin 1) (Fin 5)) \<noteq> (1 / 2, 1 / 2, 2, 3)"
    by (simp add: Let_def box_gradient_trap_def pred_box_of_def)
  with enc show ?thesis
    by (rule conjI)
qed

text \<open>
  Claim C8 as stated: with \<^verbatim>\<open>scale_x_y = 2\<close> the raw prediction \<open>- ln 7\<close> has the offset
  \<open>-1/4\<close> and decodes to a center before the grid point; the encoder's relu clamps the
  target of that center to 0, which is not the decoder's offset.
\<close>

theorem relu_clamps_widened_offset:
  "box_xy (pred_box_of (get_predicted_box 1 1 (- ln 7, - ln 7, 0, 0) (1, 1) (0, 0) 2 (Fin 1) (Fin 5)))
     = (- 1 / 4, - 1 / 4)
   \<and> fst (scale_ground_truth_box (- 1 / 4, - 1 / 4, 1, 1) 1 1 (1, 1) (0, 0))
     \<noteq> pred_xy_of (get_predicted_box 1 1 (- ln 7, - ln 7, 0, 0) (1, 1) (0, 0) 2 (Fin 1) (Fin 5))"
  by (simp add: box_gradient_trap_def pred_box_of_def pred_xy_of_def sigmoid_def Let_def
      relu_def exp_minus)

section \<open>Properties of the construction\<close>

text \<open>
  Claim C9, as amended. \<^verbatim>\<open>Yolo_Loss.__init__\<close> validates neither the loss type nor the
  mask. It raises exactly when the constructor of the grid generator raises; otherwise it
  returns the object, in which every loss-type string other than \<^verbatim>\<open>giou\<close> and \<^verbatim>\<open>ciou\<close>
  selects the code 0 of the squared-error loss, and the number of anchors is the length of
  the mask, which may be 0.
\<close>

theorem init_never_validates:
  "Yolo_Loss_init GridGenerator args =
     (case GridGenerator (arg_mask args) (arg_anchors args) (arg_scale_anchors args) of
        Inl e \<Rightarrow> Inl e
      | Inr g \<Rightarrow> Yolo_Loss_init (\<lambda>m a s. Inr g) args)
   \<and> (\<forall>g. \<exists>self. Yolo_Loss_init (\<lambda>m a s. Inr g) args = Inr self
          \<and> self_loss_type self =
               (if arg_loss_type args = ''giou'' then 1
                else if arg_loss_type args = ''ciou'' then 2 else 0)
          \<and> self_num self = length (arg_mask args)
          \<and> self_masks self = arg_mask args)"
  by (simp add: Yolo_Loss_init_def then_res_def split: sum.splits)

text \<open>
  Claim C9 as stated: with the default arguments, the unknown loss type \<^verbatim>\<open>iou\<close> is
  accepted and becomes the code 0, and an empty mask is accepted with 0 anchors.
\<close>

theorem init_accepts_invalid_configuration:
  "map_sum id self_loss_type
      (Yolo_Loss_init ex_GridGenerator (ex_args\<lparr>arg_loss_type := ''iou''\<rparr>)) = Inr 0
   \<and> map_sum id self_num
      (Yolo_Loss_init ex_GridGenerator (ex_args\<lparr>arg_mask := []\<rparr>)) = Inr 0"
  by (simp add: Yolo_Loss_init_def then_res_def ex_GridGenerator_def ex_args_def)

section \<open>Properties of the non-max suppression\<close>

lemma map_res_Inr:
  assumes "\<And>x. x \<in> set xs \<Longrightarrow> f x = Inr (g x)"
  shows "map_res f xs = Inr (map g xs)"
  using assms by (induction xs) (simp_all add: then_res_def)

lemma top_k_indices_length:
  assumes "k \<le> length xs"
  shows "length (top_k_indices xs k) = k"
  using assms by (simp add: top_k_indices_def)

lemma top_k_indices_bound:
  assumes "i \<in> set (top_k_indices xs k)"
  shows "i < length xs"
proof -
  have "i \<in> set (sort_key (\<lambda>i. - (xs ! i)) [0..<length xs])"
    using assms unfolding top_k_indices_def by (rule in_set_takeD)
  then show ?thesis
    by simp
qed

lemma top_k_indices_distinct: "distinct (top_k_indices xs k)"
  by (simp add: top_k_indices_def)

lemma top_k_indices_all:
  "set (top_k_indices xs (length xs)) = {..<length xs}"
  by (auto simp: top_k_indices_def)

lemma top_k_sorted: "sorted_wrt (\<ge>) (map (\<lambda>i. xs ! i) (top_k_indices xs k))"
proof -
  have "sorted (map (\<lambda>i. - (xs ! i)) (sort_key (\<lambda>i. - (xs ! i)) [0..<length xs]))"
    by (rule sorted_sort_key)
  then have "sorted_wrt (\<lambda>i j. xs ! i \<ge> xs ! j) (sort_key (\<lambda>i. - (xs ! i)) [0..<length xs])"
    by (simp add: sorted_wrt_map)
  then have "sorted_wrt (\<lambda>i j. xs ! i \<ge> xs ! j) (top_k_indices xs k)"
    unfolding top_k_indices_def by (rule sorted_wrt_take)
  then show ?thesis
    by (simp add: sorted_wrt_map)
qed

lemma top_k_ok:
  assumes "k \<le> length xs"
  shows "top_k xs k = Inr (map (\<lambda>i. xs ! i) (top_k_indices xs k), top_k_indices xs k)"
  using assms by (simp add: top_k_def Let_def)

lemma gather_ok:
  assumes "\<And>i. i \<in> set ind \<Longrightarrow> i < length row"
  shows "gather row ind = Inr (map (\<lambda>i. row ! i) ind)"
  using assms by (simp add: gather_def list_all_iff)

lemma gather_rows_ok:
  assumes "length ind \<le> length t"
    and "\<And>b i. b < length ind \<Longrightarrow> i \<in> set (ind ! b) \<Longrightarrow> i < length (t ! b)"
  shows "gather_rows t ind = Inr (map (\<lambda>b. map (\<lambda>i. t ! b ! i) (ind ! b)) [0..<length ind])"
  unfolding gather_rows_def
  using assms by (intro map_res_Inr) (simp add: gather_ok)

lemma shaped_row:
  assumes "shaped B n t" and "b < B"
  shows "length (t ! b) = n"
  using assms by (simp add: shaped_def list_all_length)

lemma shaped_length:
  assumes "shaped B n t"
  shows "length t = B"
  using assms by (simp add: shaped_def)

lemma map_by_index: "map f xs = map (\<lambda>b. f (xs ! b)) [0..<length xs]"
  by (rule nth_equalityI) simp_all

lemma sort_drop_ok:
  assumes obj: "shaped B n objectness" and box: "shaped B n box"
    and cls: "shaped B n classificationsi" and k: "k \<le> n"
  shows "sort_drop flat objectness box classificationsi k =
     Inr (ranked_rows id objectness objectness k, ranked_rows id box objectness k,
          ranked_rows flat classificationsi objectness k)"
proof -
  let ?ind = "map (\<lambda>row. top_k_indices row k) objectness"
  have rows: "length row = n" if "row \<in> set objectness" for row
    using obj that by (simp add: shaped_def list_all_iff)
  have tk: "map_res (\<lambda>row. top_k row k) objectness =
      Inr (map (\<lambda>row. (map (\<lambda>i. row ! i) (top_k_indices row k), top_k_indices row k)) objectness)"
    by (rule map_res_Inr) (simp add: top_k_ok rows k)
  have len: "length ?ind = B"
    using obj by (simp add: shaped_def)
  have bound: "i < n" if "b < length ?ind" "i \<in> set (?ind ! b)" for b i
  proof -
    have "i \<in> set (top_k_indices (objectness ! b) k)"
      using that by simp
    then have "i < length (objectness ! b)"
      by (rule top_k_indices_bound)
    then show ?thesis
      using shaped_row [OF obj] that(1) len by simp
  qed
  have gb: "gather_rows box ?ind = Inr (map (\<lambda>b. map (\<lambda>i. box ! b ! i) (?ind ! b)) [0..<length ?ind])"
  proof (rule gather_rows_ok)
    show "length ?ind \<le> length box"
      using len shaped_length [OF box] by simp
    show "i < length (box ! b)" if "b < length ?ind" "i \<in> set (?ind ! b)" for b i
      using bound [OF that] shaped_row [OF box, of b] that(1) len by simp
  qed
  have gc: "gather_rows classificationsi ?ind =
      Inr (map (\<lambda>b. map (\<lambda>i. classificationsi ! b ! i) (?ind ! b)) [0..<length ?ind])"
  proof (rule gather_rows_ok)
    show "length ?ind \<le> length classificationsi"
      using len shaped_length [OF cls] by simp
    show "i < length (classificationsi ! b)" if "b < length ?ind" "i \<in> set (?ind ! b)" for b i
      using bound [OF that] shaped_row [OF cls, of b] that(1) len by simp
  qed
  have snd_tk: "map snd (map (\<lambda>row. (map (\<lambda>i. row ! i) (top_k_indices row k),
      top_k_indices row k)) objectness) = ?ind"
    by (simp add: comp_def)
  have fst_tk: "map fst (map (\<lambda>row. (map (\<lambda>i. row ! i) (top_k_indices row k),
      top_k_indices row k)) objectness) = ranked_rows id objectness objectness k"
    unfolding ranked_rows_def by (rule nth_equalityI) simp_all
  have rb: "map (\<lambda>b. map (\<lambda>i. box ! b ! i) (?ind ! b)) [0..<length ?ind]
      = ranked_rows id box objectness k"
    unfolding ranked_rows_def by (rule nth_equalityI) simp_all
  have rc: "map (map flat) (map (\<lambda>b. map (\<lambda>i. classificationsi ! b ! i) (?ind ! b))
      [0..<length ?ind]) = ranked_rows flat classificationsi objectness k"
    unfolding ranked_rows_def by (rule nth_equalityI) simp_all
  show ?thesis
    unfolding sort_drop_def tk then_res_Inr Let_def snd_tk gb gc fst_tk rb rc
    by (rule refl)
qed

lemma ranked_rows_shaped:
  assumes "shaped B n objectness" and "k \<le> n"
  shows "shaped B k (ranked_rows f t objectness k)"
proof -
  have "length (top_k_indices (objectness ! b) k) = k" if "b < B" for b
    using top_k_indices_length [of k "objectness ! b"] shaped_row [OF assms(1) that] assms(2)
    by simp
  then have "list_all (\<lambda>row. length row = k) (ranked_rows f t objectness k)"
    using shaped_length [OF assms(1)]
    by (simp add: ranked_rows_def list_all_length)
  then show ?thesis
    using shaped_length [OF assms(1)] by (simp add: shaped_def ranked_rows_def)
qed

lemma ranked_rows_nth:
  assumes "b < length objectness"
  shows "ranked_rows f t objectness k ! b
           = map (\<lambda>i. f (t ! b ! i)) (top_k_indices (objectness ! b) k)"
  using assms by (simp add: ranked_rows_def)

lemma ranked_rows_sorted:
  assumes "b < length objectness"
  shows "sorted_wrt (\<ge>) (ranked_rows id objectness objectness k ! b)"
  unfolding ranked_rows_nth [OF assms] id_apply by (rule top_k_sorted)

lemma map2_rows_nth:
  assumes "shaped B n xs" and "shaped B n ys" and "b < B" and "j < n"
  shows "map2 (map2 f) xs ys ! b ! j = f (xs ! b ! j) (ys ! b ! j)"
  using assms by (simp add: shaped_def list_all_length)

lemma map2_rows_shaped:
  assumes "shaped B n xs" and "shaped B n ys"
  shows "shaped B n (map2 (map2 f) xs ys)"
  using assms by (simp add: shaped_def list_all_length)

lemma map_rows_shaped:
  assumes "shaped B n xs"
  shows "shaped B n (map (map f) xs)"
  using assms by (simp add: shaped_def list_all_length)

lemma map_rows_nth:
  assumes "shaped B n xs" and "b < B" and "j < n"
  shows "map (map f) xs ! b ! j = f (xs ! b ! j)"
  using assms by (simp add: shaped_def list_all_length)

lemma fold_max_zero:
  assumes "\<forall>x\<in>set xs. x = 0"
  shows "fold max xs (0::real) = 0"
  using assms by (induction xs) auto

lemma reduce_max_zero:
  assumes "xs \<noteq> []" and "\<And>x. x \<in> set xs \<Longrightarrow> x = 0"
  shows "reduce_max xs = 0"
proof -
  have "hd xs = 0"
    using assms by (cases xs) simp_all
  then show ?thesis
    unfolding reduce_max_def using fold_max_zero [of xs] assms(2) by simp
qed

lemma pre_mask_zero:
  assumes "c \<le> pre_nms_thresh"
  shows "real_of_int \<lceil>relu (c - pre_nms_thresh)\<rceil> = 0"
  using assms by (simp add: relu_def max_def)

lemma nms_threshold_shaped:
  assumes "shaped B n confidence" and "shaped B n boxes" and "shaped B n classes"
    and "nms_threshold pre_nms_thresh use_classes (confidence, boxes, classes) = (c1, b1, cl1)"
  shows "shaped B n c1" and "shaped B n b1" and "shaped B n cl1"
proof -
  let ?mask = "map (map (\<lambda>c. real_of_int \<lceil>relu (c - pre_nms_thresh)\<rceil>)) confidence"
  have m: "shaped B n ?mask"
    by (rule map_rows_shaped [OF assms(1)])
  have cl: "cl1 = map2 (map2 (\<lambda>cs m. map (\<lambda>c. c * m) cs)) classes ?mask"
    and b: "b1 = map2 (map2 (\<lambda>b m. scale_box m b)) boxes ?mask"
    and c: "c1 = (if use_classes then map (map reduce_max) cl1
                  else map2 (map2 (*)) confidence ?mask)"
    using assms(4) by (auto simp: nms_threshold_def Let_def)
  show "shaped B n b1"
    unfolding b by (rule map2_rows_shaped [OF assms(2) m])
  show cl_sh: "shaped B n cl1"
    unfolding cl by (rule map2_rows_shaped [OF assms(3) m])
  show "shaped B n c1"
    unfolding c
    using map_rows_shaped [OF cl_sh, of reduce_max] map2_rows_shaped [OF assms(1) m, of "(*)"]
    by (cases use_classes) simp_all
qed

lemma nms_threshold_entries:
  assumes "shaped B n confidence" and "shaped B n boxes" and "shaped B n classes"
    and "nms_threshold pre_nms_thresh use_classes (confidence, boxes, classes) = (c1, b1, cl1)"
    and "b < B" and "j < n"
  shows "b1 ! b ! j = scale_box (real_of_int \<lceil>relu (confidence ! b ! j - pre_nms_thresh)\<rceil>)
                        (boxes ! b ! j)"
    and "cl1 ! b ! j = map (\<lambda>c. c * real_of_int \<lceil>relu (confidence ! b ! j - pre_nms_thresh)\<rceil>)
                        (classes ! b ! j)"
    and "c1 ! b ! j = (if use_classes then reduce_max (cl1 ! b ! j)
                       else confidence ! b ! j
                            * real_of_int \<lceil>relu (confidence ! b ! j - pre_nms_thresh)\<rceil>)"
proof -
  let ?mask = "map (map (\<lambda>c. real_of_int \<lceil>relu (c - pre_nms_thresh)\<rceil>)) confidence"
  have m: "shaped B n ?mask"
    by (rule map_rows_shaped [OF assms(1)])
  have mj: "?mask ! b ! j = real_of_int \<lceil>relu (confidence ! b ! j - pre_nms_thresh)\<rceil>"
    by (rule map_rows_nth [OF assms(1,5,6)])
  have cl: "cl1 = map2 (map2 (\<lambda>cs m. map (\<lambda>c. c * m) cs)) classes ?mask"
    and bx: "b1 = map2 (map2 (\<lambda>b m. scale_box m b)) boxes ?mask"
    and c: "c1 = (if use_classes then map (map reduce_max) cl1
                  else map2 (map2 (*)) confidence ?mask)"
    using assms(4) by (auto simp: nms_threshold_def Let_def)
  show "b1 ! b ! j = scale_box (real_of_int \<lceil>relu (confidence ! b ! j - pre_nms_thresh)\<rceil>)
                        (boxes ! b ! j)"
    unfolding bx map2_rows_nth [OF assms(2) m assms(5,6)] mj by (rule refl)
  show e_cl: "cl1 ! b ! j = map (\<lambda>c. c * real_of_int \<lceil>relu (confidence ! b ! j - pre_nms_thresh)\<rceil>)
                        (classes ! b ! j)"
    unfolding cl map2_rows_nth [OF assms(3) m assms(5,6)] mj by (rule refl)
  have cl_sh: "shaped B n cl1"
    unfolding cl by (rule map2_rows_shaped [OF assms(3) m])
  show "c1 ! b ! j = (if use_classes then reduce_max (cl1 ! b ! j)
                       else confidence ! b ! j
                            * real_of_int \<lceil>relu (confidence ! b ! j - pre_nms_thresh)\<rceil>)"
  proof (cases use_classes)
    case True
    then have "c1 = map (map reduce_max) cl1"
      using c by simp
    then show ?thesis
      using True map_rows_nth [OF cl_sh assms(5,6), of reduce_max] by simp
  next
    case False
    then have "c1 = map2 (map2 (*)) confidence ?mask"
      using c by simp
    then show ?thesis
      using False map2_rows_nth [OF assms(1) m assms(5,6), of "(*)"] mj by simp
  qed
qed

lemma class_axis_nonemptyI:
  assumes "shaped B n classes" and "\<And>b j. b < B \<Longrightarrow> j < n \<Longrightarrow> classes ! b ! j \<noteq> []"
  shows "class_axis_nonempty classes"
  using assms by (simp add: class_axis_nonempty_def shaped_def list_all_length)

lemma class_axis_nonemptyD:
  assumes "class_axis_nonempty classes" and "shaped B n classes" and "b < B" and "j < n"
  shows "classes ! b ! j \<noteq> []"
  using assms by (simp add: class_axis_nonempty_def shaped_def list_all_length)

lemma argmax_rows_ok:
  assumes "class_axis_nonempty classes"
  shows "map_res (map_res argmax_res) classes
           = Inr (map (map (\<lambda>cs. real (argmax_list cs))) classes)"
proof (rule map_res_Inr)
  fix row
  assume "row \<in> set classes"
  then have "\<And>cs. cs \<in> set row \<Longrightarrow> cs \<noteq> []"
    using assms by (auto simp: class_axis_nonempty_def list_all_iff)
  then show "map_res argmax_res row = Inr (map (\<lambda>cs. real (argmax_list cs)) row)"
    by (intro map_res_Inr) (simp add: argmax_res_def)
qed

lemma ranked_rows_entry:
  assumes "shaped B n objectness" and "k \<le> n" and "b < B" and "j < k"
  shows "ranked_rows f t objectness k ! b ! j = f (t ! b ! (top_k_indices (objectness ! b) k ! j))"
    and "top_k_indices (objectness ! b) k ! j < n"
proof -
  have len: "length (top_k_indices (objectness ! b) k) = k"
    using top_k_indices_length [of k "objectness ! b"] shaped_row [OF assms(1,3)] assms(2)
    by simp
  have b: "b < length objectness"
    using assms(1,3) by (simp add: shaped_def)
  show "ranked_rows f t objectness k ! b ! j = f (t ! b ! (top_k_indices (objectness ! b) k ! j))"
    unfolding ranked_rows_nth [OF b] using len assms(4) by simp
  have "top_k_indices (objectness ! b) k ! j \<in> set (top_k_indices (objectness ! b) k)"
    using len assms(4) by simp
  then have "top_k_indices (objectness ! b) k ! j < length (objectness ! b)"
    by (rule top_k_indices_bound)
  then show "top_k_indices (objectness ! b) k ! j < n"
    using shaped_row [OF assms(1,3)] by simp
qed

lemma nms_rank_ok:
  assumes c: "shaped B n c1" and b: "shaped B n b1" and cl: "shaped B n cl1"
    and ne: "class_axis_nonempty cl1" and k: "k \<le> n"
  shows "nms_rank (c1, b1, cl1) k =
     Inr (ranked_rows id c1 c1 k, ranked_rows id b1 c1 k,
          map (map (\<lambda>cs. real (argmax_list cs))) (ranked_rows id cl1 c1 k))"
proof -
  have sh: "shaped B k (ranked_rows id cl1 c1 k)"
    by (rule ranked_rows_shaped [OF c k])
  have "class_axis_nonempty (ranked_rows id cl1 c1 k)"
  proof (rule class_axis_nonemptyI [OF sh])
    fix b' j
    assume bj: "b' < B" "j < k"
    show "ranked_rows id cl1 c1 k ! b' ! j \<noteq> []"
      unfolding ranked_rows_entry(1) [OF c k bj] id_apply
      using class_axis_nonemptyD [OF ne cl bj(1) ranked_rows_entry(2) [OF c k bj]] .
  qed
  then have am: "map_res (map_res argmax_res) (ranked_rows id cl1 c1 k)
      = Inr (map (map (\<lambda>cs. real (argmax_list cs))) (ranked_rows id cl1 c1 k))"
    by (rule argmax_rows_ok)
  show ?thesis
    unfolding nms_rank_def prod.case sort_drop_ok [OF c b cl k] then_res_Inr am
    by (rule refl)
qed

lemma segment_nms_ok:
  assumes bx: "shaped B k boxes" and cl: "shaped B k classes" and co: "shaped B k confidence"
  shows "\<exists>sb sc sconf.
      segment_nms ops boxes classes confidence k iou_thresh = Inr (sb, sc, sconf) \<and>
      shaped B k sb \<and> shaped B k sc \<and> shaped B k sconf \<and>
      (\<forall>b<B. \<forall>j<k.
         sb ! b ! j = scale_box (1 - cast_bool (suppressed ops iou_thresh (boxes ! b) j))
                        (boxes ! b ! j) \<and>
         sc ! b ! j = classes ! b ! j * (1 - cast_bool (suppressed ops iou_thresh (boxes ! b) j)) \<and>
         sconf ! b ! j
           = confidence ! b ! j * (1 - cast_bool (suppressed ops iou_thresh (boxes ! b) j)))"
proof -
  define raw where "raw =
    map (\<lambda>m. map (\<lambda>j. 1 - cast_bool (list_ex (\<lambda>i. m i j) [0..<k])) [0..<k])
      (map (\<lambda>f i j. i < j \<and> iou_thresh \<le> f i j) (aggregated_comparitive_iou ops boxes 0))"
  have lenB: "length boxes = B"
    using bx by (simp add: shaped_def)
  have raw_sh: "shaped B k raw"
    by (simp add: raw_def shaped_def aggregated_comparitive_iou_def lenB list_all_length)
  have raw_e: "raw ! b ! j = 1 - cast_bool (suppressed ops iou_thresh (boxes ! b) j)"
    if "b < B" "j < k" for b j
  proof -
    have "list_ex (\<lambda>i. i < j \<and> iou_thresh \<le> snd (compute_diou ops True (boxes ! b ! i)
            (boxes ! b ! j))) [0..<k]
        = list_ex (\<lambda>i. iou_thresh \<le> snd (compute_diou ops True (boxes ! b ! i)
            (boxes ! b ! j))) [0..<j]"
      using that(2) by (auto simp: list_ex_iff)
    then show ?thesis
      using that
      by (simp add: raw_def aggregated_comparitive_iou_def lenB suppressed_def Let_def)
  qed
  have run: "segment_nms ops boxes classes confidence k iou_thresh =
      Inr (map2 (map2 (\<lambda>b r. scale_box r b)) boxes raw, map2 (map2 (*)) classes raw,
           map2 (map2 (*)) confidence raw)"
    using bx by (simp add: segment_nms_def Let_def shaped_def raw_def)
  have "\<forall>b<B. \<forall>j<k.
      map2 (map2 (\<lambda>b r. scale_box r b)) boxes raw ! b ! j
        = scale_box (1 - cast_bool (suppressed ops iou_thresh (boxes ! b) j)) (boxes ! b ! j) \<and>
      map2 (map2 (*)) classes raw ! b ! j
        = classes ! b ! j * (1 - cast_bool (suppressed ops iou_thresh (boxes ! b) j)) \<and>
      map2 (map2 (*)) confidence raw ! b ! j
        = confidence ! b ! j * (1 - cast_bool (suppressed ops iou_thresh (boxes ! b) j))"
  proof (intro allI impI)
    fix b j
    assume bj: "b < B" "j < k"
    show "map2 (map2 (\<lambda>b r. scale_box r b)) boxes raw ! b ! j
        = scale_box (1 - cast_bool (suppressed ops iou_thresh (boxes ! b) j)) (boxes ! b ! j) \<and>
      map2 (map2 (*)) classes raw ! b ! j
        = classes ! b ! j * (1 - cast_bool (suppressed ops iou_thresh (boxes ! b) j)) \<and>
      map2 (map2 (*)) confidence raw ! b ! j
        = confidence ! b ! j * (1 - cast_bool (suppressed ops iou_thresh (boxes ! b) j))"
      unfolding map2_rows_nth [OF bx raw_sh bj] map2_rows_nth [OF cl raw_sh bj]
        map2_rows_nth [OF co raw_sh bj] raw_e [OF bj]
      by simp
  qed
  then show ?thesis
    using run map2_rows_shaped [OF bx raw_sh] map2_rows_shaped [OF cl raw_sh]
      map2_rows_shaped [OF co raw_sh]
    by blast
qed

lemma final_sort_drop:
  assumes bx: "shaped B k sb" and cl: "shaped B k sc" and co: "shaped B k sconf"
  shows "then_res (sort_drop (\<lambda>c. [c]) sconf sb sc k)
           (\<lambda>(confidence, boxes, classes). Inr (boxes, map (map hd) classes, confidence))
         = Inr (ranked_rows id sb sconf k, ranked_rows id sc sconf k, ranked_rows id sconf sconf k)"
proof -
  have "map (map hd) (ranked_rows (\<lambda>c. [c]) sc sconf k) = ranked_rows id sc sconf k"
    by (simp add: ranked_rows_def comp_def)
  then show ?thesis
    unfolding sort_drop_ok [OF co bx cl order_refl] then_res_Inr prod.case by simp
qed

lemma full_ranking_permutes:
  assumes "shaped B k sconf" and "b < B"
  shows "distinct (top_k_indices (sconf ! b) k)"
    and "set (top_k_indices (sconf ! b) k) = {..<k}"
    and "ranked_rows f t sconf k ! b = map (\<lambda>i. f (t ! b ! i)) (top_k_indices (sconf ! b) k)"
proof -
  have len: "length (sconf ! b) = k"
    by (rule shaped_row [OF assms])
  show "distinct (top_k_indices (sconf ! b) k)"
    by (rule top_k_indices_distinct)
  show "set (top_k_indices (sconf ! b) k) = {..<k}"
    using top_k_indices_all [of "sconf ! b"] len by simp
  show "ranked_rows f t sconf k ! b = map (\<lambda>i. f (t ! b ! i)) (top_k_indices (sconf ! b) k)"
    using assms by (intro ranked_rows_nth) (simp add: shaped_def)
qed

lemma scale_box_zero: "scale_box 0 b = (0, 0, 0, 0)"
  by (cases b) simp

lemma scale_box_one: "scale_box 1 b = b"
  by (cases b) simp

lemma nms_pool_ok:
  assumes co: "shaped B n confidence" and bx: "shaped B n boxes" and cl: "shaped B n classes"
    and ne: "class_axis_nonempty classes" and k: "k \<le> n"
  shows "\<exists>m pc pb pcl. nms_pool limit_pre_thresh confidence boxes classes k = Inr (pc, pb, pcl) \<and>
      shaped B m pc \<and> shaped B m pb \<and> shaped B m pcl \<and> class_axis_nonempty pcl \<and> k \<le> m"
proof (cases limit_pre_thresh)
  case False
  then have "nms_pool limit_pre_thresh confidence boxes classes k = Inr (confidence, boxes, classes)"
    by (simp add: nms_pool_def)
  then show ?thesis
    using assms by blast
next
  case True
  have run: "nms_pool limit_pre_thresh confidence boxes classes k =
      Inr (ranked_rows id confidence confidence k, ranked_rows id boxes confidence k,
           ranked_rows id classes confidence k)"
    using True sort_drop_ok [OF co bx cl k, of id] by (simp add: nms_pool_def)
  have sh: "shaped B k (ranked_rows id classes confidence k)"
    by (rule ranked_rows_shaped [OF co k])
  have "class_axis_nonempty (ranked_rows id classes confidence k)"
  proof (rule class_axis_nonemptyI [OF sh])
    fix b j
    assume bj: "b < B" "j < k"
    show "ranked_rows id classes confidence k ! b ! j \<noteq> []"
      unfolding ranked_rows_entry(1) [OF co k bj] id_apply
      using class_axis_nonemptyD [OF ne cl bj(1) ranked_rows_entry(2) [OF co k bj]] .
  qed
  then show ?thesis
    using run ranked_rows_shaped [OF co k, of id confidence]
      ranked_rows_shaped [OF co k, of id boxes] sh
    by blast
qed

lemma threshold_zeroes:
  assumes co: "shaped B m pc" and bx: "shaped B m pb" and cl: "shaped B m pcl"
    and ne: "class_axis_nonempty pcl"
    and thr: "nms_threshold pre_nms_thresh use_classes (pc, pb, pcl) = (c1, b1, cl1)"
    and bj: "b < B" "j < m" and le: "pc ! b ! j \<le> pre_nms_thresh"
  shows "b1 ! b ! j = (0, 0, 0, 0)" and "c1 ! b ! j = 0" and "\<forall>c\<in>set (cl1 ! b ! j). c = 0"
    and "cl1 ! b ! j \<noteq> []"
proof -
  note e = nms_threshold_entries [OF co bx cl thr bj]
  have z: "real_of_int \<lceil>relu (pc ! b ! j - pre_nms_thresh)\<rceil> = 0"
    by (rule pre_mask_zero [OF le])
  show "b1 ! b ! j = (0, 0, 0, 0)"
    unfolding e(1) z by (rule scale_box_zero)
  show zc: "\<forall>c\<in>set (cl1 ! b ! j). c = 0"
    unfolding e(2) z by simp
  show ne1: "cl1 ! b ! j \<noteq> []"
    unfolding e(2) using class_axis_nonemptyD [OF ne cl bj] by simp
  show "c1 ! b ! j = 0"
    unfolding e(3) z using reduce_max_zero [OF ne1] zc by simp
qed

lemma threshold_nonempty:
  assumes co: "shaped B m pc" and bx: "shaped B m pb" and cl: "shaped B m pcl"
    and ne: "class_axis_nonempty pcl"
    and thr: "nms_threshold pre_nms_thresh use_classes (pc, pb, pcl) = (c1, b1, cl1)"
  shows "class_axis_nonempty cl1"
proof (rule class_axis_nonemptyI [OF nms_threshold_shaped(3) [OF co bx cl thr]])
  fix b j
  assume bj: "b < B" "j < m"
  show "cl1 ! b ! j \<noteq> []"
    unfolding nms_threshold_entries(2) [OF co bx cl thr bj]
    using class_axis_nonemptyD [OF ne cl bj] by simp
qed

lemma top_k_selects:
  assumes "i < length xs" and "i \<notin> set (top_k_indices xs k)" and "j \<in> set (top_k_indices xs k)"
  shows "xs ! i \<le> xs ! j"
proof -
  let ?L = "sort_key (\<lambda>i. - (xs ! i)) [0..<length xs]"
  have "i \<in> set ?L"
    using assms(1) by simp
  then have "i \<in> set (take k ?L) \<union> set (drop k ?L)"
    by (simp only: set_append [symmetric] append_take_drop_id)
  then have i: "i \<in> set (drop k ?L)"
    using assms(2) by (simp add: top_k_indices_def)
  have j: "j \<in> set (take k ?L)"
    using assms(3) by (simp add: top_k_indices_def)
  have "sorted (map (\<lambda>i. - (xs ! i)) ?L)"
    by (rule sorted_sort_key)
  then have "sorted (map (\<lambda>i. - (xs ! i)) (take k ?L) @ map (\<lambda>i. - (xs ! i)) (drop k ?L))"
    by (simp only: map_append [symmetric] append_take_drop_id)
  then have "\<forall>a\<in>set (map (\<lambda>i. - (xs ! i)) (take k ?L)).
      \<forall>b\<in>set (map (\<lambda>i. - (xs ! i)) (drop k ?L)). a \<le> b"
    unfolding sorted_append by (elim conjE)
  moreover have "- (xs ! j) \<in> set (map (\<lambda>i. - (xs ! i)) (take k ?L))"
    using j by (simp only: set_map) (rule imageI)
  moreover have "- (xs ! i) \<in> set (map (\<lambda>i. - (xs ! i)) (drop k ?L))"
    using i by (simp only: set_map) (rule imageI)
  ultimately have "- (xs ! j) \<le> - (xs ! i)"
    by blast
  then show ?thesis
    by simp
qed

lemma pre_mask_one:
  assumes "pre_nms_thresh < c" and "c \<le> pre_nms_thresh + 1"
  shows "real_of_int \<lceil>relu (c - pre_nms_thresh)\<rceil> = 1"
proof -
  have "\<lceil>c - pre_nms_thresh\<rceil> = 1"
    using assms by (intro ceiling_unique) simp_all
  then show ?thesis
    using assms(1) by (simp add: relu_def max_def)
qed

lemma nms_pool_cases:
  assumes co: "shaped B n confidence" and bx: "shaped B n boxes" and cl: "shaped B n classes"
    and ne: "class_axis_nonempty classes" and k: "k \<le> n"
  shows "\<exists>m pc pb pcl. nms_pool limit_pre_thresh confidence boxes classes k = Inr (pc, pb, pcl) \<and>
      shaped B m pc \<and> shaped B m pb \<and> shaped B m pcl \<and> class_axis_nonempty pcl \<and> k \<le> m \<and>
      (\<not> limit_pre_thresh \<longrightarrow> m = n \<and> pc = confidence \<and> pb = boxes \<and> pcl = classes) \<and>
      (limit_pre_thresh \<longrightarrow> m = k \<and> pc = ranked_rows id confidence confidence k \<and>
         pb = ranked_rows id boxes confidence k \<and> pcl = ranked_rows id classes confidence k)"
proof (cases limit_pre_thresh)
  case False
  then have "nms_pool limit_pre_thresh confidence boxes classes k = Inr (confidence, boxes, classes)"
    by (simp add: nms_pool_def)
  then show ?thesis
    using assms False by blast
next
  case True
  have run: "nms_pool limit_pre_thresh confidence boxes classes k =
      Inr (ranked_rows id confidence confidence k, ranked_rows id boxes confidence k,
           ranked_rows id classes confidence k)"
    using True sort_drop_ok [OF co bx cl k, of id] by (simp add: nms_pool_def)
  have sh: "shaped B k (ranked_rows id classes confidence k)"
    by (rule ranked_rows_shaped [OF co k])
  have "class_axis_nonempty (ranked_rows id classes confidence k)"
  proof (rule class_axis_nonemptyI [OF sh])
    fix b j
    assume bj: "b < B" "j < k"
    show "ranked_rows id classes confidence k ! b ! j \<noteq> []"
      unfolding ranked_rows_entry(1) [OF co k bj] id_apply
      using class_axis_nonemptyD [OF ne cl bj(1) ranked_rows_entry(2) [OF co k bj]] .
  qed
  then show ?thesis
    using run ranked_rows_shaped [OF co k, of id confidence]
      ranked_rows_shaped [OF co k, of id boxes] sh True
    by blast
qed

lemma ranking_facts:
  assumes c: "shaped B m c1" and km: "k \<le> m" and b: "b < B"
  shows "length (top_k_indices (c1 ! b) k) = k"
    and "distinct (top_k_indices (c1 ! b) k)"
    and "\<forall>i\<in>set (top_k_indices (c1 ! b) k). i < m"
    and "\<forall>i<m. i \<notin> set (top_k_indices (c1 ! b) k) \<longrightarrow>
           (\<forall>j\<in>set (top_k_indices (c1 ! b) k). c1 ! b ! i \<le> c1 ! b ! j)"
    and "ranked_rows f t c1 k ! b = map (\<lambda>i. f (t ! b ! i)) (top_k_indices (c1 ! b) k)"
    and "sorted_wrt (\<ge>) (ranked_rows id c1 c1 k ! b)"
proof -
  have len: "length (c1 ! b) = m"
    by (rule shaped_row [OF c b])
  have lb: "b < length c1"
    using c b by (simp add: shaped_def)
  show "length (top_k_indices (c1 ! b) k) = k"
    using top_k_indices_length [of k "c1 ! b"] len km by simp
  show "distinct (top_k_indices (c1 ! b) k)"
    by (rule top_k_indices_distinct)
  show "\<forall>i\<in>set (top_k_indices (c1 ! b) k). i < m"
    using top_k_indices_bound [of _ "c1 ! b" k] len by auto
  show "\<forall>i<m. i \<notin> set (top_k_indices (c1 ! b) k) \<longrightarrow>
           (\<forall>j\<in>set (top_k_indices (c1 ! b) k). c1 ! b ! i \<le> c1 ! b ! j)"
    using top_k_selects [of _ "c1 ! b" k] len by auto
  show "ranked_rows f t c1 k ! b = map (\<lambda>i. f (t ! b ! i)) (top_k_indices (c1 ! b) k)"
    by (rule ranked_rows_nth [OF lb])
  show "sorted_wrt (\<ge>) (ranked_rows id c1 c1 k ! b)"
    by (rule ranked_rows_sorted [OF lb])
qed

text \<open>
  Claim C10, as amended. For every batch of \<open>B\<close> images with \<open>n\<close> candidates each, at least
  one class score per candidate and \<open>k \<le> n\<close>, \<^verbatim>\<open>nms\<close> returns exactly \<open>k\<close> boxes, \<open>k\<close> class
  ids and \<open>k\<close> confidences per image, sorted by descending confidence, and every stage of
  it is determined:
  \<^item> the pool is the input, or its \<open>k\<close> candidates of largest confidence when
    \<^verbatim>\<open>limit_pre_thresh\<close> is set;
  \<^item> the threshold multiplies the box, the class scores and the confidence of every
    candidate by \<open>ceil(relu(confidence - pre_nms_thresh))\<close> (the confidence becomes the
    largest class score when \<^verbatim>\<open>use_classes\<close> is set): a candidate whose confidence does not
    exceed \<^verbatim>\<open>pre_nms_thresh\<close> is not filtered out but becomes all zero, one above it by at
    most 1 keeps its box and class scores;
  \<^item> the ranking keeps, in descending order of confidence, the candidates at the \<open>k\<close>
    indices of largest thresholded confidence (no candidate left out has a larger
    confidence than one kept), with the argmax of the class scores as class id;
  \<^item> a ranked candidate that a candidate of smaller index, hence of at least its
    confidence, suppresses (DIoU of at least \<^verbatim>\<open>nms_thresh\<close>) becomes an all-zero box with
    class id 0 and confidence 0, and the other ranked candidates are unchanged;
  \<^item> the output is these \<open>k\<close> candidates ranked again by confidence: a reordering of them,
    none removed.
\<close>

theorem nms_fixed_size_output:
  assumes co: "shaped B n confidence" and bx: "shaped B n boxes" and cl: "shaped B n classes"
    and ne: "class_axis_nonempty classes" and k: "k \<le> n"
  shows "\<exists>m pool_conf pool_boxes pool_classes thr_conf thr_boxes thr_classes
      r_conf r_boxes r_classes s_boxes s_classes s_conf o_boxes o_classes o_conf.
    nms_pool limit_pre_thresh confidence boxes classes k = Inr (pool_conf, pool_boxes, pool_classes) \<and>
    shaped B m pool_conf \<and>
    k \<le> m \<and>
    (\<not> limit_pre_thresh \<longrightarrow> m = n \<and> pool_conf = confidence \<and> pool_boxes = boxes \<and> pool_classes = classes) \<and>
    (limit_pre_thresh \<longrightarrow> m = k \<and> pool_conf = ranked_rows id confidence confidence k \<and>
         pool_boxes = ranked_rows id boxes confidence k \<and> pool_classes = ranked_rows id classes confidence k) \<and>
    nms_threshold pre_nms_thresh use_classes (pool_conf, pool_boxes, pool_classes) = (thr_conf, thr_boxes, thr_classes) \<and>
    (\<forall>b<B. \<forall>j<m.
        thr_boxes ! b ! j = scale_box (real_of_int \<lceil>relu (pool_conf ! b ! j - pre_nms_thresh)\<rceil>) (pool_boxes ! b ! j) \<and>
        thr_classes ! b ! j = map (\<lambda>c. c * real_of_int \<lceil>relu (pool_conf ! b ! j - pre_nms_thresh)\<rceil>) (pool_classes ! b ! j) \<and>
        thr_conf ! b ! j = (if use_classes then reduce_max (thr_classes ! b ! j) else pool_conf ! b ! j * real_of_int \<lceil>relu (pool_conf ! b ! j - pre_nms_thresh)\<rceil>)) \<and>
    (\<forall>b<B. \<forall>j<m. pool_conf ! b ! j \<le> pre_nms_thresh \<longrightarrow>
        thr_boxes ! b ! j = (0, 0, 0, 0) \<and> thr_conf ! b ! j = 0 \<and> (\<forall>c\<in>set (thr_classes ! b ! j). c = 0)) \<and>
    (\<forall>b<B. \<forall>j<m. pre_nms_thresh < pool_conf ! b ! j \<and> pool_conf ! b ! j \<le> pre_nms_thresh + 1 \<longrightarrow>
        thr_boxes ! b ! j = pool_boxes ! b ! j \<and> thr_classes ! b ! j = pool_classes ! b ! j) \<and>
    nms_rank (thr_conf, thr_boxes, thr_classes) k = Inr (r_conf, r_boxes, r_classes) \<and>
    r_conf = ranked_rows id thr_conf thr_conf k \<and>
    r_boxes = ranked_rows id thr_boxes thr_conf k \<and>
    r_classes = map (map (\<lambda>cs. real (argmax_list cs))) (ranked_rows id thr_classes thr_conf k) \<and>
    (\<forall>b<B.
        length (top_k_indices (thr_conf ! b) k) = k \<and> distinct (top_k_indices (thr_conf ! b) k) \<and>
        (\<forall>i\<in>set (top_k_indices (thr_conf ! b) k). i < m) \<and>
        (\<forall>i<m. i \<notin> set (top_k_indices (thr_conf ! b) k) \<longrightarrow>
           (\<forall>j\<in>set (top_k_indices (thr_conf ! b) k). thr_conf ! b ! i \<le> thr_conf ! b ! j)) \<and>
        r_conf ! b = map (\<lambda>i. thr_conf ! b ! i) (top_k_indices (thr_conf ! b) k) \<and>
        r_boxes ! b = map (\<lambda>i. thr_boxes ! b ! i) (top_k_indices (thr_conf ! b) k) \<and>
        r_classes ! b = map (\<lambda>i. real (argmax_list (thr_classes ! b ! i))) (top_k_indices (thr_conf ! b) k) \<and>
        sorted_wrt (\<ge>) (r_conf ! b)) \<and>
    segment_nms ops r_boxes r_classes r_conf k nms_thresh = Inr (s_boxes, s_classes, s_conf) \<and>
    (\<forall>b<B. \<forall>j<k.
        (suppressed ops nms_thresh (r_boxes ! b) j \<longrightarrow>
           s_boxes ! b ! j = (0, 0, 0, 0) \<and> s_classes ! b ! j = 0 \<and> s_conf ! b ! j = 0) \<and>
        (\<not> suppressed ops nms_thresh (r_boxes ! b) j \<longrightarrow>
           s_boxes ! b ! j = r_boxes ! b ! j \<and> s_classes ! b ! j = r_classes ! b ! j \<and>
           s_conf ! b ! j = r_conf ! b ! j)) \<and>
    nms ops boxes classes confidence k pre_nms_thresh nms_thresh limit_pre_thresh use_classes
      = Inr (o_boxes, o_classes, o_conf) \<and>
    shaped B k o_boxes \<and>
    shaped B k o_classes \<and>
    shaped B k o_conf \<and>
    (\<forall>b<B. sorted_wrt (\<ge>) (o_conf ! b)) \<and>
    o_boxes = ranked_rows id s_boxes s_conf k \<and>
    o_classes = ranked_rows id s_classes s_conf k \<and>
    o_conf = ranked_rows id s_conf s_conf k \<and>
    (\<forall>b<B. \<exists>ind. distinct ind \<and> set ind = {..<k} \<and>
        o_boxes ! b = map (\<lambda>i. s_boxes ! b ! i) ind \<and>
        o_classes ! b = map (\<lambda>i. s_classes ! b ! i) ind \<and>
        o_conf ! b = map (\<lambda>i. s_conf ! b ! i) ind)"
proof -
  obtain m pc pb pcl where pool: "nms_pool limit_pre_thresh confidence boxes classes k = Inr (pc, pb, pcl)"
    and pco: "shaped B m pc" and pbx: "shaped B m pb" and pcl: "shaped B m pcl"
    and pne: "class_axis_nonempty pcl" and km: "k \<le> m"
    and pin0: "(\<not> limit_pre_thresh \<longrightarrow> m = n \<and> pc = confidence \<and> pb = boxes \<and> pcl = classes)"
    and pin1: "(limit_pre_thresh \<longrightarrow> m = k \<and> pc = ranked_rows id confidence confidence k \<and>
         pb = ranked_rows id boxes confidence k \<and> pcl = ranked_rows id classes confidence k)"
    using nms_pool_cases [OF co bx cl ne k, of limit_pre_thresh] by blast
  obtain c1 b1 cl1 where thr: "nms_threshold pre_nms_thresh use_classes (pc, pb, pcl) = (c1, b1, cl1)"
    by (cases "nms_threshold pre_nms_thresh use_classes (pc, pb, pcl)") blast
  note tsh = nms_threshold_shaped [OF pco pbx pcl thr]
  have tne: "class_axis_nonempty cl1"
    by (rule threshold_nonempty [OF pco pbx pcl pne thr])
  have tent: "(\<forall>b<B. \<forall>j<m.
        b1 ! b ! j = scale_box (real_of_int \<lceil>relu (pc ! b ! j - pre_nms_thresh)\<rceil>) (pb ! b ! j) \<and>
        cl1 ! b ! j = map (\<lambda>c. c * real_of_int \<lceil>relu (pc ! b ! j - pre_nms_thresh)\<rceil>) (pcl ! b ! j) \<and>
        c1 ! b ! j = (if use_classes then reduce_max (cl1 ! b ! j) else pc ! b ! j * real_of_int \<lceil>relu (pc ! b ! j - pre_nms_thresh)\<rceil>))"
    using nms_threshold_entries [OF pco pbx pcl thr] by blast
  have zero: "(\<forall>b<B. \<forall>j<m. pc ! b ! j \<le> pre_nms_thresh \<longrightarrow>
        b1 ! b ! j = (0, 0, 0, 0) \<and> c1 ! b ! j = 0 \<and> (\<forall>c\<in>set (cl1 ! b ! j). c = 0))"
    using threshold_zeroes(1-3) [OF pco pbx pcl pne thr] by blast
  have keep: "(\<forall>b<B. \<forall>j<m. pre_nms_thresh < pc ! b ! j \<and> pc ! b ! j \<le> pre_nms_thresh + 1 \<longrightarrow>
        b1 ! b ! j = pb ! b ! j \<and> cl1 ! b ! j = pcl ! b ! j)"
  proof (intro allI impI)
    fix b j
    assume bj: "b < B" "j < m"
      and c: "pre_nms_thresh < pc ! b ! j \<and> pc ! b ! j \<le> pre_nms_thresh + 1"
    have one: "real_of_int \<lceil>relu (pc ! b ! j - pre_nms_thresh)\<rceil> = 1"
      using c by (intro pre_mask_one) simp_all
    show "b1 ! b ! j = pb ! b ! j \<and> cl1 ! b ! j = pcl ! b ! j"
      unfolding nms_threshold_entries(1,2) [OF pco pbx pcl thr bj] one
      by (simp add: scale_box_one)
  qed
  define rc where "rc = ranked_rows id c1 c1 k"
  define rb where "rb = ranked_rows id b1 c1 k"
  define rcl where "rcl = map (map (\<lambda>cs. real (argmax_list cs))) (ranked_rows id cl1 c1 k)"
  have rank: "nms_rank (c1, b1, cl1) k = Inr (rc, rb, rcl)"
    unfolding rc_def rb_def rcl_def by (rule nms_rank_ok [OF tsh tne km])
  have rc_eq: "rc = ranked_rows id c1 c1 k" and rb_eq: "rb = ranked_rows id b1 c1 k" and rcl_eq: "rcl = map (map (\<lambda>cs. real (argmax_list cs))) (ranked_rows id cl1 c1 k)"
    by (simp_all only: rc_def rb_def rcl_def)
  have rsh: "shaped B k rc" "shaped B k rb" "shaped B k rcl"
    unfolding rc_def rb_def rcl_def
    using ranked_rows_shaped [OF tsh(1) km] map_rows_shaped by blast+
  have topk: "(\<forall>b<B.
        length (top_k_indices (c1 ! b) k) = k \<and> distinct (top_k_indices (c1 ! b) k) \<and>
        (\<forall>i\<in>set (top_k_indices (c1 ! b) k). i < m) \<and>
        (\<forall>i<m. i \<notin> set (top_k_indices (c1 ! b) k) \<longrightarrow>
           (\<forall>j\<in>set (top_k_indices (c1 ! b) k). c1 ! b ! i \<le> c1 ! b ! j)) \<and>
        rc ! b = map (\<lambda>i. c1 ! b ! i) (top_k_indices (c1 ! b) k) \<and>
        rb ! b = map (\<lambda>i. b1 ! b ! i) (top_k_indices (c1 ! b) k) \<and>
        rcl ! b = map (\<lambda>i. real (argmax_list (cl1 ! b ! i))) (top_k_indices (c1 ! b) k) \<and>
        sorted_wrt (\<ge>) (rc ! b))"
  proof (intro allI impI)
    fix b
    assume b: "b < B"
    note r = ranking_facts [OF tsh(1) km b]
    have lb: "b < length (ranked_rows id cl1 c1 k)"
      using ranked_rows_shaped [OF tsh(1) km, of id cl1] b by (simp add: shaped_def)
    have rcl_b: "rcl ! b = map (\<lambda>i. real (argmax_list (cl1 ! b ! i))) (top_k_indices (c1 ! b) k)"
      unfolding rcl_def nth_map [OF lb] ranking_facts(5) [OF tsh(1) km b, of id cl1]
      by (simp add: comp_def)
    show "length (top_k_indices (c1 ! b) k) = k \<and> distinct (top_k_indices (c1 ! b) k) \<and>
        (\<forall>i\<in>set (top_k_indices (c1 ! b) k). i < m) \<and>
        (\<forall>i<m. i \<notin> set (top_k_indices (c1 ! b) k) \<longrightarrow>
           (\<forall>j\<in>set (top_k_indices (c1 ! b) k). c1 ! b ! i \<le> c1 ! b ! j)) \<and>
        rc ! b = map (\<lambda>i. c1 ! b ! i) (top_k_indices (c1 ! b) k) \<and>
        rb ! b = map (\<lambda>i. b1 ! b ! i) (top_k_indices (c1 ! b) k) \<and>
        rcl ! b = map (\<lambda>i. real (argmax_list (cl1 ! b ! i))) (top_k_indices (c1 ! b) k) \<and>
        sorted_wrt (\<ge>) (rc ! b)"
      unfolding rc_def rb_def
      using r(1) r(2) r(3) r(4) ranking_facts(5) [OF tsh(1) km b, of id c1]
        ranking_facts(5) [OF tsh(1) km b, of id b1] rcl_b r(6)
      by simp
  qed
  obtain sb sc sconf where seg: "segment_nms ops rb rcl rc k nms_thresh = Inr (sb, sc, sconf)"
    and ssh: "shaped B k sb" "shaped B k sc" "shaped B k sconf"
    and se: "\<forall>b<B. \<forall>j<k.
         sb ! b ! j = scale_box (1 - cast_bool (suppressed ops nms_thresh (rb ! b) j))
                        (rb ! b ! j) \<and>
         sc ! b ! j = rcl ! b ! j * (1 - cast_bool (suppressed ops nms_thresh (rb ! b) j)) \<and>
         sconf ! b ! j = rc ! b ! j * (1 - cast_bool (suppressed ops nms_thresh (rb ! b) j))"
    using segment_nms_ok [OF rsh(2) rsh(3) rsh(1), of ops nms_thresh] by blast
  define ob where "ob = ranked_rows id sb sconf k"
  define oc where "oc = ranked_rows id sc sconf k"
  define oconf where "oconf = ranked_rows id sconf sconf k"
  have ob_eq: "ob = ranked_rows id sb sconf k" and oc_eq: "oc = ranked_rows id sc sconf k" and oconf_eq: "oconf = ranked_rows id sconf sconf k"
    by (simp_all only: ob_def oc_def oconf_def)
  have run: "nms ops boxes classes confidence k pre_nms_thresh nms_thresh limit_pre_thresh use_classes
      = Inr (ob, oc, oconf)"
    unfolding nms_def pool then_res_Inr thr rank prod.case seg
      final_sort_drop [OF ssh] ob_def oc_def oconf_def
    by (rule refl)
  have osh1: "shaped B k ob" and osh2: "shaped B k oc" and osh3: "shaped B k oconf"
    unfolding ob_def oc_def oconf_def
    by (rule ranked_rows_shaped [OF ssh(3) order_refl])+
  have sorted: "(\<forall>b<B. sorted_wrt (\<ge>) (oconf ! b))"
    unfolding oconf_def using ranked_rows_sorted [of _ sconf k] shaped_length [OF ssh(3)]
    by simp
  have perm: "(\<forall>b<B. \<exists>ind. distinct ind \<and> set ind = {..<k} \<and>
        ob ! b = map (\<lambda>i. sb ! b ! i) ind \<and>
        oc ! b = map (\<lambda>i. sc ! b ! i) ind \<and>
        oconf ! b = map (\<lambda>i. sconf ! b ! i) ind)"
  proof (intro allI impI)
    fix b
    assume b: "b < B"
    note p = full_ranking_permutes [OF ssh(3) b]
    have "distinct (top_k_indices (sconf ! b) k) \<and> set (top_k_indices (sconf ! b) k) = {..<k} \<and>
        ob ! b = map (\<lambda>i. sb ! b ! i) (top_k_indices (sconf ! b) k) \<and>
        oc ! b = map (\<lambda>i. sc ! b ! i) (top_k_indices (sconf ! b) k) \<and>
        oconf ! b = map (\<lambda>i. sconf ! b ! i) (top_k_indices (sconf ! b) k)"
      unfolding ob_def oc_def oconf_def
      using p(1) p(2) full_ranking_permutes(3) [OF ssh(3) b, of id sb]
        full_ranking_permutes(3) [OF ssh(3) b, of id sc]
        full_ranking_permutes(3) [OF ssh(3) b, of id sconf]
      by simp
    then show "\<exists>ind. distinct ind \<and> set ind = {..<k} \<and>
        ob ! b = map (\<lambda>i. sb ! b ! i) ind \<and>
        oc ! b = map (\<lambda>i. sc ! b ! i) ind \<and>
        oconf ! b = map (\<lambda>i. sconf ! b ! i) ind" ..
  qed
  have sup: "(\<forall>b<B. \<forall>j<k.
        (suppressed ops nms_thresh (rb ! b) j \<longrightarrow>
           sb ! b ! j = (0, 0, 0, 0) \<and> sc ! b ! j = 0 \<and> sconf ! b ! j = 0) \<and>
        (\<not> suppressed ops nms_thresh (rb ! b) j \<longrightarrow>
           sb ! b ! j = rb ! b ! j \<and> sc ! b ! j = rcl ! b ! j \<and>
           sconf ! b ! j = rc ! b ! j))"
    using se by (simp add: cast_bool_def scale_box_zero scale_box_one)
  show ?thesis
    apply (rule exI [of _ m], rule exI [of _ pc], rule exI [of _ pb], rule exI [of _ pcl])
    apply (rule exI [of _ c1], rule exI [of _ b1], rule exI [of _ cl1])
    apply (rule exI [of _ rc], rule exI [of _ rb], rule exI [of _ rcl])
    apply (rule exI [of _ sb], rule exI [of _ sc], rule exI [of _ sconf])
    apply (rule exI [of _ ob], rule exI [of _ oc], rule exI [of _ oconf])
    apply (intro conjI)
    apply (fact pool pco km pin0 pin1 thr tent zero keep rank rc_eq rb_eq rcl_eq topk seg sup
        run osh1 osh2 osh3 sorted ob_eq oc_eq oconf_eq perm)+
    done
qed

theorem nms_fixed_size_output_witness:
  "shaped 1 3 [[65 / 100, 9 / 10, 8 / 10 :: real]] \<and>
   shaped 1 3 [[(0, 0, 1, 1), (2, 2, 3, 3), (2, 2, 3, 3) :: box]] \<and>
   shaped 1 3 [[[65 / 100], [9 / 10], [8 / 10 :: real]]] \<and>
   class_axis_nonempty [[[65 / 100], [9 / 10], [8 / 10]]] \<and> (2::nat) \<le> 3 \<and>
   nms spec_box_ops [[(0, 0, 1, 1), (2, 2, 3, 3), (2, 2, 3, 3)]]
       [[[65 / 100], [9 / 10], [8 / 10]]] [[65 / 100, 9 / 10, 8 / 10]] 2 (1 / 2) (1 / 2) False True
     = Inr ([[(2, 2, 3, 3), (0, 0, 0, 0)]], [[0, 0]], [[9 / 10, 0]]) \<and>
   shaped 1 2 [[(2, 2, 3, 3), (0, 0, 0, 0) :: box]] \<and> shaped 1 2 [[9 / 10, 0 :: real]] \<and>
   sorted_wrt (\<ge>) ([[9 / 10, 0 :: real]] ! 0)"
proof -
  have h: "shaped 1 3 [[65 / 100, 9 / 10, 8 / 10 :: real]]"
    "shaped 1 3 [[(0, 0, 1, 1), (2, 2, 3, 3), (2, 2, 3, 3) :: box]]"
    "shaped 1 3 [[[65 / 100], [9 / 10], [8 / 10 :: real]]]"
    "class_axis_nonempty [[[65 / 100], [9 / 10], [8 / 10]]]"
    "(2::nat) \<le> 3"
    by (simp_all add: shaped_def class_axis_nonempty_def)
  have z: "(0::nat) < 1"
    by simp
  have ev: "nms spec_box_ops [[(0, 0, 1, 1), (2, 2, 3, 3), (2, 2, 3, 3)]]
       [[[65 / 100], [9 / 10], [8 / 10]]] [[65 / 100, 9 / 10, 8 / 10]] 2 (1 / 2) (1 / 2) False True
     = Inr ([[(2, 2, 3, 3), (0, 0, 0, 0)]], [[0, 0]], [[9 / 10, 0]])"
    by (simp add: nms_def nms_pool_def nms_threshold_def nms_rank_def sort_drop_def top_k_def
      top_k_indices_def gather_rows_def gather_def segment_nms_def
      aggregated_comparitive_iou_def argmax_res_def argmax_list_def
      then_res_def relu_def reduce_max_def upt_rec Let_def cast_bool_def
      spec_box_ops_def with_layout_def spec_diou_yxyx_def spec_iou_yxyx_def union_yxyx_def
      divide_no_nan_def square_def)
  from nms_fixed_size_output [OF h, of False "1 / 2" True spec_box_ops "1 / 2"]
  obtain o_boxes o_classes o_conf where
    run: "nms spec_box_ops [[(0, 0, 1, 1), (2, 2, 3, 3), (2, 2, 3, 3)]]
       [[[65 / 100], [9 / 10], [8 / 10]]] [[65 / 100, 9 / 10, 8 / 10]] 2 (1 / 2) (1 / 2) False True
        = Inr (o_boxes, o_classes, o_conf)"
    and sh: "shaped 1 2 o_boxes" "shaped 1 2 o_conf"
    and so: "\<forall>b<1. sorted_wrt (\<ge>) (o_conf ! b)"
    by (elim exE conjE)
  from run ev have eq: "o_boxes = [[(2, 2, 3, 3), (0, 0, 0, 0)]]" "o_conf = [[9 / 10, 0]]"
    by simp_all
  from so z have "sorted_wrt (\<ge>) (o_conf ! 0)"
    by simp
  with sh have "shaped 1 2 [[(2, 2, 3, 3), (0, 0, 0, 0) :: box]] \<and> shaped 1 2 [[9 / 10, 0 :: real]] \<and>
      sorted_wrt (\<ge>) ([[9 / 10, 0 :: real]] ! 0)"
    unfolding eq by (intro conjI)
  with h ev show ?thesis
    by (intro conjI) (simp_all only:)
qed

text \<open>
  Two identical candidates: the second is suppressed and stays in the output as an all-zero
  box with confidence 0.
\<close>

lemma nms_suppressed_example:
  "nms spec_box_ops [[(0, 0, 1, 1), (0, 0, 1, 1)]] [[[9 / 10], [8 / 10]]] [[9 / 10, 8 / 10]]
        2 (1 / 2) (1 / 2) False True
     = Inr ([[(0, 0, 1, 1), (0, 0, 0, 0)]], [[0, 0]], [[9 / 10, 0]])"
  by (simp add: nms_def nms_pool_def nms_threshold_def nms_rank_def sort_drop_def top_k_def
      top_k_indices_def gather_rows_def gather_def segment_nms_def
      aggregated_comparitive_iou_def argmax_res_def argmax_list_def
      then_res_def relu_def reduce_max_def upt_rec Let_def cast_bool_def
      spec_box_ops_def with_layout_def spec_diou_yxyx_def spec_iou_yxyx_def union_yxyx_def
      divide_no_nan_def square_def)

text \<open>
  Claim C10 as stated: for one candidate and \<open>k = 2\<close> the ranking raises, so nothing is
  returned; and of three candidates with \<open>k = 2\<close>, the one below \<^verbatim>\<open>pre_nms_thresh\<close> is zeroed,
  ranked last and dropped: the output holds the two others and no all-zero box.
\<close>

theorem nms_raises_or_drops:
  "nms spec_box_ops [[(0, 0, 1, 1)]] [[[9 / 10]]] [[9 / 10]] 2 (1 / 2) (1 / 2) False True
     = Inl (InvalidArgumentError ''input must have at least k columns'')
   \<and> nms spec_box_ops [[(0, 0, 1, 1), (2, 2, 3, 3), (4, 4, 5, 5)]]
       [[[9 / 10], [8 / 10], [1 / 10]]] [[9 / 10, 8 / 10, 1 / 10]] 2 (1 / 2) (1 / 2) False True
     = Inr ([[(0, 0, 1, 1), (2, 2, 3, 3)]], [[0, 0]], [[9 / 10, 8 / 10]])"
  by (simp add: nms_def nms_pool_def nms_threshold_def nms_rank_def sort_drop_def top_k_def
      top_k_indices_def gather_rows_def gather_def segment_nms_def
      aggregated_comparitive_iou_def argmax_res_def argmax_list_def
      then_res_def relu_def reduce_max_def upt_rec Let_def cast_bool_def
      spec_box_ops_def with_layout_def spec_diou_yxyx_def spec_iou_yxyx_def union_yxyx_def
      divide_no_nan_def square_def)

section \<open>Properties of the decoder in single precision\<close>

lemma f32_ulp_pos: "0 < f32_ulp x"
  by (simp add: f32_ulp_def)

lemma binade:
  assumes "0 < x"
  shows "2 powr real_of_int \<lfloor>log 2 x\<rfloor> \<le> x" and "x < 2 powr (real_of_int \<lfloor>log 2 x\<rfloor> + 1)"
  using floor_log_eq_powr_iff [of x 2 "\<lfloor>log 2 x\<rfloor>"] assms by simp_all

lemma scaled_range:
  assumes "0 < x"
  shows "2 ^ 23 \<le> x / f32_ulp x" and "x / f32_ulp x < 2 ^ 24"
proof -
  let ?e = "real_of_int \<lfloor>log 2 x\<rfloor>"
  have u: "f32_ulp x = 2 powr (?e - 23)"
    using assms by (simp add: f32_ulp_def)
  have p23: "(2::real) powr 23 = 2 ^ 23" and p24: "(2::real) powr 24 = 2 ^ 24"
    by (simp_all add: powr_numeral del: power_numeral)
  have lo: "2 powr ?e = 2 ^ 23 * f32_ulp x"
    unfolding u p23 [symmetric] powr_add [symmetric] by simp
  have "?e + 1 = 24 + (?e - 23)"
    by simp
  then have hi: "2 powr (?e + 1) = 2 ^ 24 * f32_ulp x"
    unfolding u p24 [symmetric] powr_add [symmetric] by (simp only:)
  show "2 ^ 23 \<le> x / f32_ulp x"
    using binade(1) [OF assms] f32_ulp_pos [of x] unfolding lo
    by (simp add: pos_le_divide_eq)
  show "x / f32_ulp x < 2 ^ 24"
    using binade(2) [OF assms] f32_ulp_pos [of x] unfolding hi
    by (simp add: pos_divide_less_eq)
qed

lemma f32_pos_eq:
  assumes "0 < x"
  shows "f32 x = real_of_int \<lfloor>x / f32_ulp x + 1 / 2\<rfloor> * f32_ulp x"
  using assms by (simp add: f32_def)

lemma f32_in_binade:
  assumes "0 < x"
  shows "2 ^ 23 * f32_ulp x \<le> f32 x" and "f32 x \<le> 2 ^ 24 * f32_ulp x"
proof -
  have "(2 ^ 23 :: int) \<le> \<lfloor>x / f32_ulp x + 1 / 2\<rfloor>"
    using scaled_range(1) [OF assms] by (intro le_floor_iff [THEN iffD2]) simp
  then have "(2 ^ 23 :: real) \<le> real_of_int \<lfloor>x / f32_ulp x + 1 / 2\<rfloor>"
    by (metis of_int_le_iff of_int_numeral of_int_power)
  then show "2 ^ 23 * f32_ulp x \<le> f32 x"
    unfolding f32_pos_eq [OF assms] using f32_ulp_pos [of x] by simp
  have "\<lfloor>x / f32_ulp x + 1 / 2\<rfloor> < (2 ^ 24 :: int) + 1"
    using scaled_range(2) [OF assms] by (intro floor_less_iff [THEN iffD2]) simp
  then have "\<lfloor>x / f32_ulp x + 1 / 2\<rfloor> \<le> (2 ^ 24 :: int)"
    by simp
  then have "real_of_int \<lfloor>x / f32_ulp x + 1 / 2\<rfloor> \<le> (2 ^ 24 :: real)"
    by (metis of_int_le_iff of_int_numeral of_int_power)
  then show "f32 x \<le> 2 ^ 24 * f32_ulp x"
    unfolding f32_pos_eq [OF assms] using f32_ulp_pos [of x] by simp
qed

lemma f32_nonneg:
  assumes "0 \<le> x"
  shows "0 \<le> f32 x"
proof (cases "x = 0")
  case True
  then show ?thesis
    by (simp add: f32_def)
next
  case False
  then have "0 < x"
    using assms by simp
  then have "0 < 2 ^ 23 * f32_ulp x" and "2 ^ 23 * f32_ulp x \<le> f32 x"
    using f32_in_binade(1) [of x] f32_ulp_pos [of x] by simp_all
  then show ?thesis
    by linarith
qed

lemma f32_ulp_mono:
  assumes "0 < x" and "x \<le> y"
  shows "f32_ulp x \<le> f32_ulp y"
proof -
  have "log 2 x \<le> log 2 y"
    using assms by simp
  then have "\<lfloor>log 2 x\<rfloor> \<le> \<lfloor>log 2 y\<rfloor>"
    by (rule floor_mono)
  then show ?thesis
    using assms by (simp add: f32_ulp_def)
qed

lemma f32_ulp_step:
  assumes "0 < x" and "x \<le> y" and "f32_ulp x \<noteq> f32_ulp y"
  shows "2 * f32_ulp x \<le> f32_ulp y"
proof -
  have "log 2 x \<le> log 2 y"
    using assms by simp
  then have le: "\<lfloor>log 2 x\<rfloor> \<le> \<lfloor>log 2 y\<rfloor>"
    by (rule floor_mono)
  have "\<lfloor>log 2 x\<rfloor> \<noteq> \<lfloor>log 2 y\<rfloor>"
    using assms by (auto simp: f32_ulp_def)
  then have "\<lfloor>log 2 x\<rfloor> + 1 \<le> \<lfloor>log 2 y\<rfloor>"
    using le by simp
  then have "real_of_int \<lfloor>log 2 x\<rfloor> - 23 + 1 \<le> real_of_int \<lfloor>log 2 y\<rfloor> - 23"
    by linarith
  then have a: "2 powr (real_of_int \<lfloor>log 2 x\<rfloor> - 23 + 1)
      \<le> 2 powr (real_of_int \<lfloor>log 2 y\<rfloor> - 23)"
    by (intro powr_mono) simp_all
  have b: "2 powr (real_of_int \<lfloor>log 2 x\<rfloor> - 23 + 1)
      = 2 powr (real_of_int \<lfloor>log 2 x\<rfloor> - 23) * 2 powr 1"
    by (rule powr_add)
  have c: "2 powr 1 = (2::real)"
    by simp
  have ux: "f32_ulp x = 2 powr (real_of_int \<lfloor>log 2 x\<rfloor> - 23)"
    using assms(1) by (simp add: f32_ulp_def)
  have uy: "f32_ulp y = 2 powr (real_of_int \<lfloor>log 2 y\<rfloor> - 23)"
    using assms(1,2) by (simp add: f32_ulp_def)
  from a have "2 powr (real_of_int \<lfloor>log 2 x\<rfloor> - 23) * 2
      \<le> 2 powr (real_of_int \<lfloor>log 2 y\<rfloor> - 23)"
    unfolding b c .
  then show ?thesis
    unfolding ux uy by (simp only: mult.commute)
qed

lemma f32_mono_pos:
  assumes "0 < x" and "x \<le> y"
  shows "f32 x \<le> f32 y"
proof (cases "f32_ulp x = f32_ulp y")
  case True
  have y: "0 < y"
    using assms by simp
  have "x / f32_ulp y + 1 / 2 \<le> y / f32_ulp y + 1 / 2"
    using assms(2) f32_ulp_pos [of y] by (simp add: divide_right_mono)
  then have "\<lfloor>x / f32_ulp y + 1 / 2\<rfloor> \<le> \<lfloor>y / f32_ulp y + 1 / 2\<rfloor>"
    by (rule floor_mono)
  then have "real_of_int \<lfloor>x / f32_ulp y + 1 / 2\<rfloor> * f32_ulp y
      \<le> real_of_int \<lfloor>y / f32_ulp y + 1 / 2\<rfloor> * f32_ulp y"
    using f32_ulp_pos [of y] by simp
  then show ?thesis
    unfolding f32_pos_eq [OF assms(1)] f32_pos_eq [OF y] True .
next
  case False
  have y: "0 < y"
    using assms by simp
  have "f32 x \<le> 2 ^ 24 * f32_ulp x"
    by (rule f32_in_binade(2) [OF assms(1)])
  also have "\<dots> = 2 ^ 23 * (2 * f32_ulp x)"
    by simp
  also have "\<dots> \<le> 2 ^ 23 * f32_ulp y"
    using f32_ulp_step [OF assms False] by simp
  also have "\<dots> \<le> f32 y"
    by (rule f32_in_binade(1) [OF y])
  finally show ?thesis .
qed

lemma f32_mono:
  assumes "0 \<le> x" and "x \<le> y"
  shows "f32 x \<le> f32 y"
proof (cases "x = 0")
  case True
  then show ?thesis
    using f32_nonneg [of y] assms by (simp add: f32_def)
next
  case False
  then show ?thesis
    using f32_mono_pos [of x y] assms by simp
qed

lemma f32_one: "f32 1 = 1"
proof -
  have "f32_ulp 1 = 2 powr (- 23)"
    by (simp add: f32_ulp_def)
  also have "\<dots> = 1 / 2 ^ 23"
    by (simp add: powr_minus powr_numeral inverse_eq_divide del: power_numeral)
  finally have u: "f32_ulp 1 = 1 / 2 ^ 23" .
  have "\<lfloor>(2 ^ 23 :: real) + 1 / 2\<rfloor> = 2 ^ 23"
    by (intro floor_unique) simp_all
  then show ?thesis
    by (simp add: f32_def u)
qed

lemma f32_four: "f32 4 = 4"
proof -
  have "log 2 4 = 2"
    using log_pow_cancel [of 2 2] by simp
  then have "f32_ulp 4 = 2 powr (- 21)"
    by (simp add: f32_ulp_def)
  also have "\<dots> = 1 / 2 ^ 21"
    by (simp add: powr_minus powr_numeral inverse_eq_divide del: power_numeral)
  finally have u: "f32_ulp 4 = 1 / 2 ^ 21" .
  have "\<lfloor>(4 * 2 ^ 21 :: real) + 1 / 2\<rfloor> = 4 * 2 ^ 21"
    by (intro floor_unique) simp_all
  then show ?thesis
    by (simp add: f32_def u)
qed

lemma f32_near_one:
  assumes "1 - 1 / 2 ^ 25 \<le> x" and "x \<le> 1"
  shows "f32 x = 1"
proof (cases "x = 1")
  case True
  then show ?thesis
    by (simp add: f32_one)
next
  case False
  then have x1: "x < 1"
    using assms by simp
  have small: "(1::real) / 2 ^ 25 \<le> 1 / 2"
    by simp
  have half: "1 / 2 \<le> x"
    using assms(1) small by linarith
  have x0: "0 < x"
    using half by linarith
  have "\<lfloor>log 2 x\<rfloor> = - 1"
    using floor_log_eq_powr_iff [of x 2 "- 1"] x0 x1 half by (simp add: powr_minus)
  then have "f32_ulp x = 2 powr (- 24)"
    using x0 by (simp add: f32_ulp_def)
  also have "\<dots> = 1 / 2 ^ 24"
    by (simp add: powr_minus powr_numeral inverse_eq_divide del: power_numeral)
  finally have u: "f32_ulp x = 1 / 2 ^ 24" .
  have "\<lfloor>x * 2 ^ 24 + 1 / 2\<rfloor> = 2 ^ 24"
  proof (rule floor_unique)
    have "(1 - 1 / 2 ^ 25) * 2 ^ 24 \<le> x * 2 ^ 24"
      using assms(1) by (simp del: power_numeral)
    then show "real_of_int (2 ^ 24) \<le> x * 2 ^ 24 + 1 / 2"
      by simp
    show "x * 2 ^ 24 + 1 / 2 < real_of_int (2 ^ 24) + 1"
      using x1 by simp
  qed
  then show ?thesis
    using x0 by (simp add: f32_pos_eq u)
qed

lemma sigmoid_f32_range: "0 \<le> sigmoid_f32 x" "sigmoid_f32 x \<le> 1"
proof -
  show "0 \<le> sigmoid_f32 x"
    unfolding sigmoid_f32_def using sigmoid_pos [of x] by (intro f32_nonneg) simp
  have "f32 (sigmoid x) \<le> f32 1"
    using sigmoid_pos [of x] sigmoid_less_one [of x] by (intro f32_mono) simp_all
  then show "sigmoid_f32 x \<le> 1"
    by (simp add: sigmoid_f32_def f32_one)
qed

lemma sigmoid_mono:
  assumes "x \<le> y"
  shows "sigmoid x \<le> sigmoid y"
  using sigmoid_strict_mono [of x y] assms by (cases "x = y") simp_all

lemma sigmoid_f32_mono:
  assumes "x \<le> y"
  shows "sigmoid_f32 x \<le> sigmoid_f32 y"
  unfolding sigmoid_f32_def
  using sigmoid_pos [of x] sigmoid_mono [OF assms] by (intro f32_mono) simp_all

lemma sigmoid_30: "1 - 1 / 2 ^ 25 \<le> sigmoid 30"
proof -
  have "(1 + 1 :: real) \<le> exp 1"
    by (rule exp_ge_add_one_self)
  then have "(1 + 1 :: real) ^ 30 \<le> exp 1 ^ 30"
    by (rule power_mono) simp
  moreover have "exp (1::real) ^ 30 = exp 30"
    using exp_of_nat_mult [of 30 "1::real"] by simp
  ultimately have big: "(2::real) ^ 30 \<le> exp 30"
    by simp
  have "exp (- 30 :: real) = 1 / exp 30"
    by (simp add: exp_minus inverse_eq_divide)
  also have "\<dots> \<le> 1 / 2 ^ 30"
    using big by (intro divide_left_mono) simp_all
  finally have small: "exp (- 30 :: real) \<le> 1 / 2 ^ 30" .
  have pos: "0 < 1 + exp (- 30 :: real)"
    by (simp add: add_pos_pos)
  have "1 / (1 + exp (- 30 :: real)) + exp (- 30) / (1 + exp (- 30)) = 1"
    unfolding add_divide_distrib [symmetric] using pos by simp
  then have "1 - sigmoid 30 = exp (- 30) / (1 + exp (- 30))"
    by (simp add: sigmoid_def)
  also have "\<dots> \<le> exp (- 30) / 1"
    using pos by (intro divide_left_mono) simp_all
  finally have "1 - sigmoid 30 \<le> 1 / 2 ^ 30"
    using small by simp
  moreover have "(1::real) / 2 ^ 30 \<le> 1 / 2 ^ 25"
    by simp
  ultimately show ?thesis
    by linarith
qed

lemma sigmoid_f32_saturates:
  assumes "30 \<le> x"
  shows "sigmoid_f32 x = 1"
proof -
  have "1 - 1 / 2 ^ 25 \<le> sigmoid x"
    using sigmoid_30 sigmoid_mono [OF assms] by linarith
  then show ?thesis
    unfolding sigmoid_f32_def using sigmoid_less_one [of x] by (intro f32_near_one) simp_all
qed

lemma wh_f32_inner:
  shows "0 \<le> f32 (4 * f32 (square (sigmoid_f32 r)))"
    and "f32 (4 * f32 (square (sigmoid_f32 r))) \<le> 4"
    and "r \<le> r' \<Longrightarrow> f32 (4 * f32 (square (sigmoid_f32 r)))
                      \<le> f32 (4 * f32 (square (sigmoid_f32 r')))"
proof -
  have sq0: "0 \<le> square (sigmoid_f32 x)" for x
    by (simp add: square_def)
  have sq1: "square (sigmoid_f32 x) \<le> 1" for x
    unfolding square_def
    using sigmoid_f32_range [of x] by (simp add: mult_le_one)
  have f0: "0 \<le> f32 (square (sigmoid_f32 x))" for x
    by (rule f32_nonneg [OF sq0])
  have f1: "f32 (square (sigmoid_f32 x)) \<le> 1" for x
    using f32_mono [OF sq0 sq1, of x] by (simp add: f32_one)
  show "0 \<le> f32 (4 * f32 (square (sigmoid_f32 r)))"
    using f0 [of r] by (intro f32_nonneg) simp
  have "f32 (4 * f32 (square (sigmoid_f32 r))) \<le> f32 4"
    using f0 [of r] f1 [of r] by (intro f32_mono) simp_all
  then show "f32 (4 * f32 (square (sigmoid_f32 r))) \<le> 4"
    by (simp add: f32_four)
  show "f32 (4 * f32 (square (sigmoid_f32 r))) \<le> f32 (4 * f32 (square (sigmoid_f32 r')))"
    if "r \<le> r'"
  proof -
    have "square (sigmoid_f32 r) \<le> square (sigmoid_f32 r')"
      unfolding square_def
      using sigmoid_f32_mono [OF that] sigmoid_f32_range(1) [of r] by (intro mult_mono) simp_all
    then have "f32 (square (sigmoid_f32 r)) \<le> f32 (square (sigmoid_f32 r'))"
      by (rule f32_mono [OF sq0])
    then show ?thesis
      using f0 [of r] by (intro f32_mono) simp_all
  qed
qed

lemma wh_f32_bound:
  assumes "0 < a"
  shows "wh_f32 a r \<le> f32 (4 * a)"
  unfolding wh_f32_def
  using wh_f32_inner(1,2) [of r] assms by (intro f32_mono) (simp_all add: mult_right_mono)

lemma wh_f32_mono:
  assumes "0 < a" and "r \<le> r'"
  shows "wh_f32 a r \<le> wh_f32 a r'"
  unfolding wh_f32_def
  using wh_f32_inner(1) [of r] wh_f32_inner(3) [OF assms(2)] assms(1)
  by (intro f32_mono) (simp_all add: mult_right_mono)

lemma wh_f32_saturates:
  assumes "30 \<le> r"
  shows "wh_f32 a r = f32 (4 * a)"
  by (simp add: wh_f32_def sigmoid_f32_saturates [OF assms] square_def f32_one f32_four)

lemma newcords_f32_box_wh:
  "box_wh (pred_box_of (get_predicted_box_newcords_f32 width height (rx, ry, rw, rh) (aw, ah) g
       scale_x_y iou_normalizer max_delta))
     = (wh_f32 aw rw, wh_f32 ah rh)"
  by (cases g) (simp add: pred_box_of_def Let_def box_gradient_trap_def wh_f32_def)

text \<open>
  Claim C6, as amended. For the new-coordinates codec with positive anchor priors the
  decoded width and height are \<open>4 * sigmoid(raw)\<^sup>2 * anchor\<close>. As computed in single
  precision they are at most \<open>4 * anchor\<close> and do not decrease when the raw input grows;
  from the raw input 30 on, the sigmoid is 1 and they are equal to \<open>4 * anchor\<close>. In exact
  arithmetic they are strictly below \<open>4 * anchor\<close> and strictly increasing.
\<close>

theorem newcords_wh_float32:
  assumes "0 < aw" and "0 < ah"
  shows "box_wh (pred_box_of (get_predicted_box_newcords_f32 width height (rx, ry, rw, rh)
             (aw, ah) g scale_x_y iou_normalizer max_delta))
           = (f32 (f32 (4 * f32 (square (sigmoid_f32 rw))) * aw),
              f32 (f32 (4 * f32 (square (sigmoid_f32 rh))) * ah))
       \<and> f32 (f32 (4 * f32 (square (sigmoid_f32 rw))) * aw) \<le> f32 (4 * aw)
       \<and> f32 (f32 (4 * f32 (square (sigmoid_f32 rh))) * ah) \<le> f32 (4 * ah)
       \<and> (\<forall>rw' rh'. rw \<le> rw' \<and> rh \<le> rh' \<longrightarrow>
            fst (box_wh (pred_box_of (get_predicted_box_newcords_f32 width height
                  (rx, ry, rw, rh) (aw, ah) g scale_x_y iou_normalizer max_delta)))
              \<le> fst (box_wh (pred_box_of (get_predicted_box_newcords_f32 width height
                  (rx, ry, rw', rh') (aw, ah) g scale_x_y iou_normalizer max_delta)))
          \<and> snd (box_wh (pred_box_of (get_predicted_box_newcords_f32 width height
                  (rx, ry, rw, rh) (aw, ah) g scale_x_y iou_normalizer max_delta)))
              \<le> snd (box_wh (pred_box_of (get_predicted_box_newcords_f32 width height
                  (rx, ry, rw', rh') (aw, ah) g scale_x_y iou_normalizer max_delta))))
       \<and> (30 \<le> rw \<longrightarrow> f32 (f32 (4 * f32 (square (sigmoid_f32 rw))) * aw) = f32 (4 * aw))
       \<and> (30 \<le> rh \<longrightarrow> f32 (f32 (4 * f32 (square (sigmoid_f32 rh))) * ah) = f32 (4 * ah))
       \<and> box_wh (pred_box_of (get_predicted_box_newcords width height (rx, ry, rw, rh)
             (aw, ah) g scale_x_y iou_normalizer max_delta))
           = (4 * (sigmoid rw)\<^sup>2 * aw, 4 * (sigmoid rh)\<^sup>2 * ah)
       \<and> 4 * (sigmoid rw)\<^sup>2 * aw < 4 * aw
       \<and> 4 * (sigmoid rh)\<^sup>2 * ah < 4 * ah
       \<and> (\<forall>rw' rh'. rw < rw' \<and> rh < rh' \<longrightarrow>
            4 * (sigmoid rw)\<^sup>2 * aw < 4 * (sigmoid rw')\<^sup>2 * aw
          \<and> 4 * (sigmoid rh)\<^sup>2 * ah < 4 * (sigmoid rh')\<^sup>2 * ah)"
proof -
  have sq: "(sigmoid r)\<^sup>2 = square (sigmoid r)" for r
    by (simp add: square_def power2_eq_square)
  have exact: "box_wh (pred_box_of (get_predicted_box_newcords width height (rx, ry, rw, rh)
             (aw, ah) g scale_x_y iou_normalizer max_delta))
           = (4 * (sigmoid rw)\<^sup>2 * aw, 4 * (sigmoid rh)\<^sup>2 * ah)"
    unfolding newcords_box_wh sq by (rule refl)
  have bw: "4 * (sigmoid rw)\<^sup>2 * aw < 4 * aw"
    unfolding sq using square_sigmoid_less_one [of rw] assms(1) by simp
  have bh: "4 * (sigmoid rh)\<^sup>2 * ah < 4 * ah"
    unfolding sq using square_sigmoid_less_one [of rh] assms(2) by simp
  have mono: "4 * (sigmoid r)\<^sup>2 * a < 4 * (sigmoid r')\<^sup>2 * a"
    if "r < r'" and "0 < a" for r r' a
    unfolding sq using square_sigmoid_strict_mono [OF that(1)] that(2) by simp
  have fl: "box_wh (pred_box_of (get_predicted_box_newcords_f32 width height (rx, ry, r, r')
             (aw, ah) g scale_x_y iou_normalizer max_delta)) = (wh_f32 aw r, wh_f32 ah r')" for r r'
    by (rule newcords_f32_box_wh)
  show ?thesis
    unfolding fl exact fst_conv snd_conv
    using wh_f32_bound [OF assms(1), of rw] wh_f32_bound [OF assms(2), of rh]
      wh_f32_mono [OF assms(1), of rw] wh_f32_mono [OF assms(2), of rh]
      wh_f32_saturates [of rw aw] wh_f32_saturates [of rh ah]
      bw bh mono [OF _ assms(1), of rw] mono [OF _ assms(2), of rh]
    by (simp add: wh_f32_def)
qed

theorem newcords_wh_float32_witness:
  "(0::real) < 1 \<and>
   fst (box_wh (pred_box_of (get_predicted_box_newcords_f32 13 13 (0, 0, 0, 0) (1, 1) (0, 0) 1
          (Fin 1) (Fin 5)))) \<le> 4 \<and>
   fst (box_wh (pred_box_of (get_predicted_box_newcords_f32 13 13 (0, 0, 0, 0) (1, 1) (0, 0) 1
          (Fin 1) (Fin 5))))
     \<le> fst (box_wh (pred_box_of (get_predicted_box_newcords_f32 13 13 (0, 0, 1, 1) (1, 1) (0, 0) 1
          (Fin 1) (Fin 5)))) \<and>
   box_wh (pred_box_of (get_predicted_box_newcords 13 13 (0, 0, 0, 0) (1, 1) (0, 0) 1
          (Fin 1) (Fin 5))) = (1, 1)"
proof -
  have a: "(0::real) < 1"
    by simp
  note t = newcords_wh_float32 [OF a a, of 13 13 0 0 0 0 "(0, 0)" 1 "Fin 1" "Fin 5"]
  have eq: "box_wh (pred_box_of (get_predicted_box_newcords_f32 13 13 (0, 0, 0, 0) (1, 1) (0, 0) 1
          (Fin 1) (Fin 5)))
      = (f32 (f32 (4 * f32 (square (sigmoid_f32 0))) * 1),
         f32 (f32 (4 * f32 (square (sigmoid_f32 0))) * 1))"
    using t by (rule conjunct1)
  have "f32 (f32 (4 * f32 (square (sigmoid_f32 0))) * 1) \<le> f32 (4 * 1)"
    using t by (elim conjE)
  then have bound: "fst (box_wh (pred_box_of (get_predicted_box_newcords_f32 13 13 (0, 0, 0, 0)
      (1, 1) (0, 0) 1 (Fin 1) (Fin 5)))) \<le> 4"
    unfolding eq by (simp add: f32_four)
  have mono: "fst (box_wh (pred_box_of (get_predicted_box_newcords_f32 13 13 (0, 0, 0, 0) (1, 1)
      (0, 0) 1 (Fin 1) (Fin 5))))
     \<le> fst (box_wh (pred_box_of (get_predicted_box_newcords_f32 13 13 (0, 0, 1, 1) (1, 1) (0, 0) 1
          (Fin 1) (Fin 5))))"
    using t [THEN conjunct2, THEN conjunct2, THEN conjunct2, THEN conjunct1, rule_format, of 1 1]
    by simp
  have "box_wh (pred_box_of (get_predicted_box_newcords 13 13 (0, 0, 0, 0) (1, 1) (0, 0) 1
          (Fin 1) (Fin 5))) = (4 * (sigmoid 0)\<^sup>2 * 1, 4 * (sigmoid 0)\<^sup>2 * 1)"
    using t by (elim conjE)
  then have exact: "box_wh (pred_box_of (get_predicted_box_newcords 13 13 (0, 0, 0, 0) (1, 1)
      (0, 0) 1 (Fin 1) (Fin 5))) = (1, 1)"
    by (simp add: sigmoid_def power2_eq_square)
  from a bound mono exact show ?thesis
    by (intro conjI)
qed

text \<open>
  Claim C6 as stated: in single precision the raw inputs 30 and 40 both decode, with the
  anchor \<open>(1, 1)\<close>, to the width and height 4, which is \<open>4 * anchor\<close> and not below it, and
  the larger raw input gives no larger a width.
\<close>

theorem newcords_float32_saturates:
  "box_wh (pred_box_of (get_predicted_box_newcords_f32 13 13 (0, 0, 30, 30) (1, 1) (0, 0) 1
          (Fin 1) (Fin 5))) = (4 * 1, 4 * 1)
   \<and> box_wh (pred_box_of (get_predicted_box_newcords_f32 13 13 (0, 0, 40, 40) (1, 1) (0, 0) 1
          (Fin 1) (Fin 5))) = (4 * 1, 4 * 1)"
proof -
  have "wh_f32 1 30 = 4" and "wh_f32 1 40 = 4"
    using wh_f32_saturates [of 30 1] wh_f32_saturates [of 40 1] by (simp_all add: f32_four)
  then show ?thesis
    unfolding newcords_f32_box_wh by simp
qed

end
